theory Spec2Isabelle
  imports Complex_Main "HOL-Library.Multiset" "HOL-Library.Log_Nat"
begin

section \<open>Strings and numbers of the source language\<close>

text \<open>
  The program is JavaScript. A JavaScript string is a sequence of 16-bit code units; it is
  modelled as the list of these code units, each a natural number, so that the bullet glyph
  (U+2022) and the dashes (U+2013, U+2014) the section parser looks for are single elements,
  as they are in the source. \<open>js\<close> turns a literal of Basic Latin characters into such
  a list. Numbers of the source are IEEE doubles. Counts and indices are naturals;
  similarity scores and term weights are real numbers; the arithmetic of the ATS score,
  whose last step rounds to an integer, is that of the doubles (see the end of this
  section).
\<close>

type_synonym jstring = "nat list"

definition js :: "string \<Rightarrow> jstring" where
  "js s = map of_char s"

text \<open>
  \<open>String.prototype.toLowerCase\<close>, on the letters of Basic Latin; other code units are
  left as they are.
\<close>

definition lowerUnit :: "nat \<Rightarrow> nat" where
  "lowerUnit c = (if 65 \<le> c \<and> c \<le> 90 then c + 32 else c)"

definition toLowerCase :: "jstring \<Rightarrow> jstring" where
  "toLowerCase s = map lowerUnit s"

text \<open>
  The code units that \<open>trim\<close> removes and that the regular-expression class \<open>\s\<close>
  matches: tab, line feed, vertical tab, form feed, carriage return, space, no-break space,
  the Unicode space separators, the line and paragraph separators and the byte-order mark.
\<close>

definition isWhiteSpace :: "nat \<Rightarrow> bool" where
  "isWhiteSpace c =
     ((9 \<le> c \<and> c \<le> 13) \<or> c = 32 \<or> c = 160 \<or> c = 5760 \<or> (8192 \<le> c \<and> c \<le> 8202)
      \<or> c = 8232 \<or> c = 8233 \<or> c = 8239 \<or> c = 8287 \<or> c = 12288 \<or> c = 65279)"

definition trimStart :: "jstring \<Rightarrow> jstring" where
  "trimStart s = dropWhile isWhiteSpace s"

definition trimEnd :: "jstring \<Rightarrow> jstring" where
  "trimEnd s = rev (dropWhile isWhiteSpace (rev s))"

definition trim :: "jstring \<Rightarrow> jstring" where
  "trim s = trimEnd (trimStart s)"

definition startsWith :: "jstring \<Rightarrow> jstring \<Rightarrow> bool" where
  "startsWith s p = (take (length p) s = p)"

definition endsWith :: "jstring \<Rightarrow> jstring \<Rightarrow> bool" where
  "endsWith s p = (length p \<le> length s \<and> drop (length s - length p) s = p)"

text \<open>
  \<open>s.indexOf(t)\<close>: the first position at which \<open>t\<close> occurs in \<open>s\<close>; the source's
  \<open>-1\<close> is \<open>None\<close>. \<open>indexOfFrom\<close> carries the position reached so far.
\<close>

fun indexOfFrom :: "nat \<Rightarrow> jstring \<Rightarrow> jstring \<Rightarrow> nat option" where
  "indexOfFrom i [] t = (if t = [] then Some i else None)"
| "indexOfFrom i (c # cs) t =
     (if startsWith (c # cs) t then Some i else indexOfFrom (Suc i) cs t)"

definition indexOf :: "jstring \<Rightarrow> jstring \<Rightarrow> nat option" where
  "indexOf s t = indexOfFrom 0 s t"

text \<open>\<open>s.includes(t)\<close>.\<close>

definition includesStr :: "jstring \<Rightarrow> jstring \<Rightarrow> bool" where
  "includesStr s t = (indexOf s t \<noteq> None)"

text \<open>\<open>s.substring(a, b)\<close> for \<open>a \<le> b\<close>; indices beyond the end are cut to the length.\<close>

definition substring :: "jstring \<Rightarrow> nat \<Rightarrow> nat \<Rightarrow> jstring" where
  "substring s a b = take (b - a) (drop a s)"

text \<open>\<open>s.split(sep)\<close> for a separator of one code unit: never empty, one piece more than separators.\<close>

fun splitOn :: "nat \<Rightarrow> jstring \<Rightarrow> jstring list" where
  "splitOn sep [] = [[]]"
| "splitOn sep (c # cs) =
     (case splitOn sep cs of
        [] \<Rightarrow> (if c = sep then [[], []] else [[c]])
      | p # ps \<Rightarrow> (if c = sep then [] # p # ps else (c # p) # ps))"


subsection \<open>Arithmetic on doubles\<close>

text \<open>
  A double (binary64) has 53 significant bits: the doubles \<open>x\<close> with
  \<open>2 ^ e \<le> \<bar>x\<bar> < 2 ^ (e + 1)\<close> are the multiples of \<open>2 ^ (e - 52)\<close>, for \<open>e\<close> from
  \<open>-1022\<close> upwards, and those below \<open>2 ^ -1022\<close> are the multiples of \<open>2 ^ -1074\<close>. A
  decimal literal denotes the double nearest to it, and the sum, product or quotient of two
  doubles is the exact result rounded to the nearest double; of two nearest doubles the one
  with the even significand is taken. \<open>toDouble\<close> is this rounding, \<open>roundTiesToEven\<close>
  the rounding of the significand and \<open>exponentOf\<close> the exponent \<open>e\<close>, read off the
  number of bits of \<open>\<lfloor>\<bar>x\<bar>\<rfloor>\<close> or, below 1, of \<open>\<lceil>1 / \<bar>x\<bar>\<rceil> - 1\<close>. The numbers of the score
  lie between 0 and a few hundred and the counts are lengths of arrays, below \<open>2 ^ 32\<close>:
  negative zero, \<open>NaN\<close> and the overflow to \<open>Infinity\<close> do not arise, and the model
  has no largest exponent.
\<close>

definition roundTiesToEven :: "real \<Rightarrow> int" where
  "roundTiesToEven x =
     (let n = \<lfloor>x\<rfloor>; r = x - of_int n
      in if r < 1 / 2 then n else if 1 / 2 < r then n + 1 else if even n then n else n + 1)"

definition exponentOf :: "real \<Rightarrow> int" where
  "exponentOf x =
     max (- 1022)
       (if 1 \<le> \<bar>x\<bar> then bitlen \<lfloor>\<bar>x\<bar>\<rfloor> - 1 else - bitlen (\<lceil>1 / \<bar>x\<bar>\<rceil> - 1))"

definition toDouble :: "real \<Rightarrow> real" where
  "toDouble x =
     (if x = 0 then 0
      else of_int (roundTiesToEven (x / 2 powi (exponentOf x - 52)))
           * 2 powi (exponentOf x - 52))"


section \<open>Skill normalisation (nlp.utils.js)\<close>

text \<open>
  The object literal \<open>skillNormalizations\<close>, entry by entry in the order of the source,
  one list for each of its commented groups. Two keys are written twice
  (\<open>react native\<close>, \<open>oracle\<close>).
  Property lookup on a JavaScript object also finds what every object inherits; of the
  inherited names only \<open>constructor\<close> and \<open>__proto__\<close> are lower case, and the model
  is about all other terms.
\<close>

definition jsEcosystem :: "(string \<times> string) list" where
  "jsEcosystem =
   [(''reactjs'', ''react''), (''react.js'', ''react''), (''react native'', ''react''),
    (''nodejs'', ''node.js''), (''node'', ''node.js''), (''vuejs'', ''vue''),
    (''vue.js'', ''vue''), (''angularjs'', ''angular''), (''angular.js'', ''angular''),
    (''angular 2'', ''angular''), (''angular 4'', ''angular''), (''nextjs'', ''next.js''),
    (''next'', ''next.js''), (''nuxtjs'', ''nuxt.js''), (''nuxt'', ''nuxt.js''),
    (''express'', ''express.js''), (''expressjs'', ''express.js''), (''jquery'', ''jquery''),
    (''js'', ''javascript''), (''javascript'', ''javascript''), (''es6'', ''javascript''),
    (''ecmascript'', ''javascript'')]"

definition typeScriptNames :: "(string \<times> string) list" where
  "typeScriptNames =
   [(''ts'', ''typescript''), (''typescript'', ''typescript'')]"

definition pythonNames :: "(string \<times> string) list" where
  "pythonNames =
   [(''py'', ''python''), (''python'', ''python''), (''python2'', ''python''),
    (''python3'', ''python''), (''django'', ''django''), (''flask'', ''flask''),
    (''fastapi'', ''fastapi'')]"

definition databases :: "(string \<times> string) list" where
  "databases =
   [(''postgres'', ''postgresql''), (''postgresql'', ''postgresql''),
    (''postgre'', ''postgresql''), (''psql'', ''postgresql''), (''mongo'', ''mongodb''),
    (''mongodb'', ''mongodb''), (''mysql'', ''mysql''), (''mariadb'', ''mysql''),
    (''mssql'', ''sql server''), (''sql server'', ''sql server''), (''oracle'', ''oracle''),
    (''redis'', ''redis''), (''elasticsearch'', ''elasticsearch''),
    (''cassandra'', ''cassandra''), (''dynamodb'', ''dynamodb''), (''nosql'', ''nosql''),
    (''sql'', ''sql'')]"

definition cloudPlatforms :: "(string \<times> string) list" where
  "cloudPlatforms =
   [(''aws'', ''amazon web services''), (''amazon web services'', ''aws''), (''ec2'', ''aws''),
    (''lambda'', ''aws lambda''), (''s3'', ''aws s3''), (''gcp'', ''google cloud platform''),
    (''google cloud'', ''google cloud platform''), (''google cloud platform'', ''gcp''),
    (''azure'', ''microsoft azure''), (''microsoft azure'', ''azure'')]"

definition devOpsTools :: "(string \<times> string) list" where
  "devOpsTools =
   [(''k8s'', ''kubernetes''), (''kubernetes'', ''kubernetes''), (''docker'', ''docker''),
    (''ci/cd'', ''continuous integration''), (''cicd'', ''continuous integration''),
    (''continuous integration'', ''ci/cd''), (''continuous deployment'', ''ci/cd''),
    (''devops'', ''development operations''), (''jenkins'', ''jenkins''),
    (''gitlab'', ''gitlab''), (''github'', ''github''), (''git'', ''git''),
    (''bitbucket'', ''bitbucket''), (''terraform'', ''terraform''), (''ansible'', ''ansible''),
    (''puppet'', ''puppet''), (''chef'', ''chef'')]"

definition webTechnologies :: "(string \<times> string) list" where
  "webTechnologies =
   [(''html'', ''html5''), (''html5'', ''html''), (''css'', ''css3''), (''css3'', ''css''),
    (''sass'', ''scss''), (''scss'', ''sass''), (''less'', ''less''),
    (''bootstrap'', ''bootstrap''), (''tailwind'', ''tailwind css''),
    (''tailwindcss'', ''tailwind css''), (''material ui'', ''material-ui''),
    (''mui'', ''material-ui'')]"

definition apiCommunication :: "(string \<times> string) list" where
  "apiCommunication =
   [(''api'', ''apis''), (''apis'', ''api''), (''rest'', ''restful''),
    (''restful'', ''rest api''), (''rest api'', ''restful''), (''graphql'', ''graphql''),
    (''grpc'', ''grpc''), (''websocket'', ''websockets''), (''websockets'', ''websocket'')]"

definition machineLearning :: "(string \<times> string) list" where
  "machineLearning =
   [(''ml'', ''machine learning''), (''machine learning'', ''ml''),
    (''ai'', ''artificial intelligence''), (''artificial intelligence'', ''ai''),
    (''deep learning'', ''deep learning''), (''dl'', ''deep learning''),
    (''nlp'', ''natural language processing''), (''natural language processing'', ''nlp''),
    (''tensorflow'', ''tensorflow''), (''pytorch'', ''pytorch''), (''keras'', ''keras''),
    (''scikit-learn'', ''scikit-learn''), (''sklearn'', ''scikit-learn'')]"

definition mobileDevelopment :: "(string \<times> string) list" where
  "mobileDevelopment =
   [(''ios'', ''ios''), (''android'', ''android''), (''react native'', ''react native''),
    (''flutter'', ''flutter''), (''swift'', ''swift''), (''kotlin'', ''kotlin''),
    (''objective-c'', ''objective-c''), (''objective c'', ''objective-c'')]"

definition testingNames :: "(string \<times> string) list" where
  "testingNames =
   [(''jest'', ''jest''), (''mocha'', ''mocha''), (''chai'', ''chai''), (''junit'', ''junit''),
    (''pytest'', ''pytest''), (''selenium'', ''selenium''), (''cypress'', ''cypress''),
    (''testing'', ''testing''), (''unit testing'', ''testing''),
    (''integration testing'', ''testing''), (''e2e'', ''end-to-end testing''),
    (''end to end testing'', ''e2e'')]"

definition methodologies :: "(string \<times> string) list" where
  "methodologies =
   [(''agile'', ''agile''), (''scrum'', ''scrum''), (''kanban'', ''kanban''),
    (''waterfall'', ''waterfall''), (''tdd'', ''test driven development''),
    (''test driven development'', ''tdd''), (''bdd'', ''behavior driven development'')]"

definition otherLanguages :: "(string \<times> string) list" where
  "otherLanguages =
   [(''java'', ''java''), (''c#'', ''c sharp''), (''c sharp'', ''c#''), (''c++'', ''c++''),
    (''c'', ''c''), (''go'', ''golang''), (''golang'', ''go''), (''rust'', ''rust''),
    (''ruby'', ''ruby''), (''php'', ''php''), (''r'', ''r''), (''scala'', ''scala''),
    (''elixir'', ''elixir'')]"

definition cmsEcommerce :: "(string \<times> string) list" where
  "cmsEcommerce =
   [(''wordpress'', ''wordpress''), (''wp'', ''wordpress''), (''drupal'', ''drupal''),
    (''shopify'', ''shopify''), (''magento'', ''magento''), (''woocommerce'', ''woocommerce'')]"

definition businessTools :: "(string \<times> string) list" where
  "businessTools =
   [(''salesforce'', ''salesforce''), (''sap'', ''sap''), (''oracle'', ''oracle''),
    (''jira'', ''jira''), (''confluence'', ''confluence''), (''slack'', ''slack''),
    (''teams'', ''microsoft teams''), (''microsoft teams'', ''teams'')]"

definition dataAnalytics :: "(string \<times> string) list" where
  "dataAnalytics =
   [(''tableau'', ''tableau''), (''power bi'', ''power bi''), (''powerbi'', ''power bi''),
    (''looker'', ''looker''), (''excel'', ''excel''), (''spreadsheets'', ''excel''),
    (''google sheets'', ''google sheets''), (''spark'', ''apache spark''),
    (''apache spark'', ''spark''), (''hadoop'', ''hadoop''), (''kafka'', ''apache kafka''),
    (''apache kafka'', ''kafka''), (''airflow'', ''airflow'')]"

definition versionControl :: "(string \<times> string) list" where
  "versionControl =
   [(''version control'', ''git''), (''source control'', ''git''), (''svn'', ''subversion''),
    (''subversion'', ''svn'')]"

definition skillNormalizationEntries :: "(string \<times> string) list" where
  "skillNormalizationEntries =
     jsEcosystem @ typeScriptNames @ pythonNames @ databases @ cloudPlatforms @ devOpsTools @
     webTechnologies @ apiCommunication @ machineLearning @ mobileDevelopment @ testingNames @
     methodologies @ otherLanguages @ cmsEcommerce @ businessTools @ dataAnalytics @
     versionControl"

text \<open>
  Reading a property of an object written as a literal: of two entries with the same key
  the later one counts, so the rest of the list is searched first.
\<close>

fun objectGet :: "(string \<times> string) list \<Rightarrow> jstring \<Rightarrow> jstring option" where
  "objectGet [] k = None"
| "objectGet ((a, b) # es) k =
     (case objectGet es k of
        Some v \<Rightarrow> Some v
      | None \<Rightarrow> if js a = k then Some (js b) else None)"

definition skillNormalizations :: "jstring \<rightharpoonup> jstring" where
  "skillNormalizations = objectGet skillNormalizationEntries"

text \<open>\<open>normalizeSkill\<close>: lower-case, trim, then the table's value if there is one.\<close>

definition normalizeSkill :: "jstring \<Rightarrow> jstring" where
  "normalizeSkill skill =
     (let lower = trim (toLowerCase skill)
      in case skillNormalizations lower of Some v \<Rightarrow> v | None \<Rightarrow> lower)"

text \<open>
  \<open>calculateSimilarity\<close> and \<open>findBestMatch\<close>. The coefficient
  \<open>compareTwoStrings\<close> comes from the package string-similarity, which is not part of
  the repository: it is a parameter of every function that calls it, and the properties
  below hold for every coefficient. A result object \<open>{match, score}\<close> is a record,
  \<open>null\<close> being \<open>None\<close>.
\<close>

record best_match =
  match :: "jstring option"
  score :: real

definition calculateSimilarity ::
  "(jstring \<Rightarrow> jstring \<Rightarrow> real) \<Rightarrow> jstring \<Rightarrow> jstring \<Rightarrow> real" where
  "calculateSimilarity compareTwoStrings skill1 skill2 =
     (let normalized1 = normalizeSkill skill1;
          normalized2 = normalizeSkill skill2
      in if normalized1 = normalized2 then 1 else compareTwoStrings normalized1 normalized2)"

text \<open>
  \<open>matches.reduce((prev, current) => current.score > prev.score ? current : prev)\<close>
  on a list with first element \<open>m\<close>: the first of the candidates with the highest
  score.
\<close>

definition reduceBest :: "(jstring \<times> real) \<Rightarrow> (jstring \<times> real) list \<Rightarrow> jstring \<times> real" where
  "reduceBest m ms = foldl (\<lambda>prev current. if snd current > snd prev then current else prev) m ms"

definition findBestMatch ::
  "(jstring \<Rightarrow> jstring \<Rightarrow> real) \<Rightarrow> jstring \<Rightarrow> jstring list \<Rightarrow> best_match" where
  "findBestMatch compareTwoStrings targetSkill skillsList =
     (case map (\<lambda>skill. (skill, calculateSimilarity compareTwoStrings targetSkill skill))
             skillsList of
        [] \<Rightarrow> \<lparr>match = None, score = 0\<rparr>
      | m # ms \<Rightarrow>
          (let best = reduceBest m ms in \<lparr>match = Some (fst best), score = snd best\<rparr>))"

definition genericWords :: "string list" where
  "genericWords =
   [''description'', ''experience'', ''skills'', ''education'', ''work'', ''job'',
    ''company'', ''team'', ''role'', ''position'', ''responsibilities'', ''requirements'',
    ''qualifications'', ''candidate'', ''professional'', ''summary'', ''objective'',
    ''things'', ''stuff'', ''various'', ''multiple'', ''several'', ''many'', ''some'',
    ''good'', ''great'', ''excellent'', ''strong'', ''ability'', ''knowledge'',
    ''years'', ''required'', ''preferred'', ''must'', ''should'', ''will'', ''can'',
    ''seeking'', ''looking'', ''join'', ''growing'', ''field'', ''related'', ''degree'']"

definition isGenericWord :: "jstring \<Rightarrow> bool" where
  "isGenericWord word = (toLowerCase word \<in> set (map js genericWords))"


section \<open>Text preprocessing and term frequency (nlp.utils.js)\<close>

text \<open>
  The argument of \<open>preprocessText\<close> is any JavaScript value; only whether it is a string,
  and which, matters to the function.
\<close>

datatype js_value = JUndefined | JNull | JBoolean bool | JNumber real | JString jstring | JObject

text \<open>The class \<open>\w\<close>: digits, letters of Basic Latin and the underscore.\<close>

definition isDigit :: "nat \<Rightarrow> bool" where
  "isDigit c = (48 \<le> c \<and> c \<le> 57)"

definition isWordChar :: "nat \<Rightarrow> bool" where
  "isWordChar c = (isDigit c \<or> (65 \<le> c \<and> c \<le> 90) \<or> c = 95 \<or> (97 \<le> c \<and> c \<le> 122))"

text \<open>\<open>.replace(/\s+/g, ' ')\<close>: every maximal run of white space becomes one space.\<close>

function replaceWhiteSpaceRuns :: "jstring \<Rightarrow> jstring" where
  "replaceWhiteSpaceRuns [] = []"
| "replaceWhiteSpaceRuns (c # cs) =
     (if isWhiteSpace c then 32 # replaceWhiteSpaceRuns (dropWhile isWhiteSpace cs)
      else c # replaceWhiteSpaceRuns cs)"
  by pat_completeness auto
termination
  by (relation "measure length") (auto simp: le_imp_less_Suc length_dropWhile_le)

text \<open>
  The class \<open>[^\w\s\.\+\#\-\/\(\)]\<close> of the second replacement: everything but word
  characters, white space and the seven characters \<open>. + # - / ( )\<close>.
\<close>

definition isTechnicalChar :: "nat \<Rightarrow> bool" where
  "isTechnicalChar c = (c = 46 \<or> c = 43 \<or> c = 35 \<or> c = 45 \<or> c = 47 \<or> c = 40 \<or> c = 41)"

definition isRemovedChar :: "nat \<Rightarrow> bool" where
  "isRemovedChar c = (\<not> isWordChar c \<and> \<not> isWhiteSpace c \<and> \<not> isTechnicalChar c)"

definition replaceOtherChars :: "jstring \<Rightarrow> jstring" where
  "replaceOtherChars s = map (\<lambda>c. if isRemovedChar c then 32 else c) s"

text \<open>
  \<open>.replace(/\b\s+/g, ' ')\<close>: a run of white space that starts at a word boundary, that
  is, right after a word character, becomes one space. The flag says whether the code unit
  before the current position is a word character.
\<close>

function replaceBoundaryWhiteSpace :: "bool \<Rightarrow> jstring \<Rightarrow> jstring" where
  "replaceBoundaryWhiteSpace prevWord [] = []"
| "replaceBoundaryWhiteSpace prevWord (c # cs) =
     (if prevWord \<and> isWhiteSpace c
      then 32 # replaceBoundaryWhiteSpace False (dropWhile isWhiteSpace cs)
      else c # replaceBoundaryWhiteSpace (isWordChar c) cs)"
  by pat_completeness auto
termination
  by (relation "measure (\<lambda>(p, s). length s)") (auto simp: le_imp_less_Suc length_dropWhile_le)

definition preprocessText :: "js_value \<Rightarrow> jstring" where
  "preprocessText text =
     (case text of
        JString s \<Rightarrow>
          (if s = [] then []
           else trim (replaceBoundaryWhiteSpace False
                  (replaceWhiteSpaceRuns (replaceOtherChars (replaceWhiteSpaceRuns s)))))
      | _ \<Rightarrow> [])"

text \<open>
  \<open>calculateTFIDF(text, [text])\<close>, as the engine calls it: with one document there is no
  inverse document frequency, and the result maps every word longer than two code units to
  its count divided by the number of words. The preprocessed text is split at white space.
\<close>

definition splitWords :: "jstring \<Rightarrow> jstring list" where
  "splitWords s = splitOn 32 (replaceWhiteSpaceRuns s)"

definition calculateTFIDF :: "jstring \<Rightarrow> jstring \<rightharpoonup> real" where
  "calculateTFIDF text =
     (let ws = splitWords (preprocessText (JString text));
          totalWords = length ws
      in (\<lambda>term. if term \<in> set ws \<and> length term > 2
                  then Some (real (count_list ws term) / real totalWords) else None))"


section \<open>Typo-tolerant matching (spellcheck.utils.js)\<close>

text \<open>
  \<open>levenshteinDistance\<close> fills a matrix row by row. \<open>levRow\<close> computes the cells
  \<open>1 .. len2\<close> of one row from the row above (whose first two cells are the diagonal and
  the upper neighbour) and the cell to the left; \<open>levRows\<close> runs through the rows, row
  \<open>i\<close> starting with \<open>i\<close>; the result is the last cell of the last row.
\<close>

fun levRow :: "nat \<Rightarrow> jstring \<Rightarrow> nat list \<Rightarrow> nat \<Rightarrow> nat list" where
  "levRow c (d # ds) (diag # up # prev) left =
     (let cost = (if c = d then 0 else 1);
          cell = min (min (up + 1) (left + 1)) (diag + cost)
      in cell # levRow c ds (up # prev) cell)"
| "levRow c ds prev left = []"

fun levRows :: "nat \<Rightarrow> jstring \<Rightarrow> jstring \<Rightarrow> nat list \<Rightarrow> nat list" where
  "levRows i [] str2 row = row"
| "levRows i (c # cs) str2 row = levRows (Suc i) cs str2 (i # levRow c str2 row i)"

definition levenshteinDistance :: "jstring \<Rightarrow> jstring \<Rightarrow> nat" where
  "levenshteinDistance str1 str2 = last (levRows 1 str1 str2 [0 ..< Suc (length str2)])"

definition areSkillsSimilar :: "jstring \<Rightarrow> jstring \<Rightarrow> nat \<Rightarrow> bool" where
  "areSkillsSimilar skill1 skill2 threshold =
     (let s1 = trim (toLowerCase skill1);
          s2 = trim (toLowerCase skill2)
      in if s1 = s2 then True
         else (let distance = levenshteinDistance s1 s2;
                   maxLen = max (length s1) (length s2);
                   allowedDistance = (if maxLen \<le> 5 then 1 else threshold)
               in distance \<le> allowedDistance))"

text \<open>The object literal \<open>commonTechTypos\<close>; its keys are distinct.\<close>

definition commonTechTypos :: "(string \<times> string) list" where
  "commonTechTypos =
   [(''pyhton'', ''python''), (''pytohn'', ''python''), (''javasript'', ''javascript''),
    (''javascirpt'', ''javascript''), (''javascrpit'', ''javascript''),
    (''typescipt'', ''typescript''), (''typescirpt'', ''typescript''),
    (''kuberntes'', ''kubernetes''), (''kuberentes'', ''kubernetes''),
    (''postgre'', ''postgresql''), (''postgress'', ''postgresql''), (''mongod'', ''mongodb''),
    (''mongobd'', ''mongodb''), (''reactjs'', ''react''), (''react.js'', ''react''),
    (''nodejs'', ''node.js''), (''node.js'', ''node''), (''angularjs'', ''angular''),
    (''vuejs'', ''vue''), (''vue.js'', ''vue''), (''expresjs'', ''express''),
    (''expres'', ''express''), (''redis'', ''redis''), (''rediss'', ''redis''),
    (''docker'', ''docker''), (''dokcer'', ''docker''), (''git'', ''git''),
    (''github'', ''github''), (''gitlab'', ''gitlab''), (''jira'', ''jira''),
    (''aws'', ''aws''), (''gcp'', ''gcp''), (''azure'', ''azure''), (''asure'', ''azure'')]"

text \<open>
  \<open>autocorrectSkill\<close>: the table's value for the lower-cased term; else the value of the
  first key, in the order of the table, within edit distance one of it; else the term as
  it was given.
\<close>

definition autocorrectSkill :: "jstring \<Rightarrow> jstring" where
  "autocorrectSkill skill =
     (let lower = trim (toLowerCase skill)
      in case objectGet commonTechTypos lower of
           Some v \<Rightarrow> v
         | None \<Rightarrow>
             (case find (\<lambda>(typo, v). areSkillsSimilar lower (js typo) 1) commonTechTypos of
                Some (typo, v) \<Rightarrow> js v
              | None \<Rightarrow> skill))"

record typo_match = best_match +
  corrected :: bool

text \<open>
  The score of one candidate in \<open>findBestMatchWithTypoTolerance\<close>: 1 for an equal string,
  else the larger of the coefficient and \<open>1 - distance / maxLen\<close>.
\<close>

definition typoScore :: "(jstring \<Rightarrow> jstring \<Rightarrow> real) \<Rightarrow> jstring \<Rightarrow> jstring \<Rightarrow> real" where
  "typoScore compareTwoStrings skillToMatch skill =
     (let s = toLowerCase skill
      in if skillToMatch = s then 1
         else (let similarity = compareTwoStrings skillToMatch s;
                   distance = levenshteinDistance skillToMatch s;
                   maxLen = max (length skillToMatch) (length s);
                   levenSimilarity = 1 - real distance / real maxLen
               in max similarity levenSimilarity))"

definition findBestMatchWithTypoTolerance ::
  "(jstring \<Rightarrow> jstring \<Rightarrow> real) \<Rightarrow> jstring \<Rightarrow> jstring list \<Rightarrow> real \<Rightarrow> typo_match" where
  "findBestMatchWithTypoTolerance compareTwoStrings targetSkill skillsList threshold =
     (let corrected = autocorrectSkill targetSkill;
          skillToMatch = toLowerCase corrected
      in case map (\<lambda>skill. (skill, typoScore compareTwoStrings skillToMatch skill))
                skillsList of
           [] \<Rightarrow> \<lparr>match = None, score = 0, corrected = False\<rparr>
         | m # ms \<Rightarrow>
             (let best = reduceBest m ms
              in \<lparr>match = (if snd best \<ge> threshold then Some (fst best) else None),
                  score = snd best,
                  corrected = (corrected \<noteq> targetSkill)\<rparr>))"


section \<open>The experience section (section.detector.js)\<close>

text \<open>
  A title line has four digits in a row, or one of the job words, or a separator: the
  vertical bar (124), the en dash (8211) or the em dash (8212).
\<close>

fun hasFourDigits :: "jstring \<Rightarrow> bool" where
  "hasFourDigits (a # b # c # d # cs) =
     ((isDigit a \<and> isDigit b \<and> isDigit c \<and> isDigit d) \<or> hasFourDigits (b # c # d # cs))"
| "hasFourDigits cs = False"

definition jobWords :: "string list" where
  "jobWords =
   [''engineer'', ''developer'', ''manager'', ''analyst'', ''designer'', ''consultant'',
    ''specialist'', ''lead'', ''senior'', ''junior'']"

definition isJobTitleLine :: "jstring \<Rightarrow> bool" where
  "isJobTitleLine line =
     (if hasFourDigits line then True
      else if list_ex (\<lambda>word. includesStr (toLowerCase line) (js word)) jobWords then True
      else if 124 \<in> set line \<or> 8211 \<in> set line \<or> 8212 \<in> set line then True
      else False)"

text \<open>
  A bullet line starts, after white space, with a bullet glyph (8226), a hyphen, an
  asterisk or a plus sign, or with digits followed by a full stop or a closing parenthesis.
\<close>

definition isBulletGlyph :: "nat \<Rightarrow> bool" where
  "isBulletGlyph c = (c = 8226 \<or> c = 45 \<or> c = 42 \<or> c = 43)"

definition isBulletPoint :: "jstring \<Rightarrow> bool" where
  "isBulletPoint line =
     (let rest = dropWhile isWhiteSpace line
      in (case rest of [] \<Rightarrow> False | c # cs \<Rightarrow> isBulletGlyph c)
         \<or> (takeWhile isDigit rest \<noteq> []
             \<and> (case dropWhile isDigit rest of [] \<Rightarrow> False | c # cs \<Rightarrow> c = 46 \<or> c = 41)))"

text \<open>
  \<open>cleanBullet\<close> removes the leading run of the class \<open>[\s\<bullet>\-\*\+\d\.\)]\<close> and trims.
\<close>

definition isMarkerChar :: "nat \<Rightarrow> bool" where
  "isMarkerChar c = (isWhiteSpace c \<or> isBulletGlyph c \<or> isDigit c \<or> c = 46 \<or> c = 41)"

definition cleanBullet :: "jstring \<Rightarrow> jstring" where
  "cleanBullet bullet = trim (dropWhile isMarkerChar bullet)"

record job =
  title :: jstring
  bullets :: "jstring list"

text \<open>
  The loop of \<open>parseExperienceSection\<close> over the non-blank lines; its state is the list
  \<open>jobs\<close> and the variable \<open>currentJob\<close>.
\<close>

fun parseLine :: "jstring \<Rightarrow> job list \<times> job option \<Rightarrow> job list \<times> job option" where
  "parseLine line (jobs, currentJob) =
     (let trimmed = trim line
      in if isJobTitleLine trimmed
         then ((case currentJob of Some j \<Rightarrow> jobs @ [j] | None \<Rightarrow> jobs),
               Some \<lparr>title = trimmed, bullets = []\<rparr>)
         else (case currentJob of
                 Some j \<Rightarrow>
                   if isBulletPoint trimmed
                   then (jobs, Some (j\<lparr>bullets := bullets j @ [cleanBullet trimmed]\<rparr>))
                   else (jobs, Some j)
               | None \<Rightarrow> (jobs, None)))"

definition contentLines :: "jstring \<Rightarrow> jstring list" where
  "contentLines experienceText = filter (\<lambda>l. trim l \<noteq> []) (splitOn 10 experienceText)"

definition parseExperienceSection :: "jstring \<Rightarrow> job list" where
  "parseExperienceSection experienceText =
     (if experienceText = [] then []
      else (case fold parseLine (contentLines experienceText) ([], None) of
              (jobs, Some j) \<Rightarrow> jobs @ [j]
            | (jobs, None) \<Rightarrow> jobs))"


section \<open>The matching engine (ats.engine.js)\<close>

subsection \<open>Job-description analysis\<close>

text \<open>
  The objects of the engine are records. Objects that share the properties \<open>weight\<close> and
  \<open>isRequired\<close> extend one record that has these two, so that one selector reads them in
  all: a missing skill is \<open>{term, weight, isRequired, isPreferred}\<close>, a weighted term adds
  \<open>originalTerm\<close> and \<open>frequency\<close> to that; a partial match is
  \<open>{jdTerm, resumeTerm, score, weight, isRequired, typoCorrection}\<close>, and a strong match
  adds \<open>inSkillsSection\<close> and \<open>inExperience\<close>.
\<close>

record weighted =
  weight :: real
  isRequired :: bool

record missing_skill = weighted +
  "term" :: jstring
  isPreferred :: bool

record weighted_term = missing_skill +
  originalTerm :: jstring
  frequency :: nat

record partial_match = weighted +
  jdTerm :: jstring
  resumeTerm :: "jstring option"
  score :: real
  typoCorrection :: bool

record strong_match = partial_match +
  inSkillsSection :: bool
  inExperience :: bool

text \<open>\<open>isNoiseTerm\<close>, for a string argument.\<close>

definition actionWords :: "string list" where
  "actionWords =
   [''experience'', ''building'', ''developing'', ''creating'', ''implementing'',
    ''collaborating'', ''participate'', ''integrate'', ''optimize'', ''troubleshoot'',
    ''knowledge'', ''proficiency'', ''expertise'', ''familiarity'', ''understanding'']"

text \<open>The patterns of the form \<open>/^(a|b|...)$/i\<close>, in the order of the source.\<close>

definition noiseWords :: "string list" where
  "noiseWords =
   [''required'', ''preferred'', ''must'', ''should'', ''year'', ''years'', ''month'',
    ''months'', ''experience'', ''experiences'',
    ''responsibilities'', ''qualifications'', ''skills'', ''education'', ''work'', ''job'',
    ''role'', ''position'',
    ''knowledge'', ''proficiency'', ''expertise'', ''familiarity'', ''understanding'',
    ''solid'', ''strong'',
    ''experience'', ''building'', ''developing'', ''creating'', ''implementing'',
    ''collaborating'',
    ''participate'', ''participating'', ''integrate'', ''integrating'', ''optimize'',
    ''optimizing'',
    ''troubleshoot'', ''troubleshooting'', ''collaborate'', ''collaborating'',
    ''implement'', ''implementing'', ''develop'', ''developing'', ''build'', ''building'',
    ''party'', ''third'', ''high'', ''best'', ''technical'', ''practices'', ''issues'',
    ''performance'',
    ''stack'', ''full'', ''developer'', ''applications'', ''services'', ''practices'',
    ''operations'']"

text \<open>The two patterns that match anywhere in the term.\<close>

definition noiseFragments :: "string list" where
  "noiseFragments =
   [''growing team'', ''our team'', ''join'', ''seeking'', ''looking'', ''candidate'',
    ''ideal'', ''bachelor'', ''degree'', ''field'', ''related'', ''computer science'']"

text \<open>The pattern \<open>/^(and|with|the|for|from|plus|bonus)\s/i\<close>.\<close>

definition noiseLeadWords :: "string list" where
  "noiseLeadWords = [''and'', ''with'', ''the'', ''for'', ''from'', ''plus'', ''bonus'']"

definition startsWithLeadWord :: "jstring \<Rightarrow> bool" where
  "startsWithLeadWord lower =
     list_ex (\<lambda>w. startsWith lower (js w)
                 \<and> (case drop (length w) lower of [] \<Rightarrow> False | c # cs \<Rightarrow> isWhiteSpace c))
       noiseLeadWords"

definition isNoiseTerm :: "jstring \<Rightarrow> bool" where
  "isNoiseTerm t =
     (if length t < 3 then True
      else (let cleaned = trim t
            in if cleaned \<noteq> t then True
               else if (case cleaned of [] \<Rightarrow> False
                        | c # cs \<Rightarrow> c = 45 \<or> c = 8226 \<or> c = 42 \<or> isDigit c \<or> c = 43
                                    \<or> c = 46 \<or> c = 58) then True
               else if cleaned \<noteq> []
                       \<and> last cleaned \<in> {46, 58, 44, 59, 33} then True
               else if toLowerCase cleaned \<in> set (map js actionWords) then True
               else toLowerCase cleaned \<in> set (map js noiseWords)
                    \<or> list_ex (\<lambda>f. includesStr (toLowerCase cleaned) (js f)) noiseFragments
                    \<or> startsWithLeadWord (toLowerCase cleaned)))"

definition qualifiers :: "string list" where
  "qualifiers =
   [''strong proficiency'', ''strong expertise'', ''solid understanding'',
    ''good knowledge'', ''excellent skills'', ''proven experience'',
    ''deep understanding'', ''extensive experience'', ''broad knowledge'',
    ''strong background'', ''solid experience'', ''good understanding'',
    ''strong knowledge'', ''proven ability'', ''demonstrated ability'',
    ''strong skills'', ''good skills'', ''excellent knowledge'',
    ''years of experience'', ''experience with'', ''knowledge of'',
    ''proficiency in'', ''expertise in'', ''familiarity with'',
    ''understanding of'', ''background in'', ''skills in'']"

definition isQualifierTerm :: "jstring \<Rightarrow> bool" where
  "isQualifierTerm t =
     (if t = [] then True
      else (let cleaned = trim (toLowerCase t)
            in list_ex (\<lambda>q. includesStr cleaned (js q) \<or> includesStr (js q) cleaned)
                 qualifiers))"

text \<open>
  \<open>categorizeSkillImportance\<close>. The two sets are lists without repetition, in the order
  in which their elements were added. A term that does not occur in the lower-cased text is
  passed over; otherwise the window reaches 100 code units to either side of the first
  occurrence.
\<close>

definition setAdd :: "'a \<Rightarrow> 'a list \<Rightarrow> 'a list" where
  "setAdd x xs = (if x \<in> set xs then xs else xs @ [x])"

definition requiredIndicators :: "string list" where
  "requiredIndicators =
     [''required'', ''must have'', ''mandatory'', ''essential'', ''must be'', ''need to'']"

definition preferredIndicators :: "string list" where
  "preferredIndicators =
     [''preferred'', ''nice to have'', ''bonus'', ''plus'', ''desired'', ''ideal'']"

text \<open>The window around a term found at \<open>termIndex\<close>.\<close>

definition contextOf :: "jstring \<Rightarrow> nat \<Rightarrow> jstring \<Rightarrow> jstring" where
  "contextOf lowerText termIndex termLower =
     (let contextStart = termIndex - 100;
          contextEnd = min (length lowerText) (termIndex + length termLower + 100)
      in substring lowerText contextStart contextEnd)"

fun categorizeTerm ::
  "jstring \<Rightarrow> jstring \<Rightarrow> jstring list \<times> jstring list \<Rightarrow> jstring list \<times> jstring list" where
  "categorizeTerm lowerText t (required, preferred) =
     (let termLower = toLowerCase t
      in case indexOf lowerText termLower of
           None \<Rightarrow> (required, preferred)
         | Some termIndex \<Rightarrow>
             (let context = contextOf lowerText termIndex termLower
              in if list_ex (\<lambda>indicator. includesStr context (js indicator)) requiredIndicators
                 then (setAdd (normalizeSkill t) required, preferred)
                 else if list_ex (\<lambda>indicator. includesStr context (js indicator))
                           preferredIndicators
                 then (required, setAdd (normalizeSkill t) preferred)
                 else (setAdd (normalizeSkill t) required, preferred)))"

definition categorizeSkillImportance ::
  "jstring \<Rightarrow> jstring list \<Rightarrow> jstring list \<times> jstring list" where
  "categorizeSkillImportance jdText terms =
     fold (categorizeTerm (toLowerCase jdText)) terms ([], [])"

text \<open>
  The number of matches of the escaped term as a global, case-insensitive pattern: the
  occurrences from left to right that do not overlap. The first argument counts the code
  units still covered by the last match.
\<close>

fun countMatches :: "nat \<Rightarrow> jstring \<Rightarrow> jstring \<Rightarrow> nat" where
  "countMatches k [] t = 0"
| "countMatches (Suc k) (c # cs) t = countMatches k cs t"
| "countMatches 0 (c # cs) t =
     (if startsWith (c # cs) t then Suc (countMatches (length t - 1) cs t)
      else countMatches 0 cs t)"

definition termFrequency :: "jstring \<Rightarrow> jstring \<Rightarrow> nat" where
  "termFrequency jdText t =
     (if t = [] then Suc (length jdText)
      else countMatches 0 (toLowerCase jdText) (toLowerCase t))"

text \<open>The weighting of one term in \<open>analyzeJobDescription\<close>.\<close>

definition weighTerm ::
  "jstring \<Rightarrow> (jstring \<rightharpoonup> real) \<Rightarrow> jstring list \<Rightarrow> jstring list \<Rightarrow> jstring \<Rightarrow> weighted_term" where
  "weighTerm jdText tfidf required preferred t =
     (let normalized = normalizeSkill t;
          baseWeight = (case tfidf (toLowerCase t) of
                          Some w \<Rightarrow> if w = 0 then 0.1 else w
                        | None \<Rightarrow> 0.1);
          weight1 = (if normalized \<in> set required then baseWeight * 3 else baseWeight);
          weight2 = (if normalized \<in> set preferred then weight1 * 1.5 else weight1);
          frequency = termFrequency jdText t;
          weight3 = (if frequency > 2 then weight2 * 1.3 else weight2);
          weight4 = (if isGenericWord t then weight3 * 0.3 else weight3)
      in \<lparr>weight = weight4,
          isRequired = (normalized \<in> set required),
          term = normalized,
          isPreferred = (normalized \<in> set preferred),
          originalTerm = t,
          frequency = frequency\<rparr>)"

text \<open>\<open>removeDuplicatesByNormalized\<close>, with the set \<open>seen\<close> as an argument.\<close>

fun removeSeen :: "jstring list \<Rightarrow> weighted_term list \<Rightarrow> weighted_term list" where
  "removeSeen seen [] = []"
| "removeSeen seen (t # ts) =
     (if term t \<in> set seen then removeSeen seen ts
      else t # removeSeen (setAdd (term t) seen) ts)"

definition removeDuplicatesByNormalized :: "weighted_term list \<Rightarrow> weighted_term list" where
  "removeDuplicatesByNormalized terms = removeSeen [] terms"

record jd_analysis =
  skills :: "jstring list"
  phrases :: "jstring list"
  weightedTerms :: "weighted_term list"
  requiredSkills :: "jstring list"
  preferredSkills :: "jstring list"

text \<open>
  \<open>analyzeJobDescription\<close>. The lists \<open>extractedSkills\<close> and
  \<open>extractedPhrases\<close> are what \<open>extractSkills\<close> and \<open>extractPhrases\<close> return
  for the text; both rest on the language model of the package compromise and are
  arguments here. The sort by descending
  weight is stable.
\<close>

definition analyzeJobDescription ::
  "jstring \<Rightarrow> jstring list \<Rightarrow> jstring list \<Rightarrow> jd_analysis" where
  "analyzeJobDescription jdText extractedSkills extractedPhrases =
     (let cleanedSkills =
            filter (\<lambda>s. \<not> isNoiseTerm s \<and> \<not> isQualifierTerm s) extractedSkills;
          cleanedPhrases =
            filter (\<lambda>p. \<not> isNoiseTerm p \<and> \<not> isQualifierTerm p) extractedPhrases;
          allTerms = cleanedSkills @ cleanedPhrases;
          tfidf = calculateTFIDF jdText;
          (required, preferred) = categorizeSkillImportance jdText allTerms;
          weighted = map (weighTerm jdText tfidf required preferred) allTerms;
          uniqueTerms = removeDuplicatesByNormalized weighted
      in \<lparr>skills = extractedSkills,
          phrases = extractedPhrases,
          weightedTerms = sort_key (\<lambda>t. - weight t) uniqueTerms,
          requiredSkills = required,
          preferredSkills = preferred\<rparr>)"


subsection \<open>Matching the resume against the weighted terms\<close>

datatype section_name =
  Header | Summary | Skills | Experience | Education | Projects | Certifications | Achievements

text \<open>A property that holds a non-empty string is truthy; an absent one and \<open>''\<close> are not.\<close>

definition truthy :: "jstring option \<Rightarrow> bool" where
  "truthy v = (case v of Some s \<Rightarrow> s \<noteq> [] | None \<Rightarrow> False)"

record matches =
  strongMatch :: "strong_match list"
  partialMatch :: "partial_match list"
  missing :: "missing_skill list"

definition isTermInExperience :: "jstring \<Rightarrow> job list \<Rightarrow> bool" where
  "isTermInExperience t experienceJobs =
     list_ex (\<lambda>job. list_ex (\<lambda>bullet. includesStr (toLowerCase bullet) (toLowerCase t))
                      (bullets job))
       experienceJobs"

text \<open>
  The two constants of the loop body: \<open>bestMatch\<close>, the typo-tolerant result at threshold
  0.70, and \<open>finalMatch\<close>, which is \<open>bestMatch\<close> if that found a term and the result of
  \<open>findBestMatch\<close> otherwise.
\<close>

definition bestMatchFor ::
  "(jstring \<Rightarrow> jstring \<Rightarrow> real) \<Rightarrow> jstring \<Rightarrow> jstring list \<Rightarrow> typo_match" where
  "bestMatchFor compareTwoStrings jdTermName allResumeTerms =
     findBestMatchWithTypoTolerance compareTwoStrings jdTermName allResumeTerms 0.70"

definition finalMatchFor ::
  "(jstring \<Rightarrow> jstring \<Rightarrow> real) \<Rightarrow> jstring \<Rightarrow> jstring list \<Rightarrow> best_match" where
  "finalMatchFor compareTwoStrings jdTermName allResumeTerms =
     (let bestMatch = bestMatchFor compareTwoStrings jdTermName allResumeTerms
      in if truthy (match bestMatch) then best_match.truncate bestMatch
         else findBestMatch compareTwoStrings jdTermName allResumeTerms)"

text \<open>
  The three objects the loop pushes. In the strong branch \<open>finalMatch.match\<close> is a
  string (its score is positive, so the list of resume terms is not empty); the model gives
  the two section flags the value \<open>False\<close> for \<open>null\<close>.
\<close>

definition strongRecord ::
  "(jstring \<Rightarrow> jstring \<Rightarrow> real) \<Rightarrow> jstring list \<Rightarrow> jstring list \<Rightarrow> job list
   \<Rightarrow> weighted_term \<Rightarrow> strong_match" where
  "strongRecord compareTwoStrings allResumeTerms explicitSkillList jobs jdT =
     (let bestMatch = bestMatchFor compareTwoStrings (term jdT) allResumeTerms;
          finalMatch = finalMatchFor compareTwoStrings (term jdT) allResumeTerms
      in \<lparr>weight = weight jdT,
          isRequired = isRequired jdT,
          jdTerm = term jdT,
          resumeTerm = match finalMatch,
          score = best_match.score finalMatch,
          typoCorrection = corrected bestMatch,
          inSkillsSection =
            (case match finalMatch of
               Some m \<Rightarrow> m \<in> set explicitSkillList | None \<Rightarrow> False),
          inExperience =
            (case match finalMatch of
               Some m \<Rightarrow> isTermInExperience m jobs | None \<Rightarrow> False)\<rparr>)"

definition partialRecord ::
  "(jstring \<Rightarrow> jstring \<Rightarrow> real) \<Rightarrow> jstring list \<Rightarrow> weighted_term \<Rightarrow> partial_match" where
  "partialRecord compareTwoStrings allResumeTerms jdT =
     (let bestMatch = bestMatchFor compareTwoStrings (term jdT) allResumeTerms;
          finalMatch = finalMatchFor compareTwoStrings (term jdT) allResumeTerms
      in \<lparr>weight = weight jdT,
          isRequired = isRequired jdT,
          jdTerm = term jdT,
          resumeTerm = match finalMatch,
          score = best_match.score finalMatch,
          typoCorrection = corrected bestMatch\<rparr>)"

definition missingRecord :: "weighted_term \<Rightarrow> missing_skill" where
  "missingRecord jdT =
     \<lparr>weight = weight jdT,
      isRequired = isRequired jdT,
      term = term jdT,
      isPreferred = isPreferred jdT\<rparr>"

text \<open>The body of the loop over the weighted terms; the three arrays are the state.\<close>

definition matchTerm ::
  "(jstring \<Rightarrow> jstring \<Rightarrow> real) \<Rightarrow> jstring list \<Rightarrow> jstring list \<Rightarrow> job list
   \<Rightarrow> weighted_term \<Rightarrow> matches \<Rightarrow> matches" where
  "matchTerm compareTwoStrings allResumeTerms explicitSkillList jobs jdT ms =
     (let finalMatch = finalMatchFor compareTwoStrings (term jdT) allResumeTerms
      in if best_match.score finalMatch \<ge> 0.65
         then ms\<lparr>strongMatch := strongMatch ms @
                [strongRecord compareTwoStrings allResumeTerms explicitSkillList jobs jdT]\<rparr>
         else if best_match.score finalMatch \<ge> 0.45
         then ms\<lparr>partialMatch := partialMatch ms @
                [partialRecord compareTwoStrings allResumeTerms jdT]\<rparr>
         else ms\<lparr>missing := missing ms @ [missingRecord jdT]\<rparr>)"

record resume_metrics =
  hasMetrics :: bool
  totalSkills :: nat
  explicitSkills :: nat

record match_results =
  matches :: matches
  sections :: "section_name \<rightharpoonup> jstring"
  experienceJobs :: "job list"
  explicitSkills :: "jstring list"
  resumeMetrics :: resume_metrics

text \<open>
  \<open>matchResumeToJD\<close>. What the function takes from the resume text through functions
  outside this development is given to it: the section map (after the fallback for a
  resume without sections), the terms \<open>extractSkills\<close> and \<open>extractPhrases\<close> return, the
  list \<open>parseSkillsSection\<close> returns and the result of \<open>hasQuantifiableMetrics\<close>.
\<close>

record resume_facts =
  resumeSections :: "section_name \<rightharpoonup> jstring"
  resumeSkills :: "jstring list"
  resumePhrases :: "jstring list"
  parsedSkills :: "jstring list"
  metricsFound :: bool

definition allResumeTermsOf :: "resume_facts \<Rightarrow> jstring list" where
  "allResumeTermsOf resume =
     filter (\<lambda>t. t \<noteq> [] \<and> length t > 2)
       (map normalizeSkill (resumeSkills resume @ resumePhrases resume))"

definition matchResumeToJD ::
  "(jstring \<Rightarrow> jstring \<Rightarrow> real) \<Rightarrow> resume_facts \<Rightarrow> jd_analysis \<Rightarrow> match_results" where
  "matchResumeToJD compareTwoStrings resume jdAnalysis =
     (let allResumeTerms = allResumeTermsOf resume;
          explicitSkillList =
            (if truthy (resumeSections resume Skills) then parsedSkills resume else []);
          jobs =
            (case resumeSections resume Experience of
               Some e \<Rightarrow> if e \<noteq> [] then parseExperienceSection e else []
             | None \<Rightarrow> [])
      in \<lparr>matches =
            fold (matchTerm compareTwoStrings allResumeTerms explicitSkillList jobs)
              (weightedTerms jdAnalysis)
              \<lparr>strongMatch = [], partialMatch = [], missing = []\<rparr>,
          sections = resumeSections resume,
          experienceJobs = jobs,
          explicitSkills = explicitSkillList,
          resumeMetrics =
            \<lparr>hasMetrics = metricsFound resume,
             totalSkills = length allResumeTerms,
             explicitSkills = length explicitSkillList\<rparr>\<rparr>)"


subsection \<open>The score\<close>

text \<open>
  The sub-scores and the score are computed in doubles: every literal that is not a whole
  number and every sum, product and quotient is rounded by \<open>toDouble\<close>; whole numbers and
  the counts are doubles as they are, and \<open>Math.min\<close> and \<open>Math.max\<close> return one of
  their arguments.
\<close>

definition calculateSkillMatchScore :: "match_results \<Rightarrow> real" where
  "calculateSkillMatchScore matchResults =
     (let strongMatchCount = length (strongMatch (matches matchResults));
          partialMatchCount = length (partialMatch (matches matchResults));
          missingCount = length (missing (matches matchResults));
          totalTerms = strongMatchCount + partialMatchCount + missingCount
      in if totalTerms = 0 then toDouble 0.50
         else (let weightedMatches =
                     toDouble (real strongMatchCount
                               + toDouble (real partialMatchCount * toDouble 0.95));
                   rawScore = toDouble (weightedMatches / real totalTerms)
               in min 1 (max (toDouble 0.3) rawScore)))"

text \<open>
  \<open>calculateRequiredMatchScore\<close> is given as the real number it stands for. The program
  holds the rounding of that number: the product by 0.75 and the sum are exact in doubles,
  the quotient is rounded once, and the maximum with 0.25 commutes with the rounding (lemma
  \<open>requiredMatch_rounding\<close>).
\<close>

definition calculateRequiredMatchScore :: "match_results \<Rightarrow> real" where
  "calculateRequiredMatchScore matchResults =
     (let requiredMatches = length (filter isRequired (strongMatch (matches matchResults)));
          requiredPartialMatches =
            length (filter isRequired (partialMatch (matches matchResults)));
          requiredMissing = length (filter isRequired (missing (matches matchResults)));
          totalRequired = requiredMatches + requiredPartialMatches + requiredMissing
      in if totalRequired = 0 then 1.0
         else (let weightedRequiredMatches =
                     real requiredMatches + real requiredPartialMatches * 0.75;
                   rawScore = weightedRequiredMatches / real totalRequired
               in max 0.25 rawScore))"

definition calculateDemonstrationScore :: "match_results \<Rightarrow> real" where
  "calculateDemonstrationScore matchResults =
     (let demonstratedCount = length (filter inExperience (strongMatch (matches matchResults)));
          totalStrongMatches = length (strongMatch (matches matchResults))
      in if totalStrongMatches = 0 then 0
         else toDouble (real demonstratedCount / real totalStrongMatches))"

text \<open>
  \<open>calculateStructureScore\<close>: each of the three sections counts towards the maximum if
  its key is defined, and towards the score if its content is truthy. \<open>sectionPart\<close> is
  one of the three \<open>if\<close> statements, for the literal \<open>w\<close>; its state is the pair of
  \<open>score\<close> and \<open>maxScore\<close>.
\<close>

definition sectionPart :: "jstring option \<Rightarrow> real \<Rightarrow> real \<times> real \<Rightarrow> real \<times> real" where
  "sectionPart v w acc =
     (case v of
        None \<Rightarrow> acc
      | Some s \<Rightarrow> (toDouble (fst acc + (if s \<noteq> [] then toDouble w else 0)),
                   toDouble (snd acc + toDouble w)))"

definition calculateStructureScore :: "match_results \<Rightarrow> real" where
  "calculateStructureScore matchResults =
     (let acc = sectionPart (sections matchResults Summary) 0.2
                  (sectionPart (sections matchResults Experience) 0.4
                     (sectionPart (sections matchResults Skills) 0.4 (0, 0)));
          score = fst acc;
          maxScore = snd acc
      in if maxScore > 0 then toDouble (score / maxScore) else 0)"

text \<open>
  \<open>Math.round\<close>: the nearest integer, a half rounded upwards. The function computes this
  integer exactly.
\<close>

definition mathRound :: "real \<Rightarrow> int" where
  "mathRound x = \<lfloor>x + 1 / 2\<rfloor>"

text \<open>
  \<open>calculateATSScore\<close>. The loop over \<open>WEIGHTS\<close> runs through the five entries in the
  order of the keys, with the statement \<open>finalScore += componentScores[component] * weight\<close>
  as its body.
\<close>

definition weightedSum :: "match_results \<Rightarrow> real" where
  "weightedSum matchResults =
     foldl (\<lambda>finalScore (componentScore, weight).
              toDouble (finalScore + toDouble (componentScore * weight)))
       0
       [(calculateSkillMatchScore matchResults, toDouble 0.55),
        (toDouble (calculateRequiredMatchScore matchResults), toDouble 0.18),
        (calculateDemonstrationScore matchResults, toDouble 0.10),
        (calculateStructureScore matchResults, toDouble 0.10),
        (if hasMetrics (resumeMetrics matchResults) then 1 else 0, toDouble 0.07)]"

definition calculateATSScore :: "match_results \<Rightarrow> int" where
  "calculateATSScore matchResults =
     (let finalScore = weightedSum matchResults;
          score0 = toDouble (finalScore * 100);
          score1 = toDouble (score0 * toDouble 1.4);
          baseScore = 20;
          score2 = max score1 baseScore;
          strongMatchCount = length (strongMatch (matches matchResults));
          partialMatchCount = length (partialMatch (matches matchResults));
          score3 = (if strongMatchCount > 0
                    then toDouble (score2 + min 12 (toDouble (real strongMatchCount
                                                              * toDouble 0.8)))
                    else score2);
          score4 = (if partialMatchCount > 0
                    then toDouble (score3 + min 8 (toDouble (real partialMatchCount
                                                             * toDouble 0.5)))
                    else score3);
          score5 = (if truthy (sections matchResults Skills)
                       \<and> truthy (sections matchResults Experience)
                    then toDouble (score4 + 5) else score4);
          score6 = (if hasMetrics (resumeMetrics matchResults) then toDouble (score5 + 3)
                    else score5)
      in mathRound (min 100 score6))"


subsection \<open>The analysis as a whole\<close>

text \<open>
  \<open>performATSAnalysis\<close>. An entry of \<open>strongMatches\<close> is the tuple of \<open>skill\<close>,
  \<open>matchedAs\<close>, \<open>inSkillsSection\<close>, \<open>demonstrated\<close> and \<open>importance\<close>; an entry of
  \<open>partialMatches\<close> that of \<open>skill\<close>, \<open>matchedAs\<close>, \<open>similarity\<close> and \<open>importance\<close>;
  an entry of \<open>missingSkills\<close> that of \<open>skill\<close>, \<open>importance\<close> and \<open>impact\<close>. The
  section feedback, the insights and the checklist are not part of this record.
\<close>

definition importanceOf :: "bool \<Rightarrow> jstring" where
  "importanceOf r = (if r then js ''required'' else js ''preferred'')"

definition impactOf :: "real \<Rightarrow> jstring" where
  "impactOf w = (if w > 0.5 then js ''high'' else if w > 0.2 then js ''medium'' else js ''low'')"

record analysis_result =
  atsScore :: int
  strongMatches :: "(jstring \<times> jstring option \<times> bool \<times> bool \<times> jstring) list"
  partialMatches :: "(jstring \<times> jstring option \<times> int \<times> jstring) list"
  missingSkills :: "(jstring \<times> jstring \<times> jstring) list"

definition performATSAnalysis ::
  "(jstring \<Rightarrow> jstring \<Rightarrow> real) \<Rightarrow> resume_facts \<Rightarrow> jstring \<Rightarrow> jstring list \<Rightarrow> jstring list
   \<Rightarrow> analysis_result" where
  "performATSAnalysis compareTwoStrings resume jdText jdSkills jdPhrases =
     (let jdAnalysis = analyzeJobDescription jdText jdSkills jdPhrases;
          matchResults = matchResumeToJD compareTwoStrings resume jdAnalysis
      in \<lparr>atsScore = calculateATSScore matchResults,
          strongMatches =
            map (\<lambda>m. (jdTerm m, resumeTerm m, inSkillsSection m, inExperience m,
                       importanceOf (isRequired m)))
              (strongMatch (matches matchResults)),
          partialMatches =
            map (\<lambda>m. (jdTerm m, resumeTerm m,
                       mathRound (toDouble (partial_match.score m * 100)),
                       importanceOf (isRequired m)))
              (partialMatch (matches matchResults)),
          missingSkills =
            map (\<lambda>m. (term m, importanceOf (isRequired m), impactOf (weight m)))
              (missing (matches matchResults))\<rparr>)"


section \<open>Notions used in the statements\<close>

text \<open>
  The tables are lists of literals; \<open>assocLast\<close> reads such a list as \<open>objectGet\<close>
  does, at the level of the literals.
\<close>

fun assocLast :: "(string \<times> string) list \<Rightarrow> string \<Rightarrow> string option" where
  "assocLast [] k = None"
| "assocLast ((a, b) # es) k =
     (case assocLast es k of Some v \<Rightarrow> Some v | None \<Rightarrow> if a = k then Some b else None)"

text \<open>The counts that \<open>calculateRequiredMatchScore\<close> takes from the three arrays.\<close>

definition requiredStrong :: "match_results \<Rightarrow> nat" where
  "requiredStrong m = length (filter isRequired (strongMatch (matches m)))"

definition requiredPartial :: "match_results \<Rightarrow> nat" where
  "requiredPartial m = length (filter isRequired (partialMatch (matches m)))"

definition requiredMissing :: "match_results \<Rightarrow> nat" where
  "requiredMissing m = length (filter isRequired (missing (matches m)))"

definition totalRequired :: "match_results \<Rightarrow> nat" where
  "totalRequired m = requiredStrong m + requiredPartial m + requiredMissing m"

text \<open>Clamping a value to an interval, as the specification words the sub-scores.\<close>

definition clamp :: "real \<Rightarrow> real \<Rightarrow> real \<Rightarrow> real" where
  "clamp lo hi x = max lo (min hi x)"

text \<open>
  The score by which the loop classifies a weighted term, \<open>finalMatch.score\<close>, and the
  three conditions of its branches.
\<close>

definition finalScore ::
  "(jstring \<Rightarrow> jstring \<Rightarrow> real) \<Rightarrow> jstring list \<Rightarrow> weighted_term \<Rightarrow> real" where
  "finalScore compareTwoStrings allResumeTerms jdT =
     best_match.score (finalMatchFor compareTwoStrings (term jdT) allResumeTerms)"

definition isStrong ::
  "(jstring \<Rightarrow> jstring \<Rightarrow> real) \<Rightarrow> jstring list \<Rightarrow> weighted_term \<Rightarrow> bool" where
  "isStrong c a t = (0.65 \<le> finalScore c a t)"

definition isPartial ::
  "(jstring \<Rightarrow> jstring \<Rightarrow> real) \<Rightarrow> jstring list \<Rightarrow> weighted_term \<Rightarrow> bool" where
  "isPartial c a t = (0.45 \<le> finalScore c a t \<and> finalScore c a t < 0.65)"

definition isMissing ::
  "(jstring \<Rightarrow> jstring \<Rightarrow> real) \<Rightarrow> jstring list \<Rightarrow> weighted_term \<Rightarrow> bool" where
  "isMissing c a t = (finalScore c a t < 0.45)"

text \<open>
  The best score of a term against the resume terms, for each of the two measures of the
  engine: that of \<open>findBestMatchWithTypoTolerance\<close>, which compares the lower-cased
  autocorrected term, and that of \<open>findBestMatch\<close>.
\<close>

definition bestTypoScore ::
  "(jstring \<Rightarrow> jstring \<Rightarrow> real) \<Rightarrow> jstring list \<Rightarrow> jstring \<Rightarrow> real" where
  "bestTypoScore c a name =
     Max ((\<lambda>s. typoScore c (toLowerCase (autocorrectSkill name)) s) ` set a)"

definition bestSimilarity ::
  "(jstring \<Rightarrow> jstring \<Rightarrow> real) \<Rightarrow> jstring list \<Rightarrow> jstring \<Rightarrow> real" where
  "bestSimilarity c a name = Max ((\<lambda>s. calculateSimilarity c name s) ` set a)"

text \<open>Small inputs on which the statements are tried.\<close>

definition exampleTerm :: "jstring \<Rightarrow> weighted_term" where
  "exampleTerm name =
     \<lparr>weight = 0.3, isRequired = True, term = name, isPreferred = False,
      originalTerm = name, frequency = 1\<rparr>"

definition exampleJD :: "jstring \<Rightarrow> jd_analysis" where
  "exampleJD name =
     \<lparr>skills = [name], phrases = [], weightedTerms = [exampleTerm name],
      requiredSkills = [name], preferredSkills = []\<rparr>"

definition exampleResume :: "jstring \<Rightarrow> resume_facts" where
  "exampleResume name =
     \<lparr>resumeSections = Map.empty, resumeSkills = [name], resumePhrases = [],
      parsedSkills = [], metricsFound = False\<rparr>"

text \<open>A resume whose second term is the one that matches.\<close>

definition exampleResumeTwo :: resume_facts where
  "exampleResumeTwo =
     \<lparr>resumeSections = Map.empty, resumeSkills = [js ''xyz'', js ''git''],
      resumePhrases = [], parsedSkills = [], metricsFound = False\<rparr>"

definition exampleResults :: match_results where
  "exampleResults =
     \<lparr>matches =
        \<lparr>strongMatch =
           [\<lparr>weight = 0.3, isRequired = True, jdTerm = js ''git'',
             resumeTerm = Some (js ''git''), score = 1, typoCorrection = False,
             inSkillsSection = True, inExperience = False\<rparr>],
         partialMatch = [],
         missing =
           [\<lparr>weight = 0.2, isRequired = True, term = js ''docker'', isPreferred = False\<rparr>]\<rparr>,
      sections = [Skills \<mapsto> js ''git''],
      experienceJobs = [],
      explicitSkills = [js ''git''],
      resumeMetrics = \<lparr>hasMetrics = False, totalSkills = 1, explicitSkills = 1\<rparr>\<rparr>"

text \<open>
  A result with one strong match that is demonstrated in the experience section, one
  missing term, no required term, and both a skills and an experience section: in exact
  arithmetic its score before the last rounding would be 97.5.
\<close>

definition exampleDemonstrated :: match_results where
  "exampleDemonstrated =
     \<lparr>matches =
        \<lparr>strongMatch =
           [\<lparr>weight = 0.1, isRequired = False, jdTerm = js ''git'',
             resumeTerm = Some (js ''git''), score = 1, typoCorrection = False,
             inSkillsSection = True, inExperience = True\<rparr>],
         partialMatch = [],
         missing =
           [\<lparr>weight = 0.1, isRequired = False, term = js ''docker'',
             isPreferred = True\<rparr>]\<rparr>,
      sections =
        [Skills \<mapsto> js ''git'',
         Experience \<mapsto> js ''Developer 2020'' @ [10] @ js ''- Used git every day''],
      experienceJobs =
        [\<lparr>title = js ''Developer 2020'', bullets = [js ''Used git every day'']\<rparr>],
      explicitSkills = [js ''git''],
      resumeMetrics = \<lparr>hasMetrics = False, totalSkills = 1, explicitSkills = 1\<rparr>\<rparr>"




text \<open>A text in which no two white-space characters follow each other.\<close>

fun noDoubleSpace :: "jstring \<Rightarrow> bool" where
  "noDoubleSpace (c # d # cs) =
     (\<not> (isWhiteSpace c \<and> isWhiteSpace d) \<and> noDoubleSpace (d # cs))"
| "noDoubleSpace cs = True"

text \<open>
  The words of a text, its maximal runs of code units that are not separators, and the
  words joined by single spaces.
\<close>

function wordsBy :: "(nat \<Rightarrow> bool) \<Rightarrow> jstring \<Rightarrow> jstring list" where
  "wordsBy sep [] = []"
| "wordsBy sep (c # cs) =
     (if sep c then wordsBy sep cs
      else (c # takeWhile (\<lambda>x. \<not> sep x) cs) # wordsBy sep (dropWhile (\<lambda>x. \<not> sep x) cs))"
  by pat_completeness auto
termination
  by (relation "measure (\<lambda>(p, s). length s)") (auto simp: le_imp_less_Suc length_dropWhile_le)

fun joinWords :: "jstring list \<Rightarrow> jstring" where
  "joinWords [] = []"
| "joinWords [w] = w"
| "joinWords (w # v # ws) = w @ 32 # joinWords (v # ws)"

text \<open>The punctuation marks of Basic Latin, among them the underscore (95).\<close>

definition isPunctuation :: "nat \<Rightarrow> bool" where
  "isPunctuation c =
     ((33 \<le> c \<and> c \<le> 47) \<or> (58 \<le> c \<and> c \<le> 64) \<or> (91 \<le> c \<and> c \<le> 96)
      \<or> (123 \<le> c \<and> c \<le> 126))"

text \<open>
  The test \<open>indicators.some(indicator => context.includes(indicator))\<close> of
  \<open>categorizeSkillImportance\<close>, and the list \<open>allTerms\<close> of \<open>analyzeJobDescription\<close>.
\<close>

definition hasIndicator :: "string list \<Rightarrow> jstring \<Rightarrow> bool" where
  "hasIndicator indicators context =
     list_ex (\<lambda>indicator. includesStr context (js indicator)) indicators"

definition cleanedTerms :: "jstring list \<Rightarrow> jstring list \<Rightarrow> jstring list" where
  "cleanedTerms sk ph =
     filter (\<lambda>s. \<not> isNoiseTerm s \<and> \<not> isQualifierTerm s) sk
     @ filter (\<lambda>p. \<not> isNoiseTerm p \<and> \<not> isQualifierTerm p) ph"

text \<open>A job description with a line break inside a phrase.\<close>

definition exampleSplitJD :: jstring where
  "exampleSplitJD = js ''machine'' @ [10] @ js ''learning''"

text \<open>
  A job description that names one technology in two spellings, the first near a
  requirement indicator and the second near a preference indicator; and its lower-cased
  form.
\<close>

definition exampleMixedJD :: jstring where
  "exampleMixedJD =
     js ''Required: ReactJS for our web client. You will ship features with a small team and talk to users every week. React.js is a plus.''"

definition exampleMixedLower :: jstring where
  "exampleMixedLower =
     js ''required: reactjs for our web client. you will ship features with a small team and talk to users every week. react.js is a plus.''"


section \<open>Properties\<close>

subsection \<open>Reading the tables\<close>

lemma js_eq_iff: "js a = js b \<longleftrightarrow> a = b"
  unfolding js_def by (simp add: inj_map_eq_map inj_on_def)

lemma js_Nil_iff [simp]: "js s = [] \<longleftrightarrow> s = []"
  by (simp add: js_def)

lemma length_js [simp]: "length (js s) = length s"
  by (simp add: js_def)

lemma objectGet_js: "objectGet es (js k) = map_option js (assocLast es k)"
  by (induction es k rule: assocLast.induct) (auto simp: js_eq_iff split: option.splits)

lemma assocLast_append:
  "assocLast (xs @ ys) k =
     (case assocLast ys k of Some v \<Rightarrow> Some v | None \<Rightarrow> assocLast xs k)"
  by (induction xs k rule: assocLast.induct) (auto split: option.splits)

lemmas groupDefs = jsEcosystem_def typeScriptNames_def pythonNames_def databases_def
  cloudPlatforms_def devOpsTools_def webTechnologies_def apiCommunication_def
  machineLearning_def mobileDevelopment_def testingNames_def methodologies_def
  otherLanguages_def cmsEcommerce_def businessTools_def dataAnalytics_def versionControl_def

lemmas stringDefs = js_def toLowerCase_def lowerUnit_def trim_def trimStart_def trimEnd_def
  isWhiteSpace_def

lemma normalizeSkill_known:
  assumes "trim (toLowerCase (js s)) = js s"
    and "assocLast skillNormalizationEntries s = Some v"
  shows "normalizeSkill (js s) = js v"
  using assms by (simp add: normalizeSkill_def skillNormalizations_def objectGet_js)

lemma normalizeSkill_unknown:
  assumes "trim (toLowerCase (js s)) = js s"
    and "assocLast skillNormalizationEntries s = None"
  shows "normalizeSkill (js s) = js s"
  using assms by (simp add: normalizeSkill_def skillNormalizations_def objectGet_js)

lemma normalizeSkill_aws: "normalizeSkill (js ''aws'') = js ''amazon web services''"
  apply (rule normalizeSkill_known)
   apply (simp add: stringDefs)
  unfolding skillNormalizationEntries_def assocLast_append
  apply (simp add: groupDefs)
  done

lemma normalizeSkill_amazon: "normalizeSkill (js ''amazon web services'') = js ''aws''"
  apply (rule normalizeSkill_known)
   apply (simp add: stringDefs)
  unfolding skillNormalizationEntries_def assocLast_append
  apply (simp add: groupDefs)
  done

lemma normalizeSkill_html: "normalizeSkill (js ''html'') = js ''html5''"
  apply (rule normalizeSkill_known)
   apply (simp add: stringDefs)
  unfolding skillNormalizationEntries_def assocLast_append
  apply (simp add: groupDefs)
  done

lemma normalizeSkill_html5: "normalizeSkill (js ''html5'') = js ''html''"
  apply (rule normalizeSkill_known)
   apply (simp add: stringDefs)
  unfolding skillNormalizationEntries_def assocLast_append
  apply (simp add: groupDefs)
  done

lemma normalizeSkill_rest: "normalizeSkill (js ''rest'') = js ''restful''"
  apply (rule normalizeSkill_known)
   apply (simp add: stringDefs)
  unfolding skillNormalizationEntries_def assocLast_append
  apply (simp add: groupDefs)
  done

lemma normalizeSkill_restful: "normalizeSkill (js ''restful'') = js ''rest api''"
  apply (rule normalizeSkill_known)
   apply (simp add: stringDefs)
  unfolding skillNormalizationEntries_def assocLast_append
  apply (simp add: groupDefs)
  done

lemma normalizeSkill_machine_learning: "normalizeSkill (js ''machine learning'') = js ''ml''"
  apply (rule normalizeSkill_known)
   apply (simp add: stringDefs)
  unfolding skillNormalizationEntries_def assocLast_append
  apply (simp add: groupDefs)
  done

lemma normalizeSkill_ml: "normalizeSkill (js ''ml'') = js ''machine learning''"
  apply (rule normalizeSkill_known)
   apply (simp add: stringDefs)
  unfolding skillNormalizationEntries_def assocLast_append
  apply (simp add: groupDefs)
  done


subsection \<open>Normalising twice\<close>

text \<open>
  C4. Normalising a normalised term is meant to change nothing. The table sends
  \<open>aws\<close> to \<open>amazon web services\<close> and \<open>amazon web services\<close> back to \<open>aws\<close>, and
  likewise \<open>html\<close> to \<open>html5\<close> and back, \<open>machine learning\<close> to \<open>ml\<close> and back, and
  \<open>rest\<close> to \<open>restful\<close> to \<open>rest api\<close>: on each of these terms the second application
  of \<open>normalizeSkill\<close> gives a result different from the first.
\<close>

theorem normalizeSkill_twice_differs:
  "normalizeSkill (normalizeSkill (js ''aws'')) \<noteq> normalizeSkill (js ''aws'')
   \<and> normalizeSkill (normalizeSkill (js ''html'')) \<noteq> normalizeSkill (js ''html'')
   \<and> normalizeSkill (normalizeSkill (js ''rest'')) \<noteq> normalizeSkill (js ''rest'')
   \<and> normalizeSkill (normalizeSkill (js ''machine learning''))
       \<noteq> normalizeSkill (js ''machine learning'')"
  by (simp add: normalizeSkill_aws normalizeSkill_amazon normalizeSkill_html
      normalizeSkill_html5 normalizeSkill_rest normalizeSkill_restful
      normalizeSkill_machine_learning normalizeSkill_ml js_eq_iff)


subsection \<open>Evaluating the edit distance and the typo table\<close>

lemma levRow_eval:
  "levRow c (d # ds) (diag # up # prev) left =
     (if c = d
      then min (min (Suc up) (Suc left)) diag
             # levRow c ds (up # prev) (min (min (Suc up) (Suc left)) diag)
      else min (min (Suc up) (Suc left)) (Suc diag)
             # levRow c ds (up # prev) (min (min (Suc up) (Suc left)) (Suc diag)))"
  by (simp add: Let_def)

lemma levRow_Nil: "levRow c [] prev left = []"
  by simp

lemmas levEval = levenshteinDistance_def js_def levRow_eval levRow_Nil

lemma areSkillsSimilar_eval:
  assumes "trim (toLowerCase a) = a'" and "trim (toLowerCase b) = b'"
  shows "areSkillsSimilar a b th =
           (a' = b' \<or> levenshteinDistance a' b'
                        \<le> (if max (length a') (length b') \<le> 5 then 1 else th))"
  using assms by (auto simp: areSkillsSimilar_def Let_def)

lemma clean_kubernetes: "trim (toLowerCase (js ''kubernetes'')) = js ''kubernetes''"
  by (simp add: stringDefs)

lemma clean_typo_keys:
  "trim (toLowerCase (js ''pyhton'')) = js ''pyhton''"
  "trim (toLowerCase (js ''pytohn'')) = js ''pytohn''"
  "trim (toLowerCase (js ''javasript'')) = js ''javasript''"
  "trim (toLowerCase (js ''javascirpt'')) = js ''javascirpt''"
  "trim (toLowerCase (js ''javascrpit'')) = js ''javascrpit''"
  "trim (toLowerCase (js ''typescipt'')) = js ''typescipt''"
  "trim (toLowerCase (js ''typescirpt'')) = js ''typescirpt''"
  "trim (toLowerCase (js ''kuberntes'')) = js ''kuberntes''"
  by (simp_all add: stringDefs)

lemma lev_kubernetes:
  "levenshteinDistance (js ''kubernetes'') (js ''pyhton'') = 9"
  "levenshteinDistance (js ''kubernetes'') (js ''pytohn'') = 9"
  "levenshteinDistance (js ''kubernetes'') (js ''javasript'') = 9"
  "levenshteinDistance (js ''kubernetes'') (js ''javascirpt'') = 10"
  "levenshteinDistance (js ''kubernetes'') (js ''javascrpit'') = 10"
  "levenshteinDistance (js ''kubernetes'') (js ''typescipt'') = 9"
  "levenshteinDistance (js ''kubernetes'') (js ''typescirpt'') = 9"
  "levenshteinDistance (js ''kubernetes'') (js ''kuberntes'') = 1"
  by (simp_all del: levRow.simps add: levEval)

lemma similar_kubernetes:
  "\<not> areSkillsSimilar (js ''kubernetes'') (js ''pyhton'') 1"
  "\<not> areSkillsSimilar (js ''kubernetes'') (js ''pytohn'') 1"
  "\<not> areSkillsSimilar (js ''kubernetes'') (js ''javasript'') 1"
  "\<not> areSkillsSimilar (js ''kubernetes'') (js ''javascirpt'') 1"
  "\<not> areSkillsSimilar (js ''kubernetes'') (js ''javascrpit'') 1"
  "\<not> areSkillsSimilar (js ''kubernetes'') (js ''typescipt'') 1"
  "\<not> areSkillsSimilar (js ''kubernetes'') (js ''typescirpt'') 1"
  "areSkillsSimilar (js ''kubernetes'') (js ''kuberntes'') 1"
  by (simp_all add: areSkillsSimilar_eval [OF clean_kubernetes clean_typo_keys(1)]
      areSkillsSimilar_eval [OF clean_kubernetes clean_typo_keys(2)]
      areSkillsSimilar_eval [OF clean_kubernetes clean_typo_keys(3)]
      areSkillsSimilar_eval [OF clean_kubernetes clean_typo_keys(4)]
      areSkillsSimilar_eval [OF clean_kubernetes clean_typo_keys(5)]
      areSkillsSimilar_eval [OF clean_kubernetes clean_typo_keys(6)]
      areSkillsSimilar_eval [OF clean_kubernetes clean_typo_keys(7)]
      areSkillsSimilar_eval [OF clean_kubernetes clean_typo_keys(8)]
      lev_kubernetes js_eq_iff)

lemma typos_kubernetes: "assocLast commonTechTypos ''kubernetes'' = None"
  by (simp add: commonTechTypos_def)

lemma autocorrectSkill_eval:
  assumes "trim (toLowerCase skill) = js lower"
  shows "autocorrectSkill skill =
           (case assocLast commonTechTypos lower of
              Some v \<Rightarrow> js v
            | None \<Rightarrow>
                (case find (\<lambda>(typo, v). areSkillsSimilar (js lower) (js typo) 1)
                        commonTechTypos of
                   Some (typo, v) \<Rightarrow> js v
                 | None \<Rightarrow> skill))"
  by (simp add: autocorrectSkill_def assms objectGet_js split: option.splits)

lemma autocorrectSkill_kubernetes: "autocorrectSkill (js ''kubernetes'') = js ''kubernetes''"
  unfolding autocorrectSkill_eval [OF clean_kubernetes] typos_kubernetes
  unfolding commonTechTypos_def
  by (simp only: find.simps prod.case similar_kubernetes if_False if_True option.case)


subsection \<open>The matching loop\<close>

lemma matchTerm_cases:
  "matchTerm c a e j t ms =
     (if isStrong c a t then ms\<lparr>strongMatch := strongMatch ms @ [strongRecord c a e j t]\<rparr>
      else if isPartial c a t then ms\<lparr>partialMatch := partialMatch ms @ [partialRecord c a t]\<rparr>
      else ms\<lparr>missing := missing ms @ [missingRecord t]\<rparr>)"
  by (simp add: matchTerm_def Let_def isStrong_def isPartial_def finalScore_def)

lemma exclusive:
  "isStrong c a t \<Longrightarrow> \<not> isPartial c a t \<and> \<not> isMissing c a t"
  "isPartial c a t \<Longrightarrow> \<not> isStrong c a t \<and> \<not> isMissing c a t"
  "\<not> isStrong c a t \<Longrightarrow> \<not> isPartial c a t \<Longrightarrow> isMissing c a t"
  by (auto simp: isStrong_def isPartial_def isMissing_def)

lemma fold_matchTerm:
  "fold (matchTerm c a e j) ts ms =
     \<lparr>strongMatch = strongMatch ms @ map (strongRecord c a e j) (filter (isStrong c a) ts),
      partialMatch = partialMatch ms @ map (partialRecord c a) (filter (isPartial c a) ts),
      missing = missing ms @ map missingRecord (filter (isMissing c a) ts)\<rparr>"
proof (induction ts arbitrary: ms)
  case Nil
  show ?case by simp
next
  case (Cons t ts)
  show ?case
  proof (cases "isStrong c a t")
    case True
    have step: "matchTerm c a e j t ms =
        ms\<lparr>strongMatch := strongMatch ms @ [strongRecord c a e j t]\<rparr>"
      using True by (simp only: matchTerm_cases if_True)
    from True exclusive(1) [OF True] show ?thesis
      by (simp add: Cons.IH step)
  next
    case False
    show ?thesis
    proof (cases "isPartial c a t")
      case True
      have step: "matchTerm c a e j t ms =
          ms\<lparr>partialMatch := partialMatch ms @ [partialRecord c a t]\<rparr>"
        using True False by (simp only: matchTerm_cases if_True if_False)
      from True False exclusive(2) [OF True] show ?thesis
        by (simp add: Cons.IH step)
    next
      case nP: False
      have step: "matchTerm c a e j t ms = ms\<lparr>missing := missing ms @ [missingRecord t]\<rparr>"
        using nP False by (simp only: matchTerm_cases if_False)
      from nP False exclusive(3) [OF False nP] show ?thesis
        by (simp add: Cons.IH step)
    qed
  qed
qed

lemma matches_matchResumeToJD:
  "matches (matchResumeToJD c r jd) =
     \<lparr>strongMatch =
        map (strongRecord c (allResumeTermsOf r) (explicitSkills (matchResumeToJD c r jd))
               (experienceJobs (matchResumeToJD c r jd)))
          (filter (isStrong c (allResumeTermsOf r)) (weightedTerms jd)),
      partialMatch =
        map (partialRecord c (allResumeTermsOf r))
          (filter (isPartial c (allResumeTermsOf r)) (weightedTerms jd)),
      missing = map missingRecord (filter (isMissing c (allResumeTermsOf r)) (weightedTerms jd))\<rparr>"
  by (simp add: matchResumeToJD_def Let_def fold_matchTerm)

lemma three_way_length:
  "length (filter (isStrong c a) ts) + length (filter (isPartial c a) ts)
   + length (filter (isMissing c a) ts) = length ts"
proof (induction ts)
  case Nil show ?case by simp
next
  case (Cons t ts)
  then show ?case
    using exclusive(1)[of c a t] exclusive(2)[of c a t] exclusive(3)[of c a t]
    by (cases "isStrong c a t"; cases "isPartial c a t") auto
qed

lemma foldl_best_ge:
  fixes m :: "jstring \<times> real"
  shows "snd m \<le> snd (foldl (\<lambda>prev current. if snd current > snd prev then current else prev) m ms)
   \<and> (\<forall>x \<in> set ms. snd x
         \<le> snd (foldl (\<lambda>prev current. if snd current > snd prev then current else prev) m ms))"
  (is "?P m ms")
proof (induction ms arbitrary: m)
  case Nil
  show ?case by simp
next
  case (Cons y ys)
  let ?f = "\<lambda>prev current. if snd current > snd prev then current else (prev :: jstring \<times> real)"
  show ?case
  proof (cases "snd y > snd m")
    case True
    with Cons.IH [of y] show ?thesis by auto
  next
    case False
    with Cons.IH [of m] show ?thesis by auto
  qed
qed

lemma reduceBest_ge: "x \<in> set (m # ms) \<Longrightarrow> snd x \<le> snd (reduceBest m ms)"
  using foldl_best_ge [of m ms] by (auto simp: reduceBest_def)

lemma reduceBest_in: "reduceBest m ms \<in> set (m # ms)"
  unfolding reduceBest_def
proof (induction ms arbitrary: m)
  case Nil
  show ?case by simp
next
  case (Cons y ys)
  from Cons.IH [of y] Cons.IH [of m] show ?case by auto
qed

lemma lower_kuberntes: "toLowerCase (js ''kuberntes'') = js ''kuberntes''"
  by (simp add: js_def toLowerCase_def lowerUnit_def)

lemma lower_kubernetes: "toLowerCase (js ''kubernetes'') = js ''kubernetes''"
  by (simp add: js_def toLowerCase_def lowerUnit_def)

lemma typoScore_kubernetes:
  "typoScore c (js ''kubernetes'') (js ''kuberntes'') = max (c (js ''kubernetes'') (js ''kuberntes'')) (9 / 10)"
  by (simp add: typoScore_def Let_def lower_kuberntes js_eq_iff lev_kubernetes)

lemma typo_match_kubernetes:
  assumes "js ''kuberntes'' \<in> set a"
  shows "9 / 10 \<le> best_match.score (bestMatchFor c (js ''kubernetes'') a)"
    and "\<not> corrected (bestMatchFor c (js ''kubernetes'') a)"
    and "\<exists>s \<in> set a. match (bestMatchFor c (js ''kubernetes'') a) = Some s"
proof -
  from assms obtain x xs where a: "a = x # xs" by (cases a) auto
  let ?sc = "\<lambda>skill. (skill, typoScore c (js ''kubernetes'') skill)"
  let ?best = "reduceBest (?sc x) (map ?sc xs)"
  have b: "bestMatchFor c (js ''kubernetes'') a =
      \<lparr>match = (if snd ?best \<ge> 0.70 then Some (fst ?best) else None),
       score = snd ?best, corrected = False\<rparr>"
    by (simp add: bestMatchFor_def findBestMatchWithTypoTolerance_def
        autocorrectSkill_kubernetes lower_kubernetes a Let_def)
  have "?sc (js ''kuberntes'') \<in> set (?sc x # map ?sc xs)"
    using assms a by auto
  from reduceBest_ge [OF this]
  have ge: "9 / 10 \<le> snd ?best"
    by (simp add: typoScore_kubernetes)
  have "?best \<in> set (?sc x # map ?sc xs)" by (rule reduceBest_in)
  then have "fst ?best \<in> set a" using a by auto
  with ge b show "9 / 10 \<le> best_match.score (bestMatchFor c (js ''kubernetes'') a)"
    and "\<not> corrected (bestMatchFor c (js ''kubernetes'') a)"
    and "\<exists>s \<in> set a. match (bestMatchFor c (js ''kubernetes'') a) = Some s"
    by auto
qed

lemma allResumeTerms_nonempty: "s \<in> set (allResumeTermsOf r) \<Longrightarrow> s \<noteq> []"
  by (auto simp: allResumeTermsOf_def)

lemma final_kubernetes:
  assumes "js ''kuberntes'' \<in> set (allResumeTermsOf r)"
  shows "9 / 10 \<le> best_match.score (finalMatchFor c (js ''kubernetes'') (allResumeTermsOf r))"
proof -
  from typo_match_kubernetes(3) [OF assms, of c] obtain s
    where "s \<in> set (allResumeTermsOf r)"
      and "match (bestMatchFor c (js ''kubernetes'') (allResumeTermsOf r)) = Some s"
    by blast
  then have "truthy (match (bestMatchFor c (js ''kubernetes'') (allResumeTermsOf r)))"
    using allResumeTerms_nonempty by (simp add: truthy_def)
  then show ?thesis
    using typo_match_kubernetes(1) [OF assms, of c]
    by (simp add: finalMatchFor_def Let_def best_match.truncate_def)
qed

lemma record_fields [simp]:
  "jdTerm (strongRecord c a e j t) = term t"
  "isRequired (strongRecord c a e j t) = isRequired t"
  "partial_match.score (strongRecord c a e j t) = finalScore c a t"
  "typoCorrection (strongRecord c a e j t) = corrected (bestMatchFor c (term t) a)"
  "resumeTerm (strongRecord c a e j t) = match (finalMatchFor c (term t) a)"
  "jdTerm (partialRecord c a t) = term t"
  "isRequired (partialRecord c a t) = isRequired t"
  "partial_match.score (partialRecord c a t) = finalScore c a t"
  "typoCorrection (partialRecord c a t) = corrected (bestMatchFor c (term t) a)"
  "resumeTerm (partialRecord c a t) = match (finalMatchFor c (term t) a)"
  "term (missingRecord t) = term t"
  "isRequired (missingRecord t) = isRequired t"
  by (simp_all add: strongRecord_def partialRecord_def missingRecord_def Let_def finalScore_def)

lemma strong_terms:
  "strongMatch (matches (matchResumeToJD c r jd)) =
     map (strongRecord c (allResumeTermsOf r) (explicitSkills (matchResumeToJD c r jd))
            (experienceJobs (matchResumeToJD c r jd)))
       (filter (isStrong c (allResumeTermsOf r)) (weightedTerms jd))"
  by (subst matches_matchResumeToJD) simp

lemma partial_terms:
  "partialMatch (matches (matchResumeToJD c r jd)) =
     map (partialRecord c (allResumeTermsOf r))
       (filter (isPartial c (allResumeTermsOf r)) (weightedTerms jd))"
  by (subst matches_matchResumeToJD) simp

lemma missing_terms:
  "missing (matches (matchResumeToJD c r jd)) =
     map missingRecord (filter (isMissing c (allResumeTermsOf r)) (weightedTerms jd))"
  by (subst matches_matchResumeToJD) simp

text \<open>The score of the loop is the best score over the resume terms.\<close>

lemma reduceBest_Max:
  fixes f :: "jstring \<Rightarrow> real"
  shows "snd (reduceBest (x, f x) (map (\<lambda>s. (s, f s)) xs)) = Max (f ` set (x # xs))"
proof -
  let ?g = "\<lambda>s. (s, f s)"
  let ?b = "reduceBest (?g x) (map ?g xs)"
  have in_set: "?b \<in> set (?g x # map ?g xs)" by (rule reduceBest_in)
  have "Max (f ` set (x # xs)) = snd ?b"
  proof (rule Max_eqI)
    show "finite (f ` set (x # xs))" by simp
    show "y \<le> snd ?b" if "y \<in> f ` set (x # xs)" for y
    proof -
      from that obtain s where s: "s \<in> set (x # xs)" and y: "y = f s" by blast
      from s have "?g s \<in> set (?g x # map ?g xs)" by auto
      from reduceBest_ge [OF this] show ?thesis by (simp add: y)
    qed
    show "snd ?b \<in> f ` set (x # xs)" using in_set by auto
  qed
  then show ?thesis by simp
qed

lemma reduceBest_fst:
  fixes f :: "jstring \<Rightarrow> real"
  shows "fst (reduceBest (x, f x) (map (\<lambda>s. (s, f s)) xs)) \<in> set (x # xs)"
  using reduceBest_in [of "(x, f x)" "map (\<lambda>s. (s, f s)) xs"] by auto

lemma typo_tolerant_score:
  assumes "a \<noteq> []"
  shows "best_match.score (bestMatchFor c name a) = bestTypoScore c a name"
    and "truthy (match (bestMatchFor c name a))
         = (0.70 \<le> bestTypoScore c a name
            \<and> fst (reduceBest
                 (hd a, typoScore c (toLowerCase (autocorrectSkill name)) (hd a))
                 (map (\<lambda>s. (s, typoScore c (toLowerCase (autocorrectSkill name)) s)) (tl a)))
               \<noteq> [])"
proof -
  from assms obtain x xs where a: "a = x # xs" by (cases a) auto
  let ?f = "typoScore c (toLowerCase (autocorrectSkill name))"
  have m: "snd (reduceBest (x, ?f x) (map (\<lambda>s. (s, ?f s)) xs)) = bestTypoScore c a name"
    unfolding bestTypoScore_def a by (rule reduceBest_Max)
  show "best_match.score (bestMatchFor c name a) = bestTypoScore c a name"
    unfolding m [symmetric]
    by (simp add: bestMatchFor_def findBestMatchWithTypoTolerance_def a Let_def)
  show "truthy (match (bestMatchFor c name a))
         = (0.70 \<le> bestTypoScore c a name
            \<and> fst (reduceBest
                 (hd a, typoScore c (toLowerCase (autocorrectSkill name)) (hd a))
                 (map (\<lambda>s. (s, typoScore c (toLowerCase (autocorrectSkill name)) s)) (tl a)))
               \<noteq> [])"
    unfolding m [symmetric]
    by (simp add: bestMatchFor_def findBestMatchWithTypoTolerance_def a Let_def truthy_def)
qed

lemma plain_score:
  assumes "a \<noteq> []"
  shows "best_match.score (findBestMatch c name a) = bestSimilarity c a name"
proof -
  from assms obtain x xs where a: "a = x # xs" by (cases a) auto
  have m: "snd (reduceBest (x, calculateSimilarity c name x)
                  (map (\<lambda>s. (s, calculateSimilarity c name s)) xs))
           = bestSimilarity c a name"
    unfolding bestSimilarity_def a by (rule reduceBest_Max)
  show ?thesis
    unfolding m [symmetric] by (simp add: findBestMatch_def a Let_def)
qed

lemma finalScore_best:
  assumes ne: "\<forall>s \<in> set a. s \<noteq> []"
  shows "finalScore c a t =
     (if a = [] then 0
      else if 0.70 \<le> bestTypoScore c a (term t) then bestTypoScore c a (term t)
      else bestSimilarity c a (term t))"
proof (cases "a = []")
  case True
  then show ?thesis
    by (simp add: finalScore_def finalMatchFor_def bestMatchFor_def
        findBestMatchWithTypoTolerance_def findBestMatch_def Let_def truthy_def)
next
  case False
  let ?f = "typoScore c (toLowerCase (autocorrectSkill (term t)))"
  have "fst (reduceBest (hd a, ?f (hd a)) (map (\<lambda>s. (s, ?f s)) (tl a))) \<in> set (hd a # tl a)"
    by (rule reduceBest_fst)
  then have "fst (reduceBest (hd a, ?f (hd a)) (map (\<lambda>s. (s, ?f s)) (tl a))) \<in> set a"
    using False by simp
  with ne have "fst (reduceBest (hd a, ?f (hd a)) (map (\<lambda>s. (s, ?f s)) (tl a))) \<noteq> []"
    by blast
  then have tr: "truthy (match (bestMatchFor c (term t) a))
                 = (0.70 \<le> bestTypoScore c a (term t))"
    by (simp add: typo_tolerant_score(2) [OF False])
  show ?thesis
    using False
    by (simp add: finalScore_def finalMatchFor_def Let_def tr best_match.truncate_def
        typo_tolerant_score(1) [OF False] plain_score [OF False])
qed

lemma calculateSimilarity_same: "calculateSimilarity c name name = 1"
  by (simp add: calculateSimilarity_def)

lemma bestSimilarity_ge:
  "s \<in> set a \<Longrightarrow> calculateSimilarity c name s \<le> bestSimilarity c a name"
  unfolding bestSimilarity_def by (rule Max_ge) auto

lemma bestTypoScore_ge:
  "s \<in> set a \<Longrightarrow> typoScore c (toLowerCase (autocorrectSkill name)) s \<le> bestTypoScore c a name"
  unfolding bestTypoScore_def by (rule Max_ge) auto

lemma finalScore_equal_term:
  assumes ne: "\<forall>s \<in> set a. s \<noteq> []" and m: "term t \<in> set a"
  shows "0.65 \<le> finalScore c a t"
proof -
  from m have a: "a \<noteq> []" by auto
  show ?thesis
  proof (cases "0.70 \<le> bestTypoScore c a (term t)")
    case True
    with a show ?thesis by (simp add: finalScore_best [OF ne])
  next
    case False
    have "1 \<le> bestSimilarity c a (term t)"
      using bestSimilarity_ge [OF m, of c "term t"] by (simp add: calculateSimilarity_same)
    with a False show ?thesis by (simp add: finalScore_best [OF ne])
  qed
qed

lemma typoScore_le_1:
  assumes "\<forall>x y. c x y \<le> 1"
  shows "typoScore c n s \<le> 1"
proof -
  have "0 \<le> real (levenshteinDistance n (toLowerCase s))
             / real (max (length n) (length (toLowerCase s)))"
    by simp
  then show ?thesis using assms by (simp add: typoScore_def Let_def)
qed

lemma finalScore_exact:
  assumes ne: "\<forall>s \<in> set a. s \<noteq> []" and m: "term t \<in> set a"
    and ac: "autocorrectSkill (term t) = term t" and c: "\<forall>x y. c x y \<le> 1"
  shows "finalScore c a t = 1"
proof -
  from m have a: "a \<noteq> []" by auto
  have "typoScore c (toLowerCase (autocorrectSkill (term t))) (term t) = 1"
    by (simp add: typoScore_def ac)
  with bestTypoScore_ge [OF m, of c "term t"] have ge: "1 \<le> bestTypoScore c a (term t)"
    by simp
  have "bestTypoScore c a (term t) \<le> 1"
    unfolding bestTypoScore_def
    using a typoScore_le_1 [OF c] by (simp add: Max_le_iff)
  with ge have "bestTypoScore c a (term t) = 1" by simp
  with a show ?thesis by (simp add: finalScore_best [OF ne])
qed

text \<open>
  C3. A weighted term is classified by \<open>finalMatch.score\<close>: it is a strong match exactly
  if the score is at least 0.65, a partial match exactly if the score is at least 0.45 and
  below 0.65, and missing exactly if the score is below 0.45; the records of the strong and
  partial matches carry that score. The score is the best score of the term over the
  resume terms: the best typo-tolerant score if that is at least 0.70, and otherwise the
  best similarity; it is 0 for a resume without terms. A term that is itself among the
  resume terms is a strong match, and its score is 1 if the autocorrection leaves the term
  as it is and the coefficient never exceeds 1.
\<close>

theorem matchResumeToJD_thresholds:
  "map jdTerm (strongMatch (matches (matchResumeToJD c r jd))) =
     map term (filter (\<lambda>t. 0.65 \<le> finalScore c (allResumeTermsOf r) t) (weightedTerms jd))
   \<and> map jdTerm (partialMatch (matches (matchResumeToJD c r jd))) =
     map term (filter (\<lambda>t. 0.45 \<le> finalScore c (allResumeTermsOf r) t
                          \<and> finalScore c (allResumeTermsOf r) t < 0.65) (weightedTerms jd))
   \<and> map term (missing (matches (matchResumeToJD c r jd))) =
     map term (filter (\<lambda>t. finalScore c (allResumeTermsOf r) t < 0.45) (weightedTerms jd))
   \<and> map partial_match.score (strongMatch (matches (matchResumeToJD c r jd))) =
     map (finalScore c (allResumeTermsOf r))
       (filter (\<lambda>t. 0.65 \<le> finalScore c (allResumeTermsOf r) t) (weightedTerms jd))
   \<and> map partial_match.score (partialMatch (matches (matchResumeToJD c r jd))) =
     map (finalScore c (allResumeTermsOf r))
       (filter (\<lambda>t. 0.45 \<le> finalScore c (allResumeTermsOf r) t
                    \<and> finalScore c (allResumeTermsOf r) t < 0.65) (weightedTerms jd))
   \<and> finalScore c (allResumeTermsOf r) t =
     (if allResumeTermsOf r = [] then 0
      else if 0.70 \<le> bestTypoScore c (allResumeTermsOf r) (term t)
      then bestTypoScore c (allResumeTermsOf r) (term t)
      else bestSimilarity c (allResumeTermsOf r) (term t))
   \<and> (term t \<in> set (allResumeTermsOf r) \<longrightarrow> 0.65 \<le> finalScore c (allResumeTermsOf r) t)
   \<and> (term t \<in> set (allResumeTermsOf r) \<and> autocorrectSkill (term t) = term t
        \<and> (\<forall>x y. c x y \<le> 1)
        \<longrightarrow> finalScore c (allResumeTermsOf r) t = 1)"
proof -
  have ne: "\<forall>s \<in> set (allResumeTermsOf r). s \<noteq> []"
    using allResumeTerms_nonempty by blast
  have buckets:
    "map jdTerm (strongMatch (matches (matchResumeToJD c r jd))) =
       map term (filter (\<lambda>t. 0.65 \<le> finalScore c (allResumeTermsOf r) t) (weightedTerms jd))
     \<and> map jdTerm (partialMatch (matches (matchResumeToJD c r jd))) =
       map term (filter (\<lambda>t. 0.45 \<le> finalScore c (allResumeTermsOf r) t
                            \<and> finalScore c (allResumeTermsOf r) t < 0.65) (weightedTerms jd))
     \<and> map term (missing (matches (matchResumeToJD c r jd))) =
       map term (filter (\<lambda>t. finalScore c (allResumeTermsOf r) t < 0.45) (weightedTerms jd))
     \<and> map partial_match.score (strongMatch (matches (matchResumeToJD c r jd))) =
       map (finalScore c (allResumeTermsOf r))
         (filter (\<lambda>t. 0.65 \<le> finalScore c (allResumeTermsOf r) t) (weightedTerms jd))
     \<and> map partial_match.score (partialMatch (matches (matchResumeToJD c r jd))) =
       map (finalScore c (allResumeTermsOf r))
         (filter (\<lambda>t. 0.45 \<le> finalScore c (allResumeTermsOf r) t
                      \<and> finalScore c (allResumeTermsOf r) t < 0.65) (weightedTerms jd))"
    unfolding strong_terms partial_terms missing_terms
    by (simp add: isStrong_def [abs_def] isPartial_def [abs_def] isMissing_def [abs_def]
        comp_def)
  have best: "finalScore c (allResumeTermsOf r) t =
     (if allResumeTermsOf r = [] then 0
      else if 0.70 \<le> bestTypoScore c (allResumeTermsOf r) (term t)
      then bestTypoScore c (allResumeTermsOf r) (term t)
      else bestSimilarity c (allResumeTermsOf r) (term t))"
    by (rule finalScore_best [OF ne])
  have equal: "term t \<in> set (allResumeTermsOf r) \<longrightarrow> 0.65 \<le> finalScore c (allResumeTermsOf r) t"
    using finalScore_equal_term [OF ne] by blast
  have exact: "term t \<in> set (allResumeTermsOf r) \<and> autocorrectSkill (term t) = term t
        \<and> (\<forall>x y. c x y \<le> 1)
        \<longrightarrow> finalScore c (allResumeTermsOf r) t = 1"
    using finalScore_exact [OF ne] by blast
  from buckets best equal exact show ?thesis by (intro conjI) blast+
qed


subsection \<open>The score\<close>

lemma raw_le_one:
  fixes a b c :: nat
  assumes "a + b + c \<noteq> 0"
  shows "(real a + real b * 0.75) / real (a + b + c) \<le> 1"
proof -
  have le: "real a + real b * 0.75 \<le> real (a + b + c)" by simp
  have "0 < a + b + c" using assms by simp
  then have "0 < real (a + b + c)" by (simp only: of_nat_0_less_iff)
  with le show ?thesis by (simp only: divide_le_eq_1_pos)
qed

lemma required_split:
  "length (filter isRequired (filter (isStrong c a) ts))
   + length (filter isRequired (filter (isPartial c a) ts))
   + length (filter isRequired (filter (isMissing c a) ts))
   = length (filter isRequired ts)"
proof -
  have sw: "filter isRequired (filter P ts) = filter P (filter isRequired ts)"
    for P :: "weighted_term \<Rightarrow> bool"
    by (simp add: conj_commute)
  show ?thesis
    unfolding sw by (rule three_way_length)
qed

lemma totalRequired_matchResumeToJD:
  "totalRequired (matchResumeToJD c r jd) = length (filter isRequired (weightedTerms jd))"
proof -
  have "filter isRequired (map (strongRecord c a e j) ts)
          = map (strongRecord c a e j) (filter isRequired ts)" for a e j ts
    by (induction ts) simp_all
  moreover have "filter isRequired (map (partialRecord c a) ts)
          = map (partialRecord c a) (filter isRequired ts)" for a ts
    by (induction ts) simp_all
  moreover have "filter isRequired (map missingRecord ts)
          = map missingRecord (filter isRequired ts)" for ts
    by (induction ts) simp_all
  ultimately show ?thesis
    unfolding totalRequired_def requiredStrong_def requiredPartial_def requiredMissing_def
      strong_terms partial_terms missing_terms
    using required_split [of c "allResumeTermsOf r" "weightedTerms jd"] by simp
qed

text \<open>
  C7. The required-skills sub-score is 1 when no required term was counted, and otherwise
  the quotient of \<open>requiredStrong + 0.75 \<times> requiredPartial\<close> by \<open>totalRequired\<close>,
  clamped to the interval from 0.25 to 1 (the code takes the maximum with 0.25; the
  quotient never exceeds 1). For the result of \<open>matchResumeToJD\<close> the number counted is
  the number of required weighted terms, so a job description without required terms
  gives the sub-score 1.
\<close>

theorem calculateRequiredMatchScore_value:
  "calculateRequiredMatchScore m =
     (if totalRequired m = 0 then 1
      else clamp 0.25 1
             ((real (requiredStrong m) + 0.75 * real (requiredPartial m))
              / real (totalRequired m)))
   \<and> totalRequired (matchResumeToJD c r jd) = length (filter isRequired (weightedTerms jd))
   \<and> (filter isRequired (weightedTerms jd) = []
        \<longrightarrow> calculateRequiredMatchScore (matchResumeToJD c r jd) = 1)"
proof -
  have v: "calculateRequiredMatchScore m =
     (if totalRequired m = 0 then 1
      else clamp 0.25 1
             ((real (requiredStrong m) + 0.75 * real (requiredPartial m))
              / real (totalRequired m)))" for m
  proof (cases "totalRequired m = 0")
    case True
    then show ?thesis
      by (simp add: calculateRequiredMatchScore_def totalRequired_def requiredStrong_def
          requiredPartial_def requiredMissing_def)
  next
    case False
    then have "requiredStrong m + requiredPartial m + requiredMissing m \<noteq> 0"
      by (simp add: totalRequired_def)
    from raw_le_one [OF this]
    have "(real (requiredStrong m) + real (requiredPartial m) * 0.75) / real (totalRequired m)
            \<le> 1"
      by (simp add: totalRequired_def)
    with False show ?thesis
      by (simp add: calculateRequiredMatchScore_def totalRequired_def requiredStrong_def
          requiredPartial_def requiredMissing_def clamp_def Let_def min_def mult.commute)
  qed
  have z: "calculateRequiredMatchScore (matchResumeToJD c r jd) = 1"
    if "filter isRequired (weightedTerms jd) = []"
    using that v [of "matchResumeToJD c r jd"] by (simp add: totalRequired_matchResumeToJD)
  from v [of m] totalRequired_matchResumeToJD [of c r jd] z show ?thesis by blast
qed

lemma exampleResults_required:
  "requiredStrong exampleResults = 1" "requiredPartial exampleResults = 0"
  "requiredMissing exampleResults = 1" "totalRequired exampleResults = 2"
  by (simp_all add: totalRequired_def requiredStrong_def requiredPartial_def
      requiredMissing_def exampleResults_def)

text \<open>
  One required strong match and one required missing term give one half; a job description
  without weighted terms gives 1.
\<close>

theorem calculateRequiredMatchScore_value_witness:
  "calculateRequiredMatchScore exampleResults = 1 / 2
   \<and> calculateRequiredMatchScore
       (matchResumeToJD (\<lambda>a b. 0) (exampleResume (js ''xyz''))
          (exampleJD (js ''git'')\<lparr>weightedTerms := []\<rparr>)) = 1"
  using calculateRequiredMatchScore_value
          [of exampleResults "\<lambda>a b. 0" "exampleResume (js ''xyz'')"
              "exampleJD (js ''git'')\<lparr>weightedTerms := []\<rparr>"]
  by (simp add: exampleResults_required clamp_def)

subsection \<open>Rounding to doubles\<close>

text \<open>
  The rounding is monotone on the numbers that are not negative, leaves a double as it is,
  and is evaluated on a given number from its exponent.
\<close>

lemma roundTiesToEven_of_int: "roundTiesToEven (of_int k) = k"
  by (simp add: roundTiesToEven_def)

lemma roundTiesToEven_floor: "\<lfloor>x\<rfloor> \<le> roundTiesToEven x" "roundTiesToEven x \<le> \<lfloor>x\<rfloor> + 1"
  by (simp_all add: roundTiesToEven_def Let_def)

lemma roundTiesToEven_mono:
  assumes "x \<le> y"
  shows "roundTiesToEven x \<le> roundTiesToEven y"
proof (cases "\<lfloor>x\<rfloor> = \<lfloor>y\<rfloor>")
  case True
  have "x - of_int \<lfloor>x\<rfloor> \<le> y - of_int \<lfloor>x\<rfloor>" using assms by simp
  then show ?thesis
    unfolding roundTiesToEven_def Let_def True [symmetric] by auto
next
  case False
  have "\<lfloor>x\<rfloor> \<le> \<lfloor>y\<rfloor>" using assms by (rule floor_mono)
  with False have "\<lfloor>x\<rfloor> + 1 \<le> \<lfloor>y\<rfloor>" by simp
  with roundTiesToEven_floor(2) [of x] roundTiesToEven_floor(1) [of y] show ?thesis by linarith
qed

lemma roundTiesToEven_ge: "of_int k \<le> x \<Longrightarrow> k \<le> roundTiesToEven x"
  using roundTiesToEven_mono [of "of_int k" x] by (simp add: roundTiesToEven_of_int)

lemma roundTiesToEven_le: "x \<le> of_int k \<Longrightarrow> roundTiesToEven x \<le> k"
  using roundTiesToEven_mono [of x "of_int k"] by (simp add: roundTiesToEven_of_int)

lemma bitlen_eq:
  fixes a :: int and k :: nat
  assumes "2 ^ k \<le> a" "a < 2 ^ Suc k"
  shows "bitlen a = int k + 1"
proof (rule antisym)
  show "bitlen a \<le> int k + 1"
    using assms(2) by (simp add: bitlen_le_iff_power nat_add_distrib)
  show "int k + 1 \<le> bitlen a"
    using assms(1) by (simp add: bitlen_ge_iff_power nat_add_distrib)
qed

lemma exponentOf_eq:
  assumes lo: "2 powi e \<le> \<bar>x\<bar>" and hi: "\<bar>x\<bar> < 2 powi (e + 1)" and e: "- 1022 \<le> e"
  shows "exponentOf x = e"
proof (cases "0 \<le> e")
  case True
  define k where "k = nat e"
  have ek: "e = int k" using True by (simp add: k_def)
  have lo': "2 ^ k \<le> \<bar>x\<bar>" using lo by (simp add: ek)
  have hi': "\<bar>x\<bar> < 2 ^ Suc k" using hi by (simp add: ek power_int_add)
  have one: "1 \<le> \<bar>x\<bar>" using lo' one_le_power [of "2::real" k] by linarith
  have "(2::int) ^ k \<le> \<lfloor>\<bar>x\<bar>\<rfloor>" using lo' by (simp add: le_floor_iff)
  moreover have "\<lfloor>\<bar>x\<bar>\<rfloor> < 2 ^ Suc k" using hi' by (simp add: floor_less_iff)
  ultimately have "bitlen \<lfloor>\<bar>x\<bar>\<rfloor> = int k + 1" by (rule bitlen_eq)
  then show ?thesis using one e by (simp add: exponentOf_def ek)
next
  case False
  define k where "k = nat (- e - 1)"
  have ek: "e = - int (Suc k)" using False by (simp add: k_def)
  have ek1: "e + 1 = - int k" using False by (simp add: k_def)
  have p1: "(2::real) powi (e + 1) = 1 / 2 ^ k"
    by (simp only: ek1 power_int_minus power_int_of_nat inverse_eq_divide)
  have p0: "(2::real) powi e = 1 / 2 ^ Suc k"
    by (simp only: ek power_int_minus power_int_of_nat inverse_eq_divide)
  have pos: "0 < \<bar>x\<bar>" using lo zero_less_power_int [of "2::real" e] by linarith
  have lt1: "\<bar>x\<bar> < 1"
  proof -
    have "1 / 2 ^ k \<le> (1::real)" by simp
    with hi p1 show ?thesis by linarith
  qed
  have a: "2 ^ k < 1 / \<bar>x\<bar>"
    using hi pos unfolding p1 by (simp add: field_simps)
  have b: "1 / \<bar>x\<bar> \<le> 2 ^ Suc k"
    using lo pos unfolding p0 by (simp add: field_simps)
  have "(2::int) ^ k < \<lceil>1 / \<bar>x\<bar>\<rceil>" using a by (simp add: less_ceiling_iff)
  then have c: "(2::int) ^ k \<le> \<lceil>1 / \<bar>x\<bar>\<rceil> - 1" by simp
  have "\<lceil>1 / \<bar>x\<bar>\<rceil> \<le> 2 ^ Suc k" using b by (simp add: ceiling_le_iff)
  then have d: "\<lceil>1 / \<bar>x\<bar>\<rceil> - 1 < 2 ^ Suc k" by simp
  from c d have "bitlen (\<lceil>1 / \<bar>x\<bar>\<rceil> - 1) = int k + 1" by (rule bitlen_eq)
  then show ?thesis using lt1 e by (simp add: exponentOf_def ek)
qed

lemma exponentOf_small:
  assumes "x \<noteq> 0" "\<bar>x\<bar> < 2 powi (- 1022)"
  shows "exponentOf x = - 1022"
proof -
  have p: "(2::real) powi (- 1022) = 1 / 2 ^ 1022"
    using power_int_minus [of "2::real" 1022] by (simp add: field_simps)
  have pos: "0 < \<bar>x\<bar>" using assms(1) by simp
  have "1 / 2 ^ 1022 \<le> (1::real)" by simp
  with assms(2) p have lt1: "\<bar>x\<bar> < 1" by linarith
  have "2 ^ 1022 < 1 / \<bar>x\<bar>"
    using assms(2) pos unfolding p by (simp add: field_simps)
  then have "(2::int) ^ 1022 < \<lceil>1 / \<bar>x\<bar>\<rceil>" by (simp add: less_ceiling_iff)
  then have "(2::int) ^ (nat 1022 - 1) \<le> \<lceil>1 / \<bar>x\<bar>\<rceil> - 1" by simp
  then have "1022 \<le> bitlen (\<lceil>1 / \<bar>x\<bar>\<rceil> - 1)"
    by (simp only: bitlen_ge_iff_power simp_thms)
  then show ?thesis using lt1 by (simp add: exponentOf_def)
qed

lemma exponentOf_cases:
  assumes "x \<noteq> 0"
  shows "(2 powi exponentOf x \<le> \<bar>x\<bar> \<and> \<bar>x\<bar> < 2 powi (exponentOf x + 1))
         \<or> (exponentOf x = - 1022 \<and> \<bar>x\<bar> < 2 powi (- 1022))"
proof -
  define l where "l = \<lfloor>log 2 \<bar>x\<bar>\<rfloor>"
  have pos: "0 < \<bar>x\<bar>" using assms by simp
  from floor_log_eq_powr_iff [OF pos, of 2 l]
  have "2 powr (of_int l) \<le> \<bar>x\<bar> \<and> \<bar>x\<bar> < 2 powr (of_int l + 1)" by (simp add: l_def)
  then have b: "2 powi l \<le> \<bar>x\<bar>" "\<bar>x\<bar> < 2 powi (l + 1)"
    using powr_real_of_int' [of "2::real" l] powr_real_of_int' [of "2::real" "l + 1"]
    by simp_all
  show ?thesis
  proof (cases "- 1022 \<le> l")
    case True
    with b have "exponentOf x = l" by (rule exponentOf_eq)
    with b show ?thesis by simp
  next
    case False
    then have "l + 1 \<le> - 1022" by simp
    then have "(2::real) powi (l + 1) \<le> 2 powi (- 1022)"
      by (rule power_int_increasing) simp
    with b(2) have s: "\<bar>x\<bar> < 2 powi (- 1022)" by linarith
    with assms have "exponentOf x = - 1022" by (rule exponentOf_small)
    with s show ?thesis by simp
  qed
qed

lemma exponentOf_ge: "- 1022 \<le> exponentOf x"
  by (simp add: exponentOf_def)

lemma exponentOf_upper:
  assumes "x \<noteq> 0"
  shows "\<bar>x\<bar> < 2 powi (exponentOf x + 1)"
proof -
  have "(2::real) powi (- 1022) \<le> 2 powi (- 1022 + 1)"
    by (rule power_int_increasing) simp_all
  with exponentOf_cases [OF assms] show ?thesis by auto
qed

lemma exponentOf_lower:
  assumes "x \<noteq> 0" "- 1022 < exponentOf x"
  shows "2 powi exponentOf x \<le> \<bar>x\<bar>"
  using exponentOf_cases [OF assms(1)] assms(2) by auto


lemma toDouble_0: "toDouble 0 = 0"
  by (simp add: toDouble_def)

lemma toDouble_eval:
  assumes "2 powi e \<le> \<bar>x\<bar>" "\<bar>x\<bar> < 2 powi (e + 1)" "- 1022 \<le> e"
  shows "toDouble x = of_int (roundTiesToEven (x / 2 powi (e - 52))) * 2 powi (e - 52)"
proof -
  have "0 < \<bar>x\<bar>" using assms(1) zero_less_power_int [of "2::real" e] by linarith
  then have "x \<noteq> 0" by simp
  then show ?thesis
    by (simp add: toDouble_def exponentOf_eq [OF assms])
qed

lemma ulp_times: "(2::real) powi (e - 52) * 2 ^ 52 = 2 powi e"
  using power_int_add [of "2::real" "e - 52" 52] by simp

lemma ulp_times_53: "(2::real) powi (e - 52) * 2 ^ 53 = 2 powi (e + 1)"
  using power_int_add [of "2::real" "e - 52" 53] by (simp add: add.commute)

lemma toDouble_upper:
  assumes "0 < x"
  shows "toDouble x \<le> 2 powi (exponentOf x + 1)"
proof -
  define u :: real where "u = 2 powi (exponentOf x - 52)"
  define n where "n = roundTiesToEven (x / u)"
  have u: "0 < u" by (simp add: u_def)
  have t: "toDouble x = real_of_int n * u"
    using assms by (simp add: toDouble_def u_def n_def)
  have p: "u * 2 ^ 53 = 2 powi (exponentOf x + 1)"
    unfolding u_def by (rule ulp_times_53)
  have "x < 2 powi (exponentOf x + 1)" using exponentOf_upper [of x] assms by simp
  then have "x < u * 2 ^ 53" by (simp only: p)
  then have "x / u \<le> of_int (2 ^ 53)" using u by (simp add: field_simps)
  then have "n \<le> 2 ^ 53" unfolding n_def by (rule roundTiesToEven_le)
  then have "real_of_int n \<le> real_of_int (2 ^ 53)" by (simp only: of_int_le_iff)
  then have "real_of_int n * u \<le> real_of_int (2 ^ 53) * u"
    by (rule mult_right_mono) (use u in simp)
  also have "\<dots> = u * 2 ^ 53" by simp
  also have "\<dots> = 2 powi (exponentOf x + 1)" by (rule p)
  finally show ?thesis by (simp only: t)
qed

lemma toDouble_lower:
  assumes "0 < x" "2 powi exponentOf x \<le> x"
  shows "2 powi exponentOf x \<le> toDouble x"
proof -
  define u :: real where "u = 2 powi (exponentOf x - 52)"
  define n where "n = roundTiesToEven (x / u)"
  have u: "0 < u" by (simp add: u_def)
  have t: "toDouble x = real_of_int n * u"
    using assms by (simp add: toDouble_def u_def n_def)
  have p: "u * 2 ^ 52 = 2 powi exponentOf x"
    unfolding u_def by (rule ulp_times)
  have "u * 2 ^ 52 \<le> x" using assms(2) by (simp only: p)
  then have "of_int (2 ^ 52) \<le> x / u" using u by (simp add: field_simps)
  then have "2 ^ 52 \<le> n" unfolding n_def by (rule roundTiesToEven_ge)
  then have "real_of_int (2 ^ 52) \<le> real_of_int n" by (simp only: of_int_le_iff)
  then have "real_of_int (2 ^ 52) * u \<le> real_of_int n * u"
    by (rule mult_right_mono) (use u in simp)
  moreover have "real_of_int (2 ^ 52) * u = u * 2 ^ 52" by simp
  ultimately have "2 powi exponentOf x \<le> real_of_int n * u" by (simp only: p)
  then show ?thesis by (simp only: t)
qed

lemma exponentOf_mono:
  assumes "0 < x" "x \<le> y"
  shows "exponentOf x \<le> exponentOf y"
proof (rule ccontr)
  assume "\<not> exponentOf x \<le> exponentOf y"
  then have lt: "exponentOf y + 1 \<le> exponentOf x" by simp
  with exponentOf_ge [of y] have "- 1022 < exponentOf x" by linarith
  with exponentOf_lower [of x] assms(1) have a: "2 powi exponentOf x \<le> x" by simp
  have b: "y < 2 powi (exponentOf y + 1)" using exponentOf_upper [of y] assms by simp
  have "(2::real) powi (exponentOf y + 1) \<le> 2 powi exponentOf x"
    using lt by (rule power_int_increasing) simp
  with a b assms(2) show False by linarith
qed

lemma toDouble_mono:
  assumes "0 \<le> x" "x \<le> y"
  shows "toDouble x \<le> toDouble y"
proof (cases "x = 0")
  case True
  show ?thesis
  proof (cases "y = 0")
    case True
    with \<open>x = 0\<close> show ?thesis by simp
  next
    case False
    with assms True have y: "0 < y" by simp
    define u :: real where "u = 2 powi (exponentOf y - 52)"
    have u: "0 < u" by (simp add: u_def)
    have "of_int 0 \<le> y / u" using y u by simp
    then have "0 \<le> roundTiesToEven (y / u)" by (rule roundTiesToEven_ge)
    then have "0 \<le> real_of_int (roundTiesToEven (y / u)) * u" using u by simp
    then show ?thesis using True False by (simp add: toDouble_def u_def)
  qed
next
  case False
  with assms have x: "0 < x" and y: "0 < y" by simp_all
  from exponentOf_mono [OF x assms(2)] consider
    (eq) "exponentOf x = exponentOf y" | (lt) "exponentOf x + 1 \<le> exponentOf y" by linarith
  then show ?thesis
  proof cases
    case eq
    define u :: real where "u = 2 powi (exponentOf y - 52)"
    have u: "0 < u" by (simp add: u_def)
    have "x / u \<le> y / u" using assms(2) u by (simp add: divide_right_mono)
    then have "roundTiesToEven (x / u) \<le> roundTiesToEven (y / u)" by (rule roundTiesToEven_mono)
    then have "real_of_int (roundTiesToEven (x / u)) * u \<le> real_of_int (roundTiesToEven (y / u)) * u"
      using u by simp
    then show ?thesis using x y eq by (simp add: toDouble_def u_def)
  next
    case lt
    with exponentOf_ge [of x] have "- 1022 < exponentOf y" by linarith
    with exponentOf_lower [of y] y have "2 powi exponentOf y \<le> y" by simp
    with y have a: "2 powi exponentOf y \<le> toDouble y" by (rule toDouble_lower)
    have b: "toDouble x \<le> 2 powi (exponentOf x + 1)" using x by (rule toDouble_upper)
    have "(2::real) powi (exponentOf x + 1) \<le> 2 powi exponentOf y"
      using lt by (rule power_int_increasing) simp
    with a b show ?thesis by linarith
  qed
qed

lemma toDouble_nonneg: "0 \<le> x \<Longrightarrow> 0 \<le> toDouble x"
  using toDouble_mono [of 0 x] by (simp add: toDouble_0)

lemma toDouble_grid:
  assumes "x / 2 powi (exponentOf x - 52) = of_int n"
  shows "toDouble x = x"
proof (cases "x = 0")
  case True
  then show ?thesis by (simp add: toDouble_0)
next
  case False
  have "toDouble x = of_int n * 2 powi (exponentOf x - 52)"
    using False by (simp add: toDouble_def assms roundTiesToEven_of_int)
  also have "\<dots> = x" using assms [symmetric] by simp
  finally show ?thesis .
qed


lemma toDouble_range:
  "\<exists>n j. toDouble x = of_int n * 2 powi j \<and> \<bar>n\<bar> \<le> 2 ^ 53 \<and> - 1074 \<le> j"
proof (cases "x = 0")
  case True
  have "toDouble x = of_int 0 * 2 powi 0" using True by (simp add: toDouble_0)
  then show ?thesis by (intro exI [of _ 0]) simp
next
  case False
  define u :: real where "u = 2 powi (exponentOf x - 52)"
  define n where "n = roundTiesToEven (x / u)"
  have u: "0 < u" by (simp add: u_def)
  have t: "toDouble x = real_of_int n * 2 powi (exponentOf x - 52)"
    using False by (simp add: toDouble_def u_def n_def)
  have p: "u * 2 ^ 53 = 2 powi (exponentOf x + 1)"
    unfolding u_def by (rule ulp_times_53)
  have "\<bar>x\<bar> < 2 powi (exponentOf x + 1)" using exponentOf_upper [OF False] .
  then have b: "\<bar>x\<bar> < u * 2 ^ 53" by (simp only: p)
  have "x \<le> \<bar>x\<bar>" by simp
  with b have "x < u * 2 ^ 53" by linarith
  then have "x / u \<le> of_int (2 ^ 53)" using u by (simp add: field_simps)
  then have hi: "n \<le> 2 ^ 53" unfolding n_def by (rule roundTiesToEven_le)
  have "- \<bar>x\<bar> \<le> x" by simp
  with b have "- (u * 2 ^ 53) < x" by linarith
  then have "of_int (- (2 ^ 53)) \<le> x / u" using u by (simp add: field_simps)
  then have lo: "- (2 ^ 53) \<le> n" unfolding n_def by (rule roundTiesToEven_ge)
  from hi lo have "\<bar>n\<bar> \<le> 2 ^ 53" by linarith
  moreover have "- 1074 \<le> exponentOf x - 52" using exponentOf_ge [of x] by simp
  ultimately show ?thesis using t by blast
qed

lemma toDouble_exact:
  assumes x: "x = of_int k * 2 powi j" and k: "\<bar>k\<bar> \<le> 2 ^ 53" and j: "- 1074 \<le> j"
  shows "toDouble x = x"
proof (cases "x = 0")
  case True
  then show ?thesis by (simp add: toDouble_0)
next
  case False
  define e where "e = exponentOf x"
  show ?thesis
  proof (cases "e - 52 \<le> j")
    case True
    define d where "d = nat (j - (e - 52))"
    have jd: "j = (e - 52) + int d" using True by (simp add: d_def)
    have "(2::real) powi j = 2 powi (e - 52) * 2 powi (int d)"
      unfolding jd by (rule power_int_add) simp
    then have "x = of_int k * (2 powi (e - 52) * 2 ^ d)" using x by simp
    then have "x / 2 powi (e - 52) = of_int (k * 2 ^ d)" by simp
    then show ?thesis unfolding e_def by (rule toDouble_grid)
  next
    case False
    then have je: "j + 53 \<le> e" by simp
    with j have "- 1022 < e" by simp
    then have lo: "2 powi e \<le> \<bar>x\<bar>"
      unfolding e_def using exponentOf_lower [of x] \<open>x \<noteq> 0\<close> by simp
    have "\<bar>x\<bar> = real_of_int \<bar>k\<bar> * 2 powi j" by (simp add: x abs_mult)
    also have "\<dots> \<le> real_of_int (2 ^ 53) * 2 powi j"
      by (rule mult_right_mono) (use k in \<open>simp_all only: of_int_le_iff zero_le_power_int zero_le_numeral\<close>)
    also have "real_of_int (2 ^ 53) * 2 powi j = 2 powi (j + 53)"
      using power_int_add [of "2::real" j 53] by (simp add: mult.commute)
    also have "\<dots> \<le> 2 powi e" using je by (rule power_int_increasing) simp
    finally have hi: "\<bar>x\<bar> \<le> 2 powi e" .
    with lo have eq: "\<bar>x\<bar> = 2 powi e" by linarith
    have "(2::real) powi e = 2 powi (e - 52) * 2 ^ 52" by (simp only: ulp_times)
    with eq have "\<bar>x\<bar> / 2 powi (e - 52) = of_int (2 ^ 52)" by simp
    then have "x / 2 powi (e - 52) = of_int (2 ^ 52) \<or> x / 2 powi (e - 52) = of_int (- (2 ^ 52))"
      by (cases "0 \<le> x") (simp_all add: abs_if)
    then show ?thesis unfolding e_def using toDouble_grid by blast
  qed
qed

lemma toDouble_idem: "toDouble (toDouble x) = toDouble x"
proof -
  from toDouble_range [of x] obtain n j
    where "toDouble x = of_int n * 2 powi j" "\<bar>n\<bar> \<le> 2 ^ 53" "- 1074 \<le> j" by blast
  then show ?thesis by (rule toDouble_exact)
qed

text \<open>
  The double computation of \<open>calculateRequiredMatchScore\<close>, statement by statement, gives
  the rounding of the real number, for counts that are lengths of arrays.
\<close>

lemma toDouble_quarter: "toDouble (1 / 4) = 1 / 4"
  by (simp add: toDouble_eval [where e = "- 2"] roundTiesToEven_def power_int_minus)

lemma toDouble_three_quarters: "toDouble (3 / 4) = 3 / 4"
  by (simp add: toDouble_eval [where e = "- 1"] roundTiesToEven_def power_int_minus)

lemma toDouble_quarters:
  assumes "n < 2 ^ 53"
  shows "toDouble (real n / 4) = real n / 4"
proof (rule toDouble_exact)
  show "real n / 4 = real_of_int (int n) * 2 powi (- 2)"
    by (simp add: power_int_minus)
  show "\<bar>int n\<bar> \<le> 2 ^ 53" using assms by simp
  show "- 1074 \<le> (- 2 :: int)" by simp
qed

lemma toDouble_max_quarter:
  assumes "0 \<le> q"
  shows "max (1 / 4) (toDouble q) = toDouble (max (1 / 4) q)"
proof (cases "q \<le> 1 / 4")
  case True
  with assms have "toDouble q \<le> toDouble (1 / 4)" by (rule toDouble_mono)
  then have l: "max (1 / 4) (toDouble q) = 1 / 4"
    by (simp only: toDouble_quarter max_absorb1)
  have r: "max (1 / 4) q = 1 / 4" using True by (simp only: max_absorb1)
  show ?thesis by (simp only: l r toDouble_quarter)
next
  case False
  then have le: "1 / 4 \<le> q" by simp
  then have "toDouble (1 / 4) \<le> toDouble q" by (rule toDouble_mono [rotated]) simp
  then have l: "max (1 / 4) (toDouble q) = toDouble q"
    by (simp only: toDouble_quarter max_absorb2)
  have r: "max (1 / 4) q = q" using le by (simp only: max_absorb2)
  show ?thesis by (simp only: l r)
qed

lemma requiredMatch_rounding:
  fixes requiredMatches requiredPartialMatches totalRequired :: nat
  assumes "requiredMatches < 2 ^ 32" "requiredPartialMatches < 2 ^ 32"
  shows "max (toDouble 0.25)
           (toDouble (toDouble (real requiredMatches
                                + toDouble (real requiredPartialMatches * toDouble 0.75))
                      / real totalRequired))
         = toDouble (max 0.25 ((real requiredMatches + real requiredPartialMatches * 0.75)
                               / real totalRequired))"
proof -
  have c1: "(0.25::real) = 1 / 4" and c2: "(0.75::real) = 3 / 4" by simp_all
  have a: "3 * requiredPartialMatches < 2 ^ 53" using assms(2) by simp
  have b: "4 * requiredMatches + 3 * requiredPartialMatches < 2 ^ 53" using assms by simp
  have e1: "real requiredPartialMatches * (3 / 4) = real (3 * requiredPartialMatches) / 4"
    by simp
  have e2: "real requiredMatches + real requiredPartialMatches * (3 / 4)
            = real (4 * requiredMatches + 3 * requiredPartialMatches) / 4"
    by simp
  have p: "toDouble (real requiredPartialMatches * (3 / 4))
           = real requiredPartialMatches * (3 / 4)"
    unfolding e1 by (rule toDouble_quarters [OF a])
  have s: "toDouble (real requiredMatches + real requiredPartialMatches * (3 / 4))
           = real requiredMatches + real requiredPartialMatches * (3 / 4)"
    unfolding e2 by (rule toDouble_quarters [OF b])
  have q: "0 \<le> (real requiredMatches + real requiredPartialMatches * (3 / 4))
                / real totalRequired"
    by simp
  show ?thesis
    unfolding c1 c2 toDouble_three_quarters toDouble_quarter p s
    by (rule toDouble_max_quarter [OF q])
qed


subsection \<open>The ATS score\<close>

lemma toDouble_20: "toDouble 20 = 20"
  by (simp add: toDouble_eval [where e = "4"] roundTiesToEven_def power_int_minus)

lemma toDouble_ge_20:
  assumes "20 \<le> a" "0 \<le> b"
  shows "20 \<le> toDouble (a + b)"
proof -
  have "toDouble 20 \<le> toDouble (a + b)"
    by (rule toDouble_mono) (use assms in simp_all)
  then show ?thesis by (simp only: toDouble_20)
qed

lemma toDouble_max_20: "toDouble (max (toDouble x) 20) = max (toDouble x) 20"
  by (simp add: max_def toDouble_idem toDouble_20)

lemma strong_bonus:
  assumes "toDouble a = a"
  shows "(if 0 < n then toDouble (a + min 12 (toDouble (real n * c))) else a)
         = toDouble (a + min 12 (toDouble (real n * c)))"
  using assms by (cases n) (simp_all add: toDouble_0)

lemma partial_bonus:
  assumes "toDouble a = a"
  shows "(if 0 < n then toDouble (a + min 8 (toDouble (real n * c))) else a)
         = toDouble (a + min 8 (toDouble (real n * c)))"
  using assms by (cases n) (simp_all add: toDouble_0)

lemma flag_bonus:
  assumes "toDouble a = a"
  shows "(if b then toDouble (a + numeral k) else a)
         = toDouble (a + (if b then numeral k else 0))"
  using assms by simp

lemma score_closed_form:
  "calculateATSScore m =
     mathRound (min 100
       (toDouble (toDouble (toDouble (toDouble
          (max (toDouble (toDouble (weightedSum m * 100) * toDouble 1.4)) 20
           + min 12 (toDouble (real (length (strongMatch (matches m))) * toDouble 0.8)))
           + min 8 (toDouble (real (length (partialMatch (matches m))) * toDouble 0.5)))
           + (if truthy (sections m Skills) \<and> truthy (sections m Experience) then 5 else 0))
           + (if hasMetrics (resumeMetrics m) then 3 else 0))))"
  unfolding calculateATSScore_def Let_def
  by (simp only: strong_bonus [OF toDouble_max_20] partial_bonus [OF toDouble_idem]
      flag_bonus [OF toDouble_idem])

lemma mathRound_bounds:
  assumes "20 \<le> x"
  shows "20 \<le> mathRound (min 100 x)" and "mathRound (min 100 x) \<le> 100"
proof -
  have "(20::real) \<le> min 100 x + 1 / 2" using assms by simp
  then show "20 \<le> mathRound (min 100 x)"
    unfolding mathRound_def by (simp add: le_floor_iff)
  have "min 100 x + 1 / 2 < 101" by simp
  then show "mathRound (min 100 x) \<le> 100"
    unfolding mathRound_def by (simp add: floor_le_iff)
qed

lemma bonus_nonneg: "0 \<le> min k (toDouble (real n * toDouble c))" if "0 \<le> k" "0 \<le> c"
proof -
  have "0 \<le> toDouble c" using that(2) by (rule toDouble_nonneg)
  then have "0 \<le> real n * toDouble c" by simp
  then have "0 \<le> toDouble (real n * toDouble c)" by (rule toDouble_nonneg)
  with that(1) show ?thesis by simp
qed

text \<open>
  C2. The score is an integer between 20 and 100, for every result of the matching step
  (and so whenever at least one weighted term was extracted). It is computed in doubles
  and in this order: the weighted sum of the five sub-scores, times 100, times 1.4, raised
  to at least 20, then the bonuses (at most 12 for strong matches, at most 8 for partial
  matches, 5 for a skills and an experience section, 3 for metrics), then capped at 100
  and rounded to the nearest integer.
\<close>

theorem calculateATSScore_bounds:
  "calculateATSScore m =
     mathRound (min 100
       (toDouble (toDouble (toDouble (toDouble
          (max (toDouble (toDouble (weightedSum m * 100) * toDouble 1.4)) 20
           + min 12 (toDouble (real (length (strongMatch (matches m))) * toDouble 0.8)))
           + min 8 (toDouble (real (length (partialMatch (matches m))) * toDouble 0.5)))
           + (if truthy (sections m Skills) \<and> truthy (sections m Experience) then 5 else 0))
           + (if hasMetrics (resumeMetrics m) then 3 else 0))))
   \<and> weightedSum m =
       toDouble (toDouble (toDouble (toDouble (toDouble
         (0 + toDouble (calculateSkillMatchScore m * toDouble 0.55))
          + toDouble (toDouble (calculateRequiredMatchScore m) * toDouble 0.18))
          + toDouble (calculateDemonstrationScore m * toDouble 0.10))
          + toDouble (calculateStructureScore m * toDouble 0.10))
          + toDouble ((if hasMetrics (resumeMetrics m) then 1 else 0) * toDouble 0.07))
   \<and> 20 \<le> calculateATSScore m \<and> calculateATSScore m \<le> 100"
proof -
  let ?s2 = "max (toDouble (toDouble (weightedSum m * 100) * toDouble 1.4)) 20"
  let ?s3 = "toDouble (?s2
              + min 12 (toDouble (real (length (strongMatch (matches m))) * toDouble 0.8)))"
  let ?s4 = "toDouble (?s3
              + min 8 (toDouble (real (length (partialMatch (matches m))) * toDouble 0.5)))"
  let ?s5 = "toDouble (?s4
              + (if truthy (sections m Skills) \<and> truthy (sections m Experience) then 5 else 0))"
  let ?s6 = "toDouble (?s5 + (if hasMetrics (resumeMetrics m) then 3 else 0))"
  have eq: "calculateATSScore m = mathRound (min 100 ?s6)" by (rule score_closed_form)
  have ws: "weightedSum m =
       toDouble (toDouble (toDouble (toDouble (toDouble
         (0 + toDouble (calculateSkillMatchScore m * toDouble 0.55))
          + toDouble (toDouble (calculateRequiredMatchScore m) * toDouble 0.18))
          + toDouble (calculateDemonstrationScore m * toDouble 0.10))
          + toDouble (calculateStructureScore m * toDouble 0.10))
          + toDouble ((if hasMetrics (resumeMetrics m) then 1 else 0) * toDouble 0.07))"
    unfolding weightedSum_def by (simp only: foldl.simps prod.case)
  have s2: "20 \<le> ?s2" by simp
  have s3: "20 \<le> ?s3" using s2 by (rule toDouble_ge_20) (rule bonus_nonneg, simp_all)
  have s4: "20 \<le> ?s4" using s3 by (rule toDouble_ge_20) (rule bonus_nonneg, simp_all)
  have s5: "20 \<le> ?s5" using s4 by (rule toDouble_ge_20) simp
  have s6: "20 \<le> ?s6" using s5 by (rule toDouble_ge_20) simp
  have lo: "20 \<le> calculateATSScore m"
    unfolding eq by (rule mathRound_bounds(1) [OF s6])
  have hi: "calculateATSScore m \<le> 100"
    unfolding eq by (rule mathRound_bounds(2) [OF s6])
  from eq ws lo hi show ?thesis by (intro conjI)
qed

text \<open>The values of \<open>toDouble\<close> that the two examples need.\<close>

lemma double_value_1: "toDouble (7 / 100) = 1261007895663739 / 18014398509481984"
  by (simp add: toDouble_eval [where e = "- 4"] roundTiesToEven_def power_int_minus)

lemma double_value_2: "toDouble (3242591731706757 / 36028797018963968) = 3242591731706757 / 36028797018963968"
  by (simp add: toDouble_eval [where e = "- 4"] roundTiesToEven_def power_int_minus)

lemma double_value_3: "toDouble (1 / 10) = 3602879701896397 / 36028797018963968"
  by (simp add: toDouble_eval [where e = "- 4"] roundTiesToEven_def power_int_minus)

lemma double_value_4: "toDouble (3602879701896397 / 36028797018963968) = 3602879701896397 / 36028797018963968"
  by (simp add: toDouble_eval [where e = "- 4"] roundTiesToEven_def power_int_minus)

lemma double_value_5: "toDouble (3242591731706757 / 18014398509481984) = 3242591731706757 / 18014398509481984"
  by (simp add: toDouble_eval [where e = "- 3"] roundTiesToEven_def power_int_minus)

lemma double_value_6: "toDouble (9 / 50) = 3242591731706757 / 18014398509481984"
  by (simp add: toDouble_eval [where e = "- 3"] roundTiesToEven_def power_int_minus)

lemma double_value_7: "toDouble (2476979795053773 / 9007199254740992) = 2476979795053773 / 9007199254740992"
  by (simp add: toDouble_eval [where e = "- 2"] roundTiesToEven_def power_int_minus)

lemma double_value_8: "toDouble (3 / 10) = 5404319552844595 / 18014398509481984"
  by (simp add: toDouble_eval [where e = "- 2"] roundTiesToEven_def power_int_minus)

lemma double_value_9: "toDouble (1643813863990231 / 4503599627370496) = 1643813863990231 / 4503599627370496"
  by (simp add: toDouble_eval [where e = "- 2"] roundTiesToEven_def power_int_minus)

lemma double_value_10: "toDouble (13150510911921849 / 36028797018963968) = 1643813863990231 / 4503599627370496"
  by (simp add: toDouble_eval [where e = "- 2"] roundTiesToEven_def power_int_minus)

lemma double_value_11: "toDouble (2 / 5) = 3602879701896397 / 9007199254740992"
  by (simp add: toDouble_eval [where e = "- 2"] roundTiesToEven_def power_int_minus)

lemma double_value_12: "toDouble (3602879701896397 / 9007199254740992) = 3602879701896397 / 9007199254740992"
  by (simp add: toDouble_eval [where e = "- 2"] roundTiesToEven_def power_int_minus)

lemma double_value_13: "toDouble (8196551321814303 / 18014398509481984) = 8196551321814303 / 18014398509481984"
  by (simp add: toDouble_eval [where e = "- 2"] roundTiesToEven_def power_int_minus)

lemma double_value_14: "toDouble (4188347653454561 / 9007199254740992) = 4188347653454561 / 9007199254740992"
  by (simp add: toDouble_eval [where e = "- 2"] roundTiesToEven_def power_int_minus)

lemma double_value_15: "toDouble (16753390613818245 / 36028797018963968) = 4188347653454561 / 9007199254740992"
  by (simp add: toDouble_eval [where e = "- 2"] roundTiesToEven_def power_int_minus)

lemma double_value_16: "toDouble (1 / 2) = 1 / 2"
  by (simp add: toDouble_eval [where e = "- 1"] roundTiesToEven_def power_int_minus)

lemma double_value_17: "toDouble (11 / 20) = 2476979795053773 / 4503599627370496"
  by (simp add: toDouble_eval [where e = "- 1"] roundTiesToEven_def power_int_minus)

lemma double_value_18: "toDouble (19995982345525003 / 36028797018963968) = 4998995586381251 / 9007199254740992"
  by (simp add: toDouble_eval [where e = "- 1"] roundTiesToEven_def power_int_minus)

lemma double_value_19: "toDouble (2949857755927675 / 4503599627370496) = 2949857755927675 / 4503599627370496"
  by (simp add: toDouble_eval [where e = "- 1"] roundTiesToEven_def power_int_minus)

lemma double_value_20: "toDouble (23598862047421401 / 36028797018963968) = 2949857755927675 / 4503599627370496"
  by (simp add: toDouble_eval [where e = "- 1"] roundTiesToEven_def power_int_minus)

lemma double_value_21: "toDouble (4 / 5) = 3602879701896397 / 4503599627370496"
  by (simp add: toDouble_eval [where e = "- 1"] roundTiesToEven_def power_int_minus)

lemma double_value_22: "toDouble (3602879701896397 / 4503599627370496) = 3602879701896397 / 4503599627370496"
  by (simp add: toDouble_eval [where e = "- 1"] roundTiesToEven_def power_int_minus)

lemma double_value_23: "toDouble (19 / 20) = 4278419646001971 / 4503599627370496"
  by (simp add: toDouble_eval [where e = "- 1"] roundTiesToEven_def power_int_minus)

lemma double_value_24: "toDouble 1 = 1"
  by (simp add: toDouble_eval [where e = "0"] roundTiesToEven_def power_int_minus)

lemma double_value_25: "toDouble (7 / 5) = 3152519739159347 / 2251799813685248"
  by (simp add: toDouble_eval [where e = "0"] roundTiesToEven_def power_int_minus)

lemma double_value_26: "toDouble (104708691336364025 / 2251799813685248) = 93 / 2"
  by (simp add: toDouble_eval [where e = "5"] roundTiesToEven_def power_int_minus)

lemma double_value_27: "toDouble (293184335741819271 / 4503599627370496) = 2290502622982963 / 35184372088832"
  by (simp add: toDouble_eval [where e = "6"] roundTiesToEven_def power_int_minus)

lemma double_value_28: "toDouble (73746443898191875 / 1125899906842624) = 131 / 2"
  by (simp add: toDouble_eval [where e = "6"] roundTiesToEven_def power_int_minus)

lemma double_value_29: "toDouble (4637300241308057 / 70368744177664) = 4637300241308057 / 70368744177664"
  by (simp add: toDouble_eval [where e = "6"] roundTiesToEven_def power_int_minus)

lemma double_value_30: "toDouble (296787215443715661 / 4503599627370496) = 4637300241308057 / 70368744177664"
  by (simp add: toDouble_eval [where e = "6"] roundTiesToEven_def power_int_minus)

lemma double_value_31: "toDouble (412980085829874457 / 4503599627370496) = 1613203460272947 / 17592186044416"
  by (simp add: toDouble_eval [where e = "6"] roundTiesToEven_def power_int_minus)

lemma double_value_32: "toDouble (6509108836433919 / 70368744177664) = 6509108836433919 / 70368744177664"
  by (simp add: toDouble_eval [where e = "6"] roundTiesToEven_def power_int_minus)

lemma double_value_33: "toDouble (416582965531770829 / 4503599627370496) = 6509108836433919 / 70368744177664"
  by (simp add: toDouble_eval [where e = "6"] roundTiesToEven_def power_int_minus)

lemma double_value_34: "toDouble (6860952557322239 / 70368744177664) = 6860952557322239 / 70368744177664"
  by (simp add: toDouble_eval [where e = "6"] roundTiesToEven_def power_int_minus)

lemmas doubleValues = double_value_1 double_value_2 double_value_3 double_value_4 double_value_5 double_value_6 double_value_7 double_value_8 double_value_9 double_value_10 double_value_11 double_value_12 double_value_13 double_value_14 double_value_15 double_value_16 double_value_17 double_value_18 double_value_19 double_value_20 double_value_21 double_value_22 double_value_23 double_value_24 double_value_25 double_value_26 double_value_27 double_value_28 double_value_29 double_value_30 double_value_31 double_value_32 double_value_33 double_value_34

lemma exampleResults_weightedSum:
  "weightedSum exampleResults = 4188347653454561 / 9007199254740992"
  by (simp add: weightedSum_def calculateSkillMatchScore_def calculateRequiredMatchScore_def
      calculateDemonstrationScore_def calculateStructureScore_def sectionPart_def
      exampleResults_def doubleValues toDouble_0)

lemma exampleDemonstrated_weightedSum:
  "weightedSum exampleDemonstrated = 2949857755927675 / 4503599627370496"
  by (simp add: weightedSum_def calculateSkillMatchScore_def calculateRequiredMatchScore_def
      calculateDemonstrationScore_def calculateStructureScore_def sectionPart_def
      exampleDemonstrated_def doubleValues toDouble_0)

lemma example_flags:
  "truthy (sections exampleResults Skills)"
  "\<not> truthy (sections exampleResults Experience)"
  "\<not> hasMetrics (resumeMetrics exampleResults)"
  "length (strongMatch (matches exampleResults)) = 1"
  "length (partialMatch (matches exampleResults)) = 0"
  "truthy (sections exampleDemonstrated Skills)"
  "truthy (sections exampleDemonstrated Experience)"
  "\<not> hasMetrics (resumeMetrics exampleDemonstrated)"
  "length (strongMatch (matches exampleDemonstrated)) = 1"
  "length (partialMatch (matches exampleDemonstrated)) = 0"
  by (simp_all add: exampleResults_def exampleDemonstrated_def truthy_def js_def)

text \<open>
  For the first example the doubles give 65.89999999999999 before the last rounding and
  the score 66. For the second they give 97.49999999999999 and the score 97, where exact
  arithmetic would give 97.5 and 98.
\<close>

theorem calculateATSScore_bounds_witness:
  "calculateATSScore exampleResults = 66 \<and> calculateATSScore exampleDemonstrated = 97"
  using calculateATSScore_bounds [of exampleResults]
    calculateATSScore_bounds [of exampleDemonstrated]
  by (simp add: exampleResults_weightedSum exampleDemonstrated_weightedSum example_flags
      doubleValues toDouble_0 mathRound_def)


subsection \<open>Every weighted term in one bucket\<close>

lemma three_way_mset:
  "mset (map f (filter (isStrong c a) ts)) + mset (map f (filter (isPartial c a) ts))
   + mset (map f (filter (isMissing c a) ts)) = mset (map f ts)"
proof (induction ts)
  case Nil show ?case by simp
next
  case (Cons t ts)
  then show ?case
    using exclusive(1)[of c a t] exclusive(2)[of c a t] exclusive(3)[of c a t]
    by (cases "isStrong c a t"; cases "isPartial c a t") auto
qed

lemma removeSeen_distinct:
  "distinct (map term (removeSeen seen ts))
   \<and> set (map term (removeSeen seen ts)) \<inter> set seen = {}"
proof (induction ts arbitrary: seen)
  case Nil
  show ?case by simp
next
  case (Cons t ts)
  show ?case
  proof (cases "term t \<in> set seen")
    case True
    with Cons.IH [of seen] show ?thesis by simp
  next
    case False
    with Cons.IH [of "setAdd (term t) seen"] show ?thesis
      by (auto simp: setAdd_def)
  qed
qed

lemma weightedTerms_distinct:
  "distinct (map term (weightedTerms (analyzeJobDescription jdText sk ph)))"
proof -
  obtain req pref where rp:
    "categorizeSkillImportance jdText
       (filter (\<lambda>s. \<not> isNoiseTerm s \<and> \<not> isQualifierTerm s) sk
        @ filter (\<lambda>p. \<not> isNoiseTerm p \<and> \<not> isQualifierTerm p) ph) = (req, pref)"
    by (cases "categorizeSkillImportance jdText
       (filter (\<lambda>s. \<not> isNoiseTerm s \<and> \<not> isQualifierTerm s) sk
        @ filter (\<lambda>p. \<not> isNoiseTerm p \<and> \<not> isQualifierTerm p) ph)") auto
  have "mset (map term (sort_key (\<lambda>t. - weight t) xs)) = mset (map term xs)" for xs :: "weighted_term list"
    by simp
  then have d: "distinct (map term (sort_key (\<lambda>t. - weight t) xs)) = distinct (map term xs)"
    for xs :: "weighted_term list"
    by (rule mset_eq_imp_distinct_iff)
  show ?thesis
    by (simp add: analyzeJobDescription_def Let_def rp d removeDuplicatesByNormalized_def
        removeSeen_distinct)
qed

text \<open>
  C1. The matching step puts every weighted term of the job description into exactly one
  of the three buckets: in the result of the analysis the three lists together have as
  many entries as \<open>analyzeJobDescription\<close> returned weighted terms, the terms named in
  them are, counted with multiplicity, the terms of the weighted list, and no term occurs
  twice in that list.
\<close>

theorem partition_complete:
  "length (strongMatches (performATSAnalysis c r jdText sk ph))
   + length (partialMatches (performATSAnalysis c r jdText sk ph))
   + length (missingSkills (performATSAnalysis c r jdText sk ph))
   = length (weightedTerms (analyzeJobDescription jdText sk ph))
   \<and> mset (map fst (strongMatches (performATSAnalysis c r jdText sk ph)))
     + mset (map fst (partialMatches (performATSAnalysis c r jdText sk ph)))
     + mset (map fst (missingSkills (performATSAnalysis c r jdText sk ph)))
     = mset (map term (weightedTerms (analyzeJobDescription jdText sk ph)))
   \<and> distinct (map term (weightedTerms (analyzeJobDescription jdText sk ph)))"
proof -
  let ?jd = "analyzeJobDescription jdText sk ph"
  let ?a = "allResumeTermsOf r"
  have s: "map fst (strongMatches (performATSAnalysis c r jdText sk ph))
             = map term (filter (isStrong c ?a) (weightedTerms ?jd))"
    by (simp add: performATSAnalysis_def Let_def strong_terms comp_def)
  have p: "map fst (partialMatches (performATSAnalysis c r jdText sk ph))
             = map term (filter (isPartial c ?a) (weightedTerms ?jd))"
    by (simp add: performATSAnalysis_def Let_def partial_terms comp_def)
  have m: "map fst (missingSkills (performATSAnalysis c r jdText sk ph))
             = map term (filter (isMissing c ?a) (weightedTerms ?jd))"
    by (simp add: performATSAnalysis_def Let_def missing_terms comp_def)
  have len: "length (strongMatches (performATSAnalysis c r jdText sk ph))
   + length (partialMatches (performATSAnalysis c r jdText sk ph))
   + length (missingSkills (performATSAnalysis c r jdText sk ph))
   = length (weightedTerms ?jd)"
    using three_way_length [of c ?a "weightedTerms ?jd"]
      arg_cong [OF s, of length] arg_cong [OF p, of length] arg_cong [OF m, of length]
    by simp
  have ms: "mset (map fst (strongMatches (performATSAnalysis c r jdText sk ph)))
     + mset (map fst (partialMatches (performATSAnalysis c r jdText sk ph)))
     + mset (map fst (missingSkills (performATSAnalysis c r jdText sk ph)))
     = mset (map term (weightedTerms ?jd))"
    unfolding s p m by (rule three_way_mset)
  from len ms weightedTerms_distinct show ?thesis by (intro conjI)
qed


subsection \<open>A misspelt resume term\<close>

text \<open>
  C8, as the code has it. When the resume terms include the misspelling \<open>kuberntes\<close>, a
  weighted term \<open>kubernetes\<close> is a strong match with a score of at least 0.9, never a
  partial or a missing one, whatever the coefficient and the other terms are. Its flag
  \<open>typoCorrection\<close> is false: the flag says whether \<open>autocorrectSkill\<close> changed the term
  of the job description, and \<open>kubernetes\<close> comes back from it unchanged.
\<close>

theorem kubernetes_typo_match:
  assumes "js ''kuberntes'' \<in> set (allResumeTermsOf r)"
  shows "(js ''kubernetes'' \<in> term ` set (weightedTerms jd)
            \<longrightarrow> js ''kubernetes'' \<in> jdTerm ` set (strongMatch (matches (matchResumeToJD c r jd))))
         \<and> (\<forall>m \<in> set (strongMatch (matches (matchResumeToJD c r jd))).
               jdTerm m = js ''kubernetes''
               \<longrightarrow> 9 / 10 \<le> partial_match.score m \<and> \<not> typoCorrection m)
         \<and> js ''kubernetes'' \<notin> jdTerm ` set (partialMatch (matches (matchResumeToJD c r jd)))
         \<and> js ''kubernetes'' \<notin> term ` set (missing (matches (matchResumeToJD c r jd)))"
proof -
  let ?a = "allResumeTermsOf r"
  have sc: "9 / 10 \<le> finalScore c ?a t" if "term t = js ''kubernetes''" for t
    using final_kubernetes [OF assms, of c] that by (simp add: finalScore_def)
  have st: "isStrong c ?a t" if "term t = js ''kubernetes''" for t
    using sc [OF that] by (simp add: isStrong_def)
  have np: "\<not> isPartial c ?a t" and nm: "\<not> isMissing c ?a t"
    if "term t = js ''kubernetes''" for t
    using exclusive(1) [OF st [OF that]] by simp_all
  have co: "\<not> corrected (bestMatchFor c (js ''kubernetes'') ?a)"
    by (rule typo_match_kubernetes(2) [OF assms])
  show ?thesis
    unfolding strong_terms partial_terms missing_terms
    using st np nm sc co by (auto simp: image_iff)
qed


lemma normalizeSkill_kuberntes: "normalizeSkill (js ''kuberntes'') = js ''kuberntes''"
  apply (rule normalizeSkill_unknown)
   apply (simp add: stringDefs)
  unfolding skillNormalizationEntries_def assocLast_append
  apply (simp add: groupDefs)
  done

lemma exampleResume_kuberntes:
  "allResumeTermsOf (exampleResume (js ''kuberntes'')) = [js ''kuberntes'']"
  by (simp add: allResumeTermsOf_def exampleResume_def normalizeSkill_kuberntes)

lemma match_kuberntes:
  "match (finalMatchFor c (js ''kubernetes'') [js ''kuberntes'']) = Some (js ''kuberntes'')"
proof -
  have m: "js ''kuberntes'' \<in> set [js ''kuberntes'']" by simp
  from typo_match_kubernetes(3) [OF m, of c]
  have b: "match (bestMatchFor c (js ''kubernetes'') [js ''kuberntes'']) = Some (js ''kuberntes'')"
    by simp
  from b show ?thesis
    by (simp add: finalMatchFor_def Let_def truthy_def best_match.truncate_def)
qed

text \<open>
  C8, as it is stated, asks for the flag to be set. For the job-description term
  \<open>kubernetes\<close> and the single resume term \<open>kuberntes\<close> the only record is a strong
  match with \<open>kuberntes\<close> whose flag is false.
\<close>

theorem kubernetes_flag_not_set:
  "map (\<lambda>m. (jdTerm m, resumeTerm m, typoCorrection m))
     (strongMatch (matches (matchResumeToJD (\<lambda>a b. 0) (exampleResume (js ''kuberntes''))
                              (exampleJD (js ''kubernetes'')))))
   = [(js ''kubernetes'', Some (js ''kuberntes''), False)]
   \<and> partialMatch (matches (matchResumeToJD (\<lambda>a b. 0) (exampleResume (js ''kuberntes''))
                              (exampleJD (js ''kubernetes'')))) = []
   \<and> missing (matches (matchResumeToJD (\<lambda>a b. 0) (exampleResume (js ''kuberntes''))
                              (exampleJD (js ''kubernetes'')))) = []"
proof -
  let ?c = "\<lambda>(a::jstring) (b::jstring). 0::real"
  let ?t = "exampleTerm (js ''kubernetes'')"
  have m: "js ''kuberntes'' \<in> set (allResumeTermsOf (exampleResume (js ''kuberntes'')))"
    by (simp add: exampleResume_kuberntes)
  have t: "term ?t = js ''kubernetes''" by (simp add: exampleTerm_def)
  have "9 / 10 \<le> finalScore ?c [js ''kuberntes''] ?t"
    using final_kubernetes [OF m, of ?c] by (simp add: finalScore_def t exampleResume_kuberntes)
  then have st: "isStrong ?c [js ''kuberntes''] ?t" by (simp add: isStrong_def)
  have co: "\<not> corrected (bestMatchFor ?c (js ''kubernetes'') [js ''kuberntes''])"
    using typo_match_kubernetes(2) [OF m, of ?c] by (simp add: exampleResume_kuberntes)
  from st exclusive(1) [OF st] co show ?thesis
    unfolding strong_terms partial_terms missing_terms
    by (simp add: exampleResume_kuberntes exampleJD_def t match_kuberntes)
qed

text \<open>The statement above, at this input.\<close>

theorem kubernetes_typo_match_witness:
  "js ''kubernetes''
     \<in> jdTerm ` set (strongMatch (matches (matchResumeToJD (\<lambda>a b. 0)
                        (exampleResume (js ''kuberntes'')) (exampleJD (js ''kubernetes'')))))
   \<and> js ''kubernetes''
     \<notin> term ` set (missing (matches (matchResumeToJD (\<lambda>a b. 0)
                        (exampleResume (js ''kuberntes'')) (exampleJD (js ''kubernetes'')))))"
proof -
  have m: "js ''kuberntes'' \<in> set (allResumeTermsOf (exampleResume (js ''kuberntes'')))"
    by (simp add: exampleResume_kuberntes)
  have t: "js ''kubernetes'' \<in> term ` set (weightedTerms (exampleJD (js ''kubernetes'')))"
    by (simp add: exampleJD_def exampleTerm_def)
  from kubernetes_typo_match [OF m, of "exampleJD (js ''kubernetes'')" "\<lambda>a b. 0"] t
  show ?thesis by blast
qed


subsection \<open>The thresholds at their boundaries\<close>

lemma normalizeSkill_git: "normalizeSkill (js ''git'') = js ''git''"
  apply (rule normalizeSkill_known)
   apply (simp add: stringDefs)
  unfolding skillNormalizationEntries_def assocLast_append
  apply (simp add: groupDefs)
  done

lemma normalizeSkill_xyz: "normalizeSkill (js ''xyz'') = js ''xyz''"
  apply (rule normalizeSkill_unknown)
   apply (simp add: stringDefs)
  unfolding skillNormalizationEntries_def assocLast_append
  apply (simp add: groupDefs)
  done

lemma clean_git: "trim (toLowerCase (js ''git'')) = js ''git''"
  by (simp add: stringDefs)

lemma autocorrectSkill_git: "autocorrectSkill (js ''git'') = js ''git''"
  unfolding autocorrectSkill_eval [OF clean_git]
  by (simp add: commonTechTypos_def)

lemma lev_git_xyz: "levenshteinDistance (js ''git'') (js ''xyz'') = 3"
  by (simp del: levRow.simps add: levEval)

lemma exampleResume_xyz: "allResumeTermsOf (exampleResume (js ''xyz'')) = [js ''xyz'']"
  by (simp add: allResumeTermsOf_def exampleResume_def normalizeSkill_xyz)

lemma finalScore_git_xyz:
  assumes "0 \<le> v" and "v < 7 / 10"
  shows "finalScore (\<lambda>a b. v) [js ''xyz''] (exampleTerm (js ''git'')) = v"
proof -
  have l: "toLowerCase (js ''git'') = js ''git''" "toLowerCase (js ''xyz'') = js ''xyz''"
    by (simp_all add: js_def toLowerCase_def lowerUnit_def)
  have ts: "typoScore (\<lambda>a b. v) (js ''git'') (js ''xyz'') = v"
    using assms by (simp add: typoScore_def Let_def l js_eq_iff lev_git_xyz)
  have b: "match (bestMatchFor (\<lambda>a b. v) (js ''git'') [js ''xyz'']) = None"
    using assms
    by (simp add: bestMatchFor_def findBestMatchWithTypoTolerance_def Let_def
        autocorrectSkill_git l ts reduceBest_def)
  have f: "best_match.score (findBestMatch (\<lambda>a b. v) (js ''git'') [js ''xyz'']) = v"
    by (simp add: findBestMatch_def calculateSimilarity_def Let_def normalizeSkill_git
        normalizeSkill_xyz js_eq_iff reduceBest_def)
  show ?thesis
    by (simp add: finalScore_def finalMatchFor_def Let_def b truthy_def f exampleTerm_def)
qed

lemma exampleResume_git: "allResumeTermsOf (exampleResume (js ''git'')) = [js ''git'']"
  by (simp add: allResumeTermsOf_def exampleResume_def normalizeSkill_git)

lemma finalScore_git_git:
  "finalScore c [js ''git''] (exampleTerm (js ''git'')) = 1"
proof -
  have l: "toLowerCase (js ''git'') = js ''git''"
    by (simp add: js_def toLowerCase_def lowerUnit_def)
  have ts: "typoScore c (js ''git'') (js ''git'') = 1"
    by (simp add: typoScore_def Let_def l)
  have b: "bestMatchFor c (js ''git'') [js ''git'']
             = \<lparr>match = Some (js ''git''), score = 1, corrected = False\<rparr>"
    by (simp add: bestMatchFor_def findBestMatchWithTypoTolerance_def Let_def
        autocorrectSkill_git l ts reduceBest_def)
  show ?thesis
    by (simp add: finalScore_def finalMatchFor_def Let_def b truthy_def exampleTerm_def
        best_match.truncate_def)
qed

lemma exampleResumeTwo_terms: "allResumeTermsOf exampleResumeTwo = [js ''xyz'', js ''git'']"
  by (simp add: allResumeTermsOf_def exampleResumeTwo_def normalizeSkill_xyz
      normalizeSkill_git)

text \<open>
  The boundaries themselves: an equal term has the score 1 and is strong, also when it is
  not the first of the resume terms; with a coefficient that is constantly 0.65, 0.649,
  0.45 or 0.449 and no other similarity between the terms, the term is strong, partial,
  partial and missing.
\<close>

theorem matchResumeToJD_thresholds_witness:
  "map partial_match.score (strongMatch (matches (matchResumeToJD (\<lambda>a b. 0)
       (exampleResume (js ''git'')) (exampleJD (js ''git''))))) = [1]
   \<and> map partial_match.score (strongMatch (matches (matchResumeToJD (\<lambda>a b. 0)
       exampleResumeTwo (exampleJD (js ''git''))))) = [1]
   \<and> map jdTerm (strongMatch (matches (matchResumeToJD (\<lambda>a b. 0.65)
       (exampleResume (js ''xyz'')) (exampleJD (js ''git''))))) = [js ''git'']
   \<and> map jdTerm (partialMatch (matches (matchResumeToJD (\<lambda>a b. 0.649)
       (exampleResume (js ''xyz'')) (exampleJD (js ''git''))))) = [js ''git'']
   \<and> map jdTerm (partialMatch (matches (matchResumeToJD (\<lambda>a b. 0.45)
       (exampleResume (js ''xyz'')) (exampleJD (js ''git''))))) = [js ''git'']
   \<and> map term (missing (matches (matchResumeToJD (\<lambda>a b. 0.449)
       (exampleResume (js ''xyz'')) (exampleJD (js ''git''))))) = [js ''git'']"
proof -
  let ?t = "exampleTerm (js ''git'')"
  have t: "term ?t = js ''git''" by (simp add: exampleTerm_def)
  from matchResumeToJD_thresholds
         [of "\<lambda>a b. 0" "exampleResumeTwo" "exampleJD (js ''git'')" ?t]
  have two: "finalScore (\<lambda>a b. 0) [js ''xyz'', js ''git''] ?t = 1"
    and "map partial_match.score (strongMatch (matches (matchResumeToJD (\<lambda>a b. 0)
           exampleResumeTwo (exampleJD (js ''git'')))))
         = map (finalScore (\<lambda>a b. 0) [js ''xyz'', js ''git''])
             (filter (\<lambda>t. 0.65 \<le> finalScore (\<lambda>a b. 0) [js ''xyz'', js ''git''] t) [?t])"
    by (simp_all add: exampleResumeTwo_terms t autocorrectSkill_git exampleJD_def)
  then have second: "map partial_match.score (strongMatch (matches (matchResumeToJD (\<lambda>a b. 0)
       exampleResumeTwo (exampleJD (js ''git''))))) = [1]"
    by simp
  from matchResumeToJD_thresholds
         [of "\<lambda>a b. 0" "exampleResume (js ''git'')" "exampleJD (js ''git'')" ?t]
    matchResumeToJD_thresholds
         [of "\<lambda>a b. 0.65" "exampleResume (js ''xyz'')" "exampleJD (js ''git'')" ?t]
    matchResumeToJD_thresholds
         [of "\<lambda>a b. 0.649" "exampleResume (js ''xyz'')" "exampleJD (js ''git'')" ?t]
    matchResumeToJD_thresholds
         [of "\<lambda>a b. 0.45" "exampleResume (js ''xyz'')" "exampleJD (js ''git'')" ?t]
    matchResumeToJD_thresholds
         [of "\<lambda>a b. 0.449" "exampleResume (js ''xyz'')" "exampleJD (js ''git'')" ?t]
  have "map partial_match.score (strongMatch (matches (matchResumeToJD (\<lambda>a b. 0)
       (exampleResume (js ''git'')) (exampleJD (js ''git''))))) = [1]
   \<and> map jdTerm (strongMatch (matches (matchResumeToJD (\<lambda>a b. 0.65)
       (exampleResume (js ''xyz'')) (exampleJD (js ''git''))))) = [js ''git'']
   \<and> map jdTerm (partialMatch (matches (matchResumeToJD (\<lambda>a b. 0.649)
       (exampleResume (js ''xyz'')) (exampleJD (js ''git''))))) = [js ''git'']
   \<and> map jdTerm (partialMatch (matches (matchResumeToJD (\<lambda>a b. 0.45)
       (exampleResume (js ''xyz'')) (exampleJD (js ''git''))))) = [js ''git'']
   \<and> map term (missing (matches (matchResumeToJD (\<lambda>a b. 0.449)
       (exampleResume (js ''xyz'')) (exampleJD (js ''git''))))) = [js ''git'']"
    by (simp add: exampleResume_xyz exampleResume_git exampleJD_def finalScore_git_xyz
        finalScore_git_git)
       (simp add: exampleTerm_def)
  with second show ?thesis by simp
qed


subsection \<open>The experience section\<close>







lemma trimEnd_head: "trimEnd s = [] \<or> hd (trimEnd s) = hd s"
proof (induction s rule: rev_induct)
  case Nil
  show ?case by (simp add: trimEnd_def)
next
  case (snoc x xs)
  show ?case
  proof (cases "isWhiteSpace x")
    case True
    with snoc show ?thesis
      by (cases xs) (auto simp: trimEnd_def)
  next
    case False
    then show ?thesis by (simp add: trimEnd_def)
  qed
qed










subsection \<open>Text preprocessing\<close>

lemma space_is_white [simp]: "isWhiteSpace 32"
  by (simp add: isWhiteSpace_def)

lemma word_not_white: "isWordChar c \<Longrightarrow> \<not> isWhiteSpace c"
  by (auto simp: isWordChar_def isDigit_def isWhiteSpace_def)

lemma technical_not_white: "isTechnicalChar c \<Longrightarrow> \<not> isWhiteSpace c"
  by (auto simp: isTechnicalChar_def isWhiteSpace_def)

text \<open>The first and third step.\<close>

lemma set_runs: "set (replaceWhiteSpaceRuns s) \<subseteq> insert 32 (set s)"
proof (induction s rule: replaceWhiteSpaceRuns.induct)
  case 1
  show ?case by simp
next
  case (2 c cs)
  have "set (dropWhile isWhiteSpace cs) \<subseteq> set cs" by (rule set_dropWhileD [THEN subsetI])
  with 2 show ?case by auto
qed

lemma runs_only_space:
  "c \<in> set (replaceWhiteSpaceRuns s) \<Longrightarrow> isWhiteSpace c \<Longrightarrow> c = 32"
proof (induction s rule: replaceWhiteSpaceRuns.induct)
  case 1
  then show ?case by simp
next
  case (2 d ds)
  then show ?case by (auto split: if_splits)
qed

lemma filter_dropWhile_white:
  "filter (\<lambda>c. \<not> isWhiteSpace c) (dropWhile isWhiteSpace cs) = filter (\<lambda>c. \<not> isWhiteSpace c) cs"
  by (induction cs) simp_all

lemma filter_runs:
  "filter (\<lambda>c. \<not> isWhiteSpace c) (replaceWhiteSpaceRuns s) = filter (\<lambda>c. \<not> isWhiteSpace c) s"
  by (induction s rule: replaceWhiteSpaceRuns.induct) (simp_all add: filter_dropWhile_white)

lemma runs_head:
  "\<not> isWhiteSpace c \<Longrightarrow> replaceWhiteSpaceRuns (c # cs) = c # replaceWhiteSpaceRuns cs"
  by simp

lemma dropWhile_head: "dropWhile P cs = [] \<or> \<not> P (hd (dropWhile P cs))"
  by (metis hd_dropWhile)

lemma noDoubleSpace_Cons:
  "noDoubleSpace (c # cs) =
     ((cs = [] \<or> \<not> (isWhiteSpace c \<and> isWhiteSpace (hd cs))) \<and> noDoubleSpace cs)"
  by (cases cs) auto

lemma runs_hd_white:
  "cs = [] \<or> \<not> isWhiteSpace (hd cs) \<Longrightarrow>
     replaceWhiteSpaceRuns cs = [] \<or> \<not> isWhiteSpace (hd (replaceWhiteSpaceRuns cs))"
  by (cases cs) auto

lemma noDoubleSpace_runs: "noDoubleSpace (replaceWhiteSpaceRuns s)"
proof (induction s rule: replaceWhiteSpaceRuns.induct)
  case 1
  show ?case by simp
next
  case (2 c cs)
  show ?case
  proof (cases "isWhiteSpace c")
    case True
    with 2 runs_hd_white [OF dropWhile_head [of isWhiteSpace cs]] show ?thesis
      by (simp add: noDoubleSpace_Cons)
  next
    case False
    with 2 show ?thesis by (simp add: noDoubleSpace_Cons)
  qed
qed

text \<open>The second step.\<close>

lemma kept_not_white: "isWordChar c \<or> isTechnicalChar c \<Longrightarrow> \<not> isWhiteSpace c"
  using word_not_white technical_not_white by blast

lemma other_char_cases:
  "(\<not> isWhiteSpace (if isRemovedChar c then 32 else c)) = (isWordChar c \<or> isTechnicalChar c)"
proof (cases "isRemovedChar c")
  case True
  then show ?thesis by (simp add: isRemovedChar_def)
next
  case False
  then have "isWordChar c \<or> isWhiteSpace c \<or> isTechnicalChar c"
    by (simp add: isRemovedChar_def)
  with False kept_not_white [of c] show ?thesis by auto
qed

lemma kept_value:
  "isWordChar c \<or> isTechnicalChar c \<Longrightarrow> (if isRemovedChar c then 32 else c) = c"
  by (auto simp: isRemovedChar_def)

lemma filter_other:
  "filter (\<lambda>c. \<not> isWhiteSpace c) (replaceOtherChars s)
     = filter (\<lambda>c. isWordChar c \<or> isTechnicalChar c) s"
proof -
  let ?f = "\<lambda>c. if isRemovedChar c then 32 else c"
  let ?k = "\<lambda>c. isWordChar c \<or> isTechnicalChar c"
  have k: "(\<lambda>c. \<not> isWhiteSpace c) \<circ> ?f = ?k"
    by (rule ext) (simp only: comp_apply other_char_cases)
  have "filter (\<lambda>c. \<not> isWhiteSpace c) (map ?f s) = map ?f (filter ?k s)"
    by (simp only: filter_map k)
  also have "\<dots> = filter ?k s"
    by (rule map_idI) (simp add: kept_value)
  finally show ?thesis by (simp only: replaceOtherChars_def)
qed

lemma set_other:
  assumes "\<forall>c \<in> set s. isWhiteSpace c \<longrightarrow> c = 32"
  shows "\<forall>c \<in> set (replaceOtherChars s). isWordChar c \<or> isTechnicalChar c \<or> c = 32"
proof
  fix c
  assume "c \<in> set (replaceOtherChars s)"
  then obtain d where d: "d \<in> set s" and c: "c = (if isRemovedChar d then 32 else d)"
    unfolding replaceOtherChars_def by auto
  show "isWordChar c \<or> isTechnicalChar c \<or> c = 32"
  proof (cases "isRemovedChar d")
    case True
    with c show ?thesis by simp
  next
    case False
    then have "isWordChar d \<or> isWhiteSpace d \<or> isTechnicalChar d"
      by (simp add: isRemovedChar_def)
    with assms d False c show ?thesis by auto
  qed
qed


text \<open>The fourth step changes nothing after the third.\<close>

lemma boundary_id:
  "noDoubleSpace s \<Longrightarrow> \<forall>c \<in> set s. isWhiteSpace c \<longrightarrow> c = 32
     \<Longrightarrow> replaceBoundaryWhiteSpace p s = s"
proof (induction p s rule: replaceBoundaryWhiteSpace.induct)
  case (1 p)
  show ?case by simp
next
  case (2 p c cs)
  from 2(3) have n: "noDoubleSpace cs" by (simp add: noDoubleSpace_Cons)
  from 2(4) have a: "\<forall>c \<in> set cs. isWhiteSpace c \<longrightarrow> c = 32" by simp
  show ?case
  proof (cases "p \<and> isWhiteSpace c")
    case True
    with 2(4) have c: "c = 32" by simp
    from True 2(3) have "cs = [] \<or> \<not> isWhiteSpace (hd cs)"
      by (simp add: noDoubleSpace_Cons)
    then have d: "dropWhile isWhiteSpace cs = cs" by (cases cs) auto
    have "replaceBoundaryWhiteSpace False (dropWhile isWhiteSpace cs) = dropWhile isWhiteSpace cs"
      using 2(1) [OF True] n a d by simp
    with True c d show ?thesis by simp
  next
    case False
    have "replaceBoundaryWhiteSpace (isWordChar c) cs = cs"
      using 2(2) [OF False n a] .
    with False show ?thesis by auto
  qed
qed

text \<open>Trimming.\<close>

lemma noDoubleSpace_append:
  "noDoubleSpace (xs @ ys) \<Longrightarrow> noDoubleSpace xs \<and> noDoubleSpace ys"
proof (induction xs)
  case Nil
  then show ?case by simp
next
  case (Cons x xs)
  then show ?case by (cases xs) (auto simp: noDoubleSpace_Cons)
qed

lemma trimEnd_split: "s = trimEnd s @ rev (takeWhile isWhiteSpace (rev s))"
proof -
  have "rev (dropWhile isWhiteSpace (rev s)) @ rev (takeWhile isWhiteSpace (rev s))
          = rev (takeWhile isWhiteSpace (rev s) @ dropWhile isWhiteSpace (rev s))"
    by (simp only: rev_append)
  also have "\<dots> = rev (rev s)" by (simp only: takeWhile_dropWhile_id)
  finally show ?thesis by (simp only: trimEnd_def rev_rev_ident)
qed

lemma trim_split: "\<exists>xs ys. s = xs @ trim s @ ys"
proof -
  have "s = takeWhile isWhiteSpace s @ trimStart s" by (simp add: trimStart_def)
  moreover have "trimStart s = trim s @ rev (takeWhile isWhiteSpace (rev (trimStart s)))"
    using trimEnd_split [of "trimStart s"] by (simp add: trim_def)
  ultimately have "s = takeWhile isWhiteSpace s @ trim s
                       @ rev (takeWhile isWhiteSpace (rev (trimStart s)))"
    by simp
  then show ?thesis by blast
qed

lemma noDoubleSpace_trim: "noDoubleSpace s \<Longrightarrow> noDoubleSpace (trim s)"
proof -
  assume a: "noDoubleSpace s"
  from trim_split [of s] obtain xs ys where s: "s = xs @ trim s @ ys" by blast
  from a have "noDoubleSpace (xs @ trim s @ ys)" using s by simp
  then show ?thesis using noDoubleSpace_append by blast
qed

lemma set_trim: "set (trim s) \<subseteq> set s"
proof -
  from trim_split [of s] obtain xs ys where s: "s = xs @ trim s @ ys" by blast
  have "set (trim s) \<subseteq> set (xs @ trim s @ ys)" by auto
  with s show ?thesis by simp
qed

lemma filter_trimEnd:
  "filter (\<lambda>c. \<not> isWhiteSpace c) (trimEnd s) = filter (\<lambda>c. \<not> isWhiteSpace c) s"
proof -
  have "filter (\<lambda>c. \<not> isWhiteSpace c) (rev (takeWhile isWhiteSpace (rev s))) = []"
    by (auto simp: filter_empty_conv dest: set_takeWhileD)
  then have "filter (\<lambda>c. \<not> isWhiteSpace c) (trimEnd s @ rev (takeWhile isWhiteSpace (rev s)))
      = filter (\<lambda>c. \<not> isWhiteSpace c) (trimEnd s)"
    by simp
  with trimEnd_split [of s] show ?thesis by simp
qed

lemma filter_trim:
  "filter (\<lambda>c. \<not> isWhiteSpace c) (trim s) = filter (\<lambda>c. \<not> isWhiteSpace c) s"
  by (simp add: trim_def filter_trimEnd trimStart_def filter_dropWhile_white)

lemma trimStart_trimEnd: "trimStart (trimEnd (trimStart s)) = trimEnd (trimStart s)"
proof -
  define d where "d = trimStart s"
  have h: "d = [] \<or> \<not> isWhiteSpace (hd d)"
    unfolding d_def trimStart_def by (rule dropWhile_head)
  have "trimStart (trimEnd d) = trimEnd d"
  proof (cases "trimEnd d")
    case Nil
    then show ?thesis by (simp add: trimStart_def)
  next
    case (Cons c cs)
    with trimEnd_head [of d] have "hd d = c" by simp
    moreover from Cons have "d \<noteq> []" by (auto simp: trimEnd_def)
    ultimately have "\<not> isWhiteSpace c" using h by auto
    with Cons show ?thesis by (simp add: trimStart_def)
  qed
  then show ?thesis by (simp only: d_def)
qed

lemma trimEnd_idem: "trimEnd (trimEnd s) = trimEnd s"
proof -
  have "dropWhile isWhiteSpace (dropWhile isWhiteSpace (rev s)) = dropWhile isWhiteSpace (rev s)"
    by (rule dropWhile_idem)
  then show ?thesis by (simp add: trimEnd_def)
qed

lemma trim_idem: "trim (trim s) = trim s"
  by (simp add: trim_def trimStart_trimEnd trimEnd_idem)

lemma preprocess_string:
  "preprocessText (JString s) =
     trim (replaceWhiteSpaceRuns (replaceOtherChars (replaceWhiteSpaceRuns s)))"
proof -
  let ?t = "replaceWhiteSpaceRuns (replaceOtherChars (replaceWhiteSpaceRuns s))"
  have n: "noDoubleSpace ?t" by (rule noDoubleSpace_runs)
  have w: "\<forall>c \<in> set ?t. isWhiteSpace c \<longrightarrow> c = 32"
    using runs_only_space by blast
  have b: "replaceBoundaryWhiteSpace False ?t = ?t"
    by (rule boundary_id [OF n w])
  show ?thesis
  proof (cases "s = []")
    case True
    then show ?thesis
      by (simp add: preprocessText_def replaceOtherChars_def trim_def trimStart_def trimEnd_def)
  next
    case False
    then show ?thesis by (simp add: preprocessText_def b)
  qed
qed

lemma preprocess_chars:
  "\<forall>c \<in> set (preprocessText (JString s)). isWordChar c \<or> isTechnicalChar c \<or> c = 32"
proof -
  have 1: "\<forall>c \<in> set (replaceWhiteSpaceRuns s). isWhiteSpace c \<longrightarrow> c = 32"
    using runs_only_space by blast
  have 2: "\<forall>c \<in> set (replaceOtherChars (replaceWhiteSpaceRuns s)).
             isWordChar c \<or> isTechnicalChar c \<or> c = 32"
    by (rule set_other [OF 1])
  have 3: "\<forall>c \<in> set (replaceWhiteSpaceRuns (replaceOtherChars (replaceWhiteSpaceRuns s))).
             isWordChar c \<or> isTechnicalChar c \<or> c = 32"
    using 2 set_runs [of "replaceOtherChars (replaceWhiteSpaceRuns s)"] by auto
  show ?thesis
    unfolding preprocess_string
    using 3 set_trim [of "replaceWhiteSpaceRuns (replaceOtherChars (replaceWhiteSpaceRuns s))"]
    by auto
qed

lemma preprocess_kept:
  "filter (\<lambda>c. \<not> isWhiteSpace c) (preprocessText (JString s))
     = filter (\<lambda>c. isWordChar c \<or> isTechnicalChar c) s"
proof -
  have k: "filter (\<lambda>c. isWordChar c \<or> isTechnicalChar c) t
             = filter (\<lambda>c. isWordChar c \<or> isTechnicalChar c) (filter (\<lambda>c. \<not> isWhiteSpace c) t)"
    for t
    using word_not_white technical_not_white by (induction t) auto
  have "filter (\<lambda>c. \<not> isWhiteSpace c) (preprocessText (JString s))
          = filter (\<lambda>c. isWordChar c \<or> isTechnicalChar c) (replaceWhiteSpaceRuns s)"
    by (simp only: preprocess_string filter_trim filter_runs filter_other)
  also have "\<dots> = filter (\<lambda>c. isWordChar c \<or> isTechnicalChar c) s"
    by (subst k, simp only: filter_runs, subst k [symmetric], rule refl)
  finally show ?thesis .
qed

text \<open>The result as the words of the input.\<close>

lemma wordsBy_sep: "sep c \<Longrightarrow> wordsBy sep (c # cs) = wordsBy sep cs"
  by simp

lemma wordsBy_step:
  "\<not> sep c \<Longrightarrow> wordsBy sep (c # cs) =
     (if cs = [] \<or> sep (hd cs) then [c] # wordsBy sep cs
      else (c # hd (wordsBy sep cs)) # tl (wordsBy sep cs))"
  by (cases cs) simp_all

lemma wordsBy_nonempty: "cs \<noteq> [] \<Longrightarrow> \<not> sep (hd cs) \<Longrightarrow> wordsBy sep cs \<noteq> []"
  by (cases cs) simp_all

lemma wordsBy_dropWhile:
  assumes "\<And>c. q c \<Longrightarrow> sep c"
  shows "wordsBy sep (dropWhile q cs) = wordsBy sep cs"
  using assms by (induction cs) simp_all

lemma wordsBy_map:
  assumes s: "\<And>c. sep (f c) = sep' c" and k: "\<And>c. \<not> sep' c \<Longrightarrow> f c = c"
  shows "wordsBy sep (map f t) = wordsBy sep' t"
proof (induction t)
  case Nil
  show ?case by simp
next
  case (Cons c cs)
  show ?case
  proof (cases "sep' c")
    case True
    then have "sep (f c)" by (simp add: s)
    with True Cons show ?thesis by (simp add: wordsBy_sep)
  next
    case False
    then have e: "f c = c" by (rule k)
    have "\<not> sep (f c)" using False by (simp add: s)
    with e have n: "\<not> sep c" by simp
    have h: "(map f cs = [] \<or> sep (hd (map f cs))) = (cs = [] \<or> sep' (hd cs))"
      by (cases cs) (simp_all add: s)
    have a: "wordsBy sep (c # map f cs) =
        (if map f cs = [] \<or> sep (hd (map f cs)) then [c] # wordsBy sep (map f cs)
         else (c # hd (wordsBy sep (map f cs))) # tl (wordsBy sep (map f cs)))"
      by (rule wordsBy_step [where sep = sep, OF n])
    have b: "wordsBy sep' (c # cs) =
        (if cs = [] \<or> sep' (hd cs) then [c] # wordsBy sep' cs
         else (c # hd (wordsBy sep' cs)) # tl (wordsBy sep' cs))"
      by (rule wordsBy_step [where sep = sep', OF False])
    have "wordsBy sep (map f (c # cs)) = wordsBy sep (c # map f cs)" by (simp add: e)
    also have "\<dots> = wordsBy sep' (c # cs)"
      by (simp only: a b h Cons.IH)
    finally show ?thesis .
  qed
qed

lemma runs_starts:
  assumes "\<And>c. isWhiteSpace c \<Longrightarrow> sep c"
  shows "(replaceWhiteSpaceRuns cs = [] \<or> sep (hd (replaceWhiteSpaceRuns cs)))
         = (cs = [] \<or> sep (hd cs))"
  using assms by (cases cs) auto

lemma wordsBy_runs:
  assumes w: "\<And>c. isWhiteSpace c \<Longrightarrow> sep c"
  shows "wordsBy sep (replaceWhiteSpaceRuns t) = wordsBy sep t"
proof (induction t rule: replaceWhiteSpaceRuns.induct)
  case 1
  show ?case by simp
next
  case (2 c cs)
  show ?case
  proof (cases "isWhiteSpace c")
    case True
    have s32: "sep 32" by (rule w) simp
    have "wordsBy sep (replaceWhiteSpaceRuns (c # cs))
            = wordsBy sep (replaceWhiteSpaceRuns (dropWhile isWhiteSpace cs))"
      using True s32 by (simp add: wordsBy_sep)
    also have "\<dots> = wordsBy sep (dropWhile isWhiteSpace cs)" by (rule 2(1) [OF True])
    also have "\<dots> = wordsBy sep cs" by (rule wordsBy_dropWhile) (rule w)
    also have "\<dots> = wordsBy sep (c # cs)" using w [OF True] by (simp add: wordsBy_sep)
    finally show ?thesis .
  next
    case False
    have r: "replaceWhiteSpaceRuns (c # cs) = c # replaceWhiteSpaceRuns cs"
      using False by simp
    show ?thesis
    proof (cases "sep c")
      case True
      then show ?thesis unfolding r using 2(2) [OF False] by (simp only: wordsBy_sep)
    next
      case n: False
      show ?thesis unfolding r
        by (simp only: wordsBy_step [where sep = sep, OF n] runs_starts [of sep, OF w]
            2(2) [OF False])
    qed
  qed
qed

lemma trimEnd_Cons:
  "trimEnd (c # cs) = (if isWhiteSpace c \<and> trimEnd cs = [] then [] else c # trimEnd cs)"
proof (cases "\<forall>x \<in> set (rev cs). isWhiteSpace x")
  case True
  then have "trimEnd cs = []" by (simp add: trimEnd_def)
  moreover have "trimEnd (c # cs) = rev (dropWhile isWhiteSpace [c])"
    using True by (simp add: trimEnd_def dropWhile_append)
  ultimately show ?thesis by simp
next
  case False
  then have "dropWhile isWhiteSpace (rev cs) \<noteq> []" by (simp add: dropWhile_eq_Nil_conv)
  then have "trimEnd cs \<noteq> []" by (simp add: trimEnd_def)
  moreover have "trimEnd (c # cs) = rev (dropWhile isWhiteSpace (rev cs) @ [c])"
    using False by (simp add: trimEnd_def dropWhile_append)
  ultimately show ?thesis by (simp add: trimEnd_def)
qed

lemma joinWords_Cons: "joinWords ((c # w) # ws) = c # joinWords (w # ws)"
  by (cases ws) simp_all

lemma joinWords_single: "joinWords ([c] # ws) = (if ws = [] then [c] else c # 32 # joinWords ws)"
  by (cases ws) simp_all

lemma joinWords_wordsBy:
  assumes "noDoubleSpace u" "\<forall>c \<in> set u. isWhiteSpace c \<longrightarrow> c = 32"
  shows "joinWords (wordsBy isWhiteSpace u) = trim u"
  using assms
proof (induction u)
  case Nil
  show ?case by (simp add: trim_def trimStart_def trimEnd_def)
next
  case (Cons c cs)
  from Cons.prems have n: "noDoubleSpace cs" by (simp add: noDoubleSpace_Cons)
  from Cons.prems have o: "\<forall>c \<in> set cs. isWhiteSpace c \<longrightarrow> c = 32" by simp
  have ih: "joinWords (wordsBy isWhiteSpace cs) = trim cs" by (rule Cons.IH [OF n o])
  show ?case
  proof (cases "isWhiteSpace c")
    case True
    then have "trim (c # cs) = trim cs" by (simp add: trim_def trimStart_def)
    with True ih show ?thesis by (simp add: wordsBy_sep)
  next
    case False
    have t: "trim (c # cs) = c # trimEnd cs"
      using False by (simp add: trim_def trimStart_def trimEnd_Cons)
    show ?thesis
    proof (cases "cs = [] \<or> isWhiteSpace (hd cs)")
      case True
      show ?thesis
      proof (cases cs)
        case Nil
        with False show ?thesis by (simp add: trim_def trimStart_def trimEnd_def)
      next
        case (Cons d ds)
        with True have wd: "isWhiteSpace d" by simp
        with Cons.prems(2) Cons have d: "d = 32" by simp
        from Cons.prems(1) Cons wd \<open>\<not> isWhiteSpace c\<close> n
        have hd: "ds = [] \<or> \<not> isWhiteSpace (hd ds)"
          by (simp add: noDoubleSpace_Cons)
        show ?thesis
        proof (cases ds)
          case Nil
          with Cons d False show ?thesis
            by (simp add: trim_def trimStart_def trimEnd_def)
        next
          case (Cons e es)
          with hd have ne: "\<not> isWhiteSpace e" by simp
          have w: "wordsBy isWhiteSpace cs \<noteq> []"
            using \<open>cs = d # ds\<close> Cons wd ne by simp
          have te: "trimEnd ds \<noteq> []" using Cons ne by (simp add: trimEnd_Cons)
          have tc: "trim cs = trimEnd ds"
            using \<open>cs = d # ds\<close> Cons wd ne by (simp add: trim_def trimStart_def)
          have "trimEnd cs = 32 # trimEnd ds"
            using \<open>cs = d # ds\<close> d te by (simp add: trimEnd_Cons)
          with False True w ih tc t show ?thesis
            by (simp add: wordsBy_step joinWords_single del: wordsBy.simps)
        qed
      qed
    next
      case nw: False
      then have c: "cs \<noteq> []" and h: "\<not> isWhiteSpace (hd cs)" by simp_all
      then have w: "wordsBy isWhiteSpace cs \<noteq> []" by (rule wordsBy_nonempty)
      have tc: "trim cs = trimEnd cs" using c h by (cases cs) (simp_all add: trim_def trimStart_def)
      have "wordsBy isWhiteSpace (c # cs)
              = (c # hd (wordsBy isWhiteSpace cs)) # tl (wordsBy isWhiteSpace cs)"
        using nw by (simp only: wordsBy_step [where sep = isWhiteSpace, OF False] if_False)
      then have "joinWords (wordsBy isWhiteSpace (c # cs))
              = c # joinWords (hd (wordsBy isWhiteSpace cs) # tl (wordsBy isWhiteSpace cs))"
        by (simp only: joinWords_Cons)
      also have "\<dots> = c # joinWords (wordsBy isWhiteSpace cs)" using w by simp
      finally show ?thesis using ih tc t by simp
    qed
  qed
qed

lemma preprocess_words:
  "preprocessText (JString s)
     = joinWords (wordsBy (\<lambda>c. \<not> (isWordChar c \<or> isTechnicalChar c)) s)"
proof -
  let ?sep = "\<lambda>c. \<not> (isWordChar c \<or> isTechnicalChar c)"
  let ?f = "\<lambda>c. if isRemovedChar c then 32 else c"
  let ?t = "replaceWhiteSpaceRuns (replaceOtherChars (replaceWhiteSpaceRuns s))"
  have n: "noDoubleSpace ?t" by (rule noDoubleSpace_runs)
  have o: "\<forall>c \<in> set ?t. isWhiteSpace c \<longrightarrow> c = 32"
    using runs_only_space by blast
  have ws: "isWhiteSpace c \<Longrightarrow> ?sep c" for c
    using kept_not_white [of c] by blast
  have "preprocessText (JString s) = trim ?t" by (rule preprocess_string)
  also have "\<dots> = joinWords (wordsBy isWhiteSpace ?t)"
    by (rule joinWords_wordsBy [OF n o, symmetric])
  also have "wordsBy isWhiteSpace ?t
               = wordsBy isWhiteSpace (replaceOtherChars (replaceWhiteSpaceRuns s))"
    by (rule wordsBy_runs)
  also have "\<dots> = wordsBy ?sep (replaceWhiteSpaceRuns s)"
    unfolding replaceOtherChars_def
  proof (rule wordsBy_map)
    show "isWhiteSpace (?f c) = ?sep c" for c
    proof -
      have "(\<not> isWhiteSpace (?f c)) = (isWordChar c \<or> isTechnicalChar c)"
        by (rule other_char_cases)
      then show ?thesis by blast
    qed
    show "\<not> ?sep c \<Longrightarrow> ?f c = c" for c
      using kept_value [of c] by simp
  qed
  also have "\<dots> = wordsBy ?sep s" by (rule wordsBy_runs) (rule ws)
  finally show ?thesis .
qed

text \<open>
  C9, as the code has it. \<open>preprocessText\<close> returns a string for every value: the empty
  string for what is not a string, and for a string a text that consists of word
  characters (letters and digits of Basic Latin and the underscore), the seven characters
  \<open>. + # - / ( )\<close> and single spaces, with no two spaces in a row and none at either
  end; the word characters and the seven characters of the input are all kept, in their
  order, and everything else is white space or has become white space. Precisely, the
  result consists of the maximal runs of word characters and the seven characters in the
  input, joined by single spaces: whatever stood between two runs, white space or other
  characters, has become one space.
\<close>

theorem preprocessText_shape:
  "preprocessText JUndefined = [] \<and> preprocessText JNull = []
   \<and> preprocessText (JBoolean b) = [] \<and> preprocessText (JNumber x) = []
   \<and> preprocessText JObject = []
   \<and> (\<forall>c \<in> set (preprocessText (JString s)). isWordChar c \<or> isTechnicalChar c \<or> c = 32)
   \<and> noDoubleSpace (preprocessText (JString s))
   \<and> trim (preprocessText (JString s)) = preprocessText (JString s)
   \<and> filter (\<lambda>c. \<not> isWhiteSpace c) (preprocessText (JString s))
       = filter (\<lambda>c. isWordChar c \<or> isTechnicalChar c) s
   \<and> preprocessText (JString s)
       = joinWords (wordsBy (\<lambda>c. \<not> (isWordChar c \<or> isTechnicalChar c)) s)"
proof -
  have n: "noDoubleSpace (preprocessText (JString s))"
    unfolding preprocess_string by (rule noDoubleSpace_trim [OF noDoubleSpace_runs])
  have t: "trim (preprocessText (JString s)) = preprocessText (JString s)"
    unfolding preprocess_string by (rule trim_idem)
  have u: "preprocessText JUndefined = [] \<and> preprocessText JNull = []
   \<and> preprocessText (JBoolean b) = [] \<and> preprocessText (JNumber x) = []
   \<and> preprocessText JObject = []"
    by (simp add: preprocessText_def)
  from u preprocess_chars n t preprocess_kept preprocess_words show ?thesis by blast
qed

lemmas charDefs = isWordChar_def isDigit_def isTechnicalChar_def isRemovedChar_def

lemma preprocess_snake_case:
  "preprocessText (JString (js ''snake_case'')) = js ''snake_case''"
  unfolding preprocess_string
  by (simp add: js_def replaceOtherChars_def charDefs isWhiteSpace_def trim_def trimStart_def
      trimEnd_def)

text \<open>
  C9, as it is stated, has every punctuation mark but the seven replaced by a space. The
  underscore belongs to the class \<open>\w\<close> and stays.
\<close>

theorem preprocessText_keeps_underscore:
  "preprocessText (JString (js ''snake_case'')) = js ''snake_case''
   \<and> \<not> (\<forall>c \<in> set (preprocessText (JString (js ''snake_case''))).
            isPunctuation c \<longrightarrow> isTechnicalChar c)"
proof -
  have "95 \<in> set (js ''snake_case'')" by (simp add: js_def)
  moreover have "isPunctuation 95" "\<not> isTechnicalChar 95"
    by (simp_all add: isPunctuation_def isTechnicalChar_def)
  ultimately show ?thesis
    unfolding preprocess_snake_case by blast
qed

lemma preprocess_example:
  "preprocessText (JString (js ''Node.js,  C++ & C#!'')) = js ''Node.js C++ C#''"
  unfolding preprocess_string
  by (simp add: js_def replaceOtherChars_def charDefs isWhiteSpace_def trim_def trimStart_def
      trimEnd_def)

lemma words_example:
  "joinWords (wordsBy (\<lambda>c. \<not> (isWordChar c \<or> isTechnicalChar c)) (js ''React,Node''))
     = js ''React Node''"
  by (simp add: js_def charDefs)

text \<open>
  The statement above for a text with a comma, two spaces, an ampersand and an exclamation
  mark, and for two words with only a comma between them.
\<close>

theorem preprocessText_shape_witness:
  "preprocessText (JString (js ''Node.js,  C++ & C#!'')) = js ''Node.js C++ C#''
   \<and> noDoubleSpace (js ''Node.js C++ C#'')
   \<and> filter (\<lambda>c. \<not> isWhiteSpace c) (js ''Node.js C++ C#'')
       = filter (\<lambda>c. isWordChar c \<or> isTechnicalChar c) (js ''Node.js,  C++ & C#!'')
   \<and> preprocessText (JString (js ''React,Node'')) = js ''React Node''"
proof -
  have a: "noDoubleSpace (preprocessText (JString (js ''Node.js,  C++ & C#!'')))"
    and b: "filter (\<lambda>c. \<not> isWhiteSpace c) (preprocessText (JString (js ''Node.js,  C++ & C#!'')))
       = filter (\<lambda>c. isWordChar c \<or> isTechnicalChar c) (js ''Node.js,  C++ & C#!'')"
    using preprocessText_shape [of undefined undefined "js ''Node.js,  C++ & C#!''"]
    by blast+
  have c: "preprocessText (JString (js ''React,Node''))
       = joinWords (wordsBy (\<lambda>c. \<not> (isWordChar c \<or> isTechnicalChar c)) (js ''React,Node''))"
    using preprocessText_shape [of undefined undefined "js ''React,Node''"]
    by blast
  from preprocess_example a [unfolded preprocess_example] b [unfolded preprocess_example]
    c [unfolded words_example]
  show ?thesis by (intro conjI)
qed


subsection \<open>Required and preferred terms\<close>

lemma categorizeTerm_cases:
  "categorizeTerm lowerText t (required, preferred) =
     (case indexOf lowerText (toLowerCase t) of
        None \<Rightarrow> (required, preferred)
      | Some i \<Rightarrow>
          if hasIndicator requiredIndicators (contextOf lowerText i (toLowerCase t))
          then (setAdd (normalizeSkill t) required, preferred)
          else if hasIndicator preferredIndicators (contextOf lowerText i (toLowerCase t))
          then (required, setAdd (normalizeSkill t) preferred)
          else (setAdd (normalizeSkill t) required, preferred))"
  by (simp add: Let_def hasIndicator_def split: option.splits)

lemma set_setAdd [simp]: "set (setAdd x xs) = insert x (set xs)"
  by (auto simp: setAdd_def)

lemma categorizeTerm_mono:
  "set (fst st) \<subseteq> set (fst (categorizeTerm lt t st))
   \<and> set (snd st) \<subseteq> set (snd (categorizeTerm lt t st))"
  by (cases st) (auto simp: categorizeTerm_cases simp del: categorizeTerm.simps
      split: option.splits)

lemma fold_categorize_mono:
  "set (fst st) \<subseteq> set (fst (fold (categorizeTerm lt) ts st))
   \<and> set (snd st) \<subseteq> set (snd (fold (categorizeTerm lt) ts st))"
proof (induction ts arbitrary: st)
  case Nil
  show ?case by simp
next
  case (Cons t ts)
  from Cons [of "categorizeTerm lt t st"] categorizeTerm_mono [of st lt t]
  show ?case by auto
qed

lemma categorizeTerm_found:
  assumes "indexOf lt (toLowerCase t) = Some i"
  shows "(if \<not> hasIndicator requiredIndicators (contextOf lt i (toLowerCase t))
             \<and> hasIndicator preferredIndicators (contextOf lt i (toLowerCase t))
          then normalizeSkill t \<in> set (snd (categorizeTerm lt t st))
          else normalizeSkill t \<in> set (fst (categorizeTerm lt t st)))"
  using assms
  by (cases st) (simp add: categorizeTerm_cases del: categorizeTerm.simps)

lemma fold_categorize_found:
  assumes "t \<in> set ts" and "indexOf lt (toLowerCase t) = Some i"
  shows "(if \<not> hasIndicator requiredIndicators (contextOf lt i (toLowerCase t))
             \<and> hasIndicator preferredIndicators (contextOf lt i (toLowerCase t))
          then normalizeSkill t \<in> set (snd (fold (categorizeTerm lt) ts st))
          else normalizeSkill t \<in> set (fst (fold (categorizeTerm lt) ts st)))"
  using assms(1)
proof (induction ts arbitrary: st)
  case Nil
  then show ?case by simp
next
  case (Cons x xs)
  show ?case
  proof (cases "t = x")
    case True
    from categorizeTerm_found [OF assms(2), of st]
      fold_categorize_mono [of "categorizeTerm lt t st" lt xs] True
    show ?thesis by (auto split: if_splits)
  next
    case False
    with Cons.prems have "t \<in> set xs" by simp
    from Cons.IH [OF this, of "categorizeTerm lt x st"] show ?thesis by simp
  qed
qed

lemma weighTerm_fields [simp]:
  "term (weighTerm jd tf req pref t) = normalizeSkill t"
  "originalTerm (weighTerm jd tf req pref t) = t"
  "isRequired (weighTerm jd tf req pref t) = (normalizeSkill t \<in> set req)"
  "isPreferred (weighTerm jd tf req pref t) = (normalizeSkill t \<in> set pref)"
  by (simp_all add: weighTerm_def Let_def)

lemma removeSeen_subset: "set (removeSeen seen ts) \<subseteq> set ts"
  by (induction ts arbitrary: seen) auto

lemma weightedTerms_eq:
  "weightedTerms (analyzeJobDescription jd sk ph) =
     sort_key (\<lambda>t. - weight t)
       (removeDuplicatesByNormalized
          (map (weighTerm jd (calculateTFIDF jd)
                  (fst (categorizeSkillImportance jd (cleanedTerms sk ph)))
                  (snd (categorizeSkillImportance jd (cleanedTerms sk ph))))
             (cleanedTerms sk ph)))"
  by (simp add: analyzeJobDescription_def Let_def cleanedTerms_def split: prod.splits)

lemma weightedTerms_origin:
  assumes "wt \<in> set (weightedTerms (analyzeJobDescription jd sk ph))"
  shows "\<exists>t \<in> set (cleanedTerms sk ph).
           wt = weighTerm jd (calculateTFIDF jd)
                  (fst (categorizeSkillImportance jd (cleanedTerms sk ph)))
                  (snd (categorizeSkillImportance jd (cleanedTerms sk ph))) t"
proof -
  from assms have "wt \<in> set (removeDuplicatesByNormalized
          (map (weighTerm jd (calculateTFIDF jd)
                  (fst (categorizeSkillImportance jd (cleanedTerms sk ph)))
                  (snd (categorizeSkillImportance jd (cleanedTerms sk ph))))
             (cleanedTerms sk ph)))"
    by (simp add: weightedTerms_eq)
  then show ?thesis
    using removeSeen_subset unfolding removeDuplicatesByNormalized_def by fastforce
qed

text \<open>
  C6, as the code has it. A term of the list that occurs in the lower-cased text is put
  into one of the two sets: into the preferred one if the window around its first
  occurrence has a preference indicator and no requirement indicator, into the required one
  otherwise, so also when the window has neither. A term that does not occur in the text
  is passed over. Hence every weighted term whose original term occurs in the text is
  required or preferred.
\<close>

theorem categorizeSkillImportance_found:
  "(t \<in> set ts \<and> indexOf (toLowerCase jd) (toLowerCase t) = Some i
      \<longrightarrow> (if \<not> hasIndicator requiredIndicators
                     (contextOf (toLowerCase jd) i (toLowerCase t))
                \<and> hasIndicator preferredIndicators
                     (contextOf (toLowerCase jd) i (toLowerCase t))
             then normalizeSkill t \<in> set (snd (categorizeSkillImportance jd ts))
             else normalizeSkill t \<in> set (fst (categorizeSkillImportance jd ts))))
   \<and> (\<forall>wt \<in> set (weightedTerms (analyzeJobDescription jd sk ph)).
         includesStr (toLowerCase jd) (toLowerCase (originalTerm wt))
         \<longrightarrow> isRequired wt \<or> isPreferred wt)"
proof -
  have a: "(if \<not> hasIndicator requiredIndicators
                     (contextOf (toLowerCase jd) i (toLowerCase t))
                \<and> hasIndicator preferredIndicators
                     (contextOf (toLowerCase jd) i (toLowerCase t))
             then normalizeSkill t \<in> set (snd (categorizeSkillImportance jd ts))
             else normalizeSkill t \<in> set (fst (categorizeSkillImportance jd ts)))"
    if "t \<in> set ts" and "indexOf (toLowerCase jd) (toLowerCase t) = Some i" for t ts i
    using fold_categorize_found [OF that, of "([], [])"]
    by (simp add: categorizeSkillImportance_def)
  have b: "isRequired wt \<or> isPreferred wt"
    if wt: "wt \<in> set (weightedTerms (analyzeJobDescription jd sk ph))"
      and inc: "includesStr (toLowerCase jd) (toLowerCase (originalTerm wt))" for wt
  proof -
    from weightedTerms_origin [OF wt] obtain t where t: "t \<in> set (cleanedTerms sk ph)"
      and w: "wt = weighTerm jd (calculateTFIDF jd)
                  (fst (categorizeSkillImportance jd (cleanedTerms sk ph)))
                  (snd (categorizeSkillImportance jd (cleanedTerms sk ph))) t"
      by blast
    from inc w obtain i where "indexOf (toLowerCase jd) (toLowerCase t) = Some i"
      by (auto simp: includesStr_def)
    from a [OF t this] w show ?thesis by (auto split: if_splits)
  qed
  from a b show ?thesis by blast
qed

lemma js_mem_iff: "js s \<in> set (map js ws) \<longleftrightarrow> s \<in> set ws"
  by (auto simp: js_eq_iff)

lemma isNoiseTerm_eval:
  assumes "trim t = t" and "toLowerCase t = js l" and "t = c # cs" and "3 \<le> length t"
  shows "isNoiseTerm t =
           ((c = 45 \<or> c = 8226 \<or> c = 42 \<or> isDigit c \<or> c = 43 \<or> c = 46 \<or> c = 58)
            \<or> last t \<in> {46, 58, 44, 59, 33}
            \<or> l \<in> set actionWords
            \<or> l \<in> set noiseWords
            \<or> list_ex (\<lambda>f. includesStr (js l) (js f)) noiseFragments
            \<or> startsWithLeadWord (js l))"
proof -
  have m: "(js l \<in> set (map js ws)) = (l \<in> set ws)" for ws
    by (rule js_mem_iff)
  from assms(4) have n: "\<not> length t < 3" by simp
  show ?thesis
    unfolding isNoiseTerm_def Let_def assms(1) assms(2) m
    using n assms(3) by auto
qed

lemma isQualifierTerm_eval:
  assumes "trim (toLowerCase t) = js l" and "t \<noteq> []"
  shows "isQualifierTerm t =
           list_ex (\<lambda>q. includesStr (js l) (js q) \<or> includesStr (js q) (js l)) qualifiers"
  using assms by (simp add: isQualifierTerm_def Let_def)

lemmas searchDefs = includesStr_def indexOf_def startsWith_def

lemma clean_machine_learning:
  "trim (js ''machine learning'') = js ''machine learning''"
  "toLowerCase (js ''machine learning'') = js ''machine learning''"
  by (simp_all add: stringDefs)

lemma noise_machine_learning: "\<not> isNoiseTerm (js ''machine learning'')"
proof -
  have t: "js ''machine learning'' = 109 # js ''achine learning''"
    by (simp add: js_def)
  have a: "''machine learning'' \<notin> set actionWords"
    by (simp add: actionWords_def)
  have n: "''machine learning'' \<notin> set noiseWords"
    by (simp add: noiseWords_def)
  have f: "\<not> list_ex (\<lambda>f. includesStr (js ''machine learning'') (js f)) noiseFragments"
    by (simp add: noiseFragments_def searchDefs js_def)
  have l: "\<not> startsWithLeadWord (js ''machine learning'')"
    by (simp add: startsWithLeadWord_def noiseLeadWords_def startsWith_def js_def)
  have e: "last (js ''machine learning'') = 103"
    by (simp add: js_def)
  show ?thesis
    unfolding isNoiseTerm_eval [OF clean_machine_learning t, simplified]
    by (simp add: a n f l e isDigit_def)
qed

lemma qualifier_machine_learning: "\<not> isQualifierTerm (js ''machine learning'')"
proof -
  have c: "trim (toLowerCase (js ''machine learning'')) = js ''machine learning''"
    by (simp add: clean_machine_learning)
  have n: "js ''machine learning'' \<noteq> []" by simp
  show ?thesis
    unfolding isQualifierTerm_eval [OF c n]
    by (simp add: qualifiers_def searchDefs js_def)
qed

lemma cleaned_machine_learning:
  "cleanedTerms [] [js ''machine learning''] = [js ''machine learning'']"
  by (simp add: cleanedTerms_def noise_machine_learning qualifier_machine_learning)

lemma split_not_found:
  "indexOf (toLowerCase exampleSplitJD) (toLowerCase (js ''machine learning'')) = None"
  by (simp add: clean_machine_learning)
     (simp add: exampleSplitJD_def js_def toLowerCase_def lowerUnit_def indexOf_def
       startsWith_def)

lemma split_categories:
  "categorizeSkillImportance exampleSplitJD [js ''machine learning''] = ([], [])"
  by (simp add: categorizeSkillImportance_def categorizeTerm_cases split_not_found
      del: categorizeTerm.simps)

text \<open>
  C6, as it is stated, leaves no term unclassified. The terms are taken from the
  preprocessed text, in which a line break has become a space, and are looked up in the
  raw text: for the text \<open>machine\<close>, line break, \<open>learning\<close> the phrase
  \<open>machine learning\<close> is found by the compound patterns of \<open>extractPhrases\<close> but does
  not occur in the raw text, is put into neither set, and its weighted term is neither
  required nor preferred.
\<close>

theorem term_left_unclassified:
  "categorizeSkillImportance exampleSplitJD [js ''machine learning''] = ([], [])
   \<and> map (\<lambda>t. (term t, originalTerm t, isRequired t, isPreferred t))
       (weightedTerms (analyzeJobDescription exampleSplitJD [] [js ''machine learning'']))
     = [(js ''ml'', js ''machine learning'', False, False)]"
  by (simp add: weightedTerms_eq cleaned_machine_learning split_categories
      removeDuplicatesByNormalized_def normalizeSkill_machine_learning)

lemma normalizeSkill_docker: "normalizeSkill (js ''docker'') = js ''docker''"
  apply (rule normalizeSkill_known)
   apply (simp add: stringDefs)
  unfolding skillNormalizationEntries_def assocLast_append
  apply (simp add: groupDefs)
  done

lemma docker_found:
  "indexOf (toLowerCase (js ''we use docker'')) (toLowerCase (js ''docker'')) = Some 7"
  by (simp add: js_def toLowerCase_def lowerUnit_def indexOf_def startsWith_def)

lemma docker_context:
  "contextOf (toLowerCase (js ''we use docker'')) 7 (toLowerCase (js ''docker''))
     = js ''we use docker''"
  by (simp add: contextOf_def Let_def substring_def js_def toLowerCase_def lowerUnit_def)

lemma docker_no_indicator:
  "\<not> hasIndicator requiredIndicators (js ''we use docker'')"
  "\<not> hasIndicator preferredIndicators (js ''we use docker'')"
  by (simp_all add: hasIndicator_def requiredIndicators_def preferredIndicators_def
      searchDefs js_def)

text \<open>A term without any indicator near it is required.\<close>

theorem categorizeSkillImportance_found_witness:
  "js ''docker'' \<in> set (fst (categorizeSkillImportance (js ''we use docker'') [js ''docker'']))"
  using categorizeSkillImportance_found
          [of "js ''docker''" "[js ''docker'']" "js ''we use docker''" 7]
  by (simp add: docker_found docker_context docker_no_indicator normalizeSkill_docker)


subsection \<open>The importance factors\<close>

lemma mixed_lower: "toLowerCase exampleMixedJD = exampleMixedLower"
  by (simp add: exampleMixedJD_def exampleMixedLower_def js_def toLowerCase_def lowerUnit_def)

lemma mixed_found:
  "indexOf exampleMixedLower (js ''reactjs'') = Some 10"
  "indexOf exampleMixedLower (js ''react.js'') = Some 109"
  by (simp_all add: exampleMixedLower_def js_def indexOf_def startsWith_def)

lemma clean_react:
  "trim (js ''reactjs'') = js ''reactjs''" "toLowerCase (js ''reactjs'') = js ''reactjs''"
  "trim (js ''react.js'') = js ''react.js''" "toLowerCase (js ''react.js'') = js ''react.js''"
  by (simp_all add: stringDefs)

lemma mixed_context:
  "contextOf exampleMixedLower 10 (js ''reactjs'') =
     js ''required: reactjs for our web client. you will ship features with a small team and talk to users every week. react.js''"
  "contextOf exampleMixedLower 109 (js ''react.js'') =
     js '' reactjs for our web client. you will ship features with a small team and talk to users every week. react.js is a plus.''"
  by (simp_all add: contextOf_def Let_def substring_def exampleMixedLower_def js_def)

lemma mixed_indicators:
  "hasIndicator requiredIndicators
     (js ''required: reactjs for our web client. you will ship features with a small team and talk to users every week. react.js'')"
  "\<not> hasIndicator requiredIndicators
     (js '' reactjs for our web client. you will ship features with a small team and talk to users every week. react.js is a plus.'')"
  "hasIndicator preferredIndicators
     (js '' reactjs for our web client. you will ship features with a small team and talk to users every week. react.js is a plus.'')"
  by (simp_all add: hasIndicator_def requiredIndicators_def preferredIndicators_def
      searchDefs js_def)

lemma mixed_frequency:
  "termFrequency exampleMixedJD (js ''reactjs'') = 1"
  "termFrequency exampleMixedJD (js ''react.js'') = 1"
  by (simp_all add: termFrequency_def mixed_lower clean_react)
     (simp_all add: exampleMixedLower_def js_def startsWith_def)

lemma mixed_words:
  "splitWords (preprocessText (JString exampleMixedJD)) =
     map js [''Required'', ''ReactJS'', ''for'', ''our'', ''web'', ''client.'', ''You'', ''will'',
       ''ship'', ''features'', ''with'', ''a'', ''small'', ''team'', ''and'', ''talk'', ''to'',
       ''users'', ''every'', ''week.'', ''React.js'', ''is'', ''a'', ''plus.'']"
  unfolding preprocess_string splitWords_def
  by (simp add: exampleMixedJD_def js_def replaceOtherChars_def charDefs isWhiteSpace_def
      trim_def trimStart_def trimEnd_def)

lemma mixed_tfidf:
  "calculateTFIDF exampleMixedJD (js ''reactjs'') = None"
  "calculateTFIDF exampleMixedJD (js ''react.js'') = None"
  by (simp_all add: calculateTFIDF_def Let_def mixed_words js_eq_iff)

lemma generic_react:
  "\<not> isGenericWord (js ''reactjs'')" "\<not> isGenericWord (js ''react.js'')"
  unfolding isGenericWord_def clean_react js_mem_iff
  by (simp_all add: genericWords_def)

lemma normalizeSkill_reactjs: "normalizeSkill (js ''reactjs'') = js ''react''"
  apply (rule normalizeSkill_known)
   apply (simp add: stringDefs)
  unfolding skillNormalizationEntries_def assocLast_append
  apply (simp add: groupDefs)
  done

lemma normalizeSkill_react_js: "normalizeSkill (js ''react.js'') = js ''react''"
  apply (rule normalizeSkill_known)
   apply (simp add: stringDefs)
  unfolding skillNormalizationEntries_def assocLast_append
  apply (simp add: groupDefs)
  done


lemma mixed_categories:
  "categorizeSkillImportance exampleMixedJD [js ''reactjs'', js ''react.js'']
     = ([js ''react''], [js ''react''])"
  by (simp add: categorizeSkillImportance_def categorizeTerm_cases mixed_lower clean_react
      mixed_found mixed_context mixed_indicators normalizeSkill_reactjs
      normalizeSkill_react_js setAdd_def del: categorizeTerm.simps)

lemma weighTerm_weight:
  "weight (weighTerm jd tf req pref t) =
     (case tf (toLowerCase t) of Some w \<Rightarrow> if w = 0 then 0.1 else w | None \<Rightarrow> 0.1)
     * (if normalizeSkill t \<in> set req then 3 else 1)
     * (if normalizeSkill t \<in> set pref then 1.5 else 1)
     * (if termFrequency jd t > 2 then 1.3 else 1)
     * (if isGenericWord t then 0.3 else 1)"
  by (simp add: weighTerm_def Let_def)

lemma noise_react:
  "\<not> isNoiseTerm (js ''reactjs'')" "\<not> isNoiseTerm (js ''react.js'')"
proof -
  have t: "js ''reactjs'' = 114 # js ''eactjs''" "js ''react.js'' = 114 # js ''eact.js''"
    by (simp_all add: js_def)
  have a: "''reactjs'' \<notin> set actionWords" "''react.js'' \<notin> set actionWords"
    by (simp_all add: actionWords_def)
  have n: "''reactjs'' \<notin> set noiseWords" "''react.js'' \<notin> set noiseWords"
    by (simp_all add: noiseWords_def)
  have f: "\<not> list_ex (\<lambda>f. includesStr (js ''reactjs'') (js f)) noiseFragments"
    "\<not> list_ex (\<lambda>f. includesStr (js ''react.js'') (js f)) noiseFragments"
    by (simp_all add: noiseFragments_def searchDefs js_def)
  have l: "\<not> startsWithLeadWord (js ''reactjs'')" "\<not> startsWithLeadWord (js ''react.js'')"
    by (simp_all add: startsWithLeadWord_def noiseLeadWords_def startsWith_def js_def)
  have e: "last (js ''reactjs'') = 115" "last (js ''react.js'') = 115"
    by (simp_all add: js_def)
  show "\<not> isNoiseTerm (js ''reactjs'')"
    unfolding isNoiseTerm_eval [OF clean_react(1,2) t(1), simplified]
    by (simp add: a n f l e isDigit_def)
  show "\<not> isNoiseTerm (js ''react.js'')"
    unfolding isNoiseTerm_eval [OF clean_react(3,4) t(2), simplified]
    by (simp add: a n f l e isDigit_def)
qed

lemma qualifier_react:
  "\<not> isQualifierTerm (js ''reactjs'')" "\<not> isQualifierTerm (js ''react.js'')"
proof -
  have c: "trim (toLowerCase (js ''reactjs'')) = js ''reactjs''"
    "trim (toLowerCase (js ''react.js'')) = js ''react.js''"
    by (simp_all add: clean_react)
  have n: "js ''reactjs'' \<noteq> []" "js ''react.js'' \<noteq> []" by simp_all
  show "\<not> isQualifierTerm (js ''reactjs'')"
    unfolding isQualifierTerm_eval [OF c(1) n(1)]
    by (simp add: qualifiers_def searchDefs js_def)
  show "\<not> isQualifierTerm (js ''react.js'')"
    unfolding isQualifierTerm_eval [OF c(2) n(2)]
    by (simp add: qualifiers_def searchDefs js_def)
qed

lemma cleaned_react:
  "cleanedTerms [js ''reactjs'', js ''react.js''] [] = [js ''reactjs'', js ''react.js'']"
  by (simp add: cleanedTerms_def noise_react qualifier_react)

lemma mixed_weightedTerms:
  "map (\<lambda>t. (term t, originalTerm t, weight t, isRequired t, isPreferred t))
       (weightedTerms (analyzeJobDescription exampleMixedJD [js ''reactjs'', js ''react.js''] []))
     = [(js ''react'', js ''reactjs'', 0.1 * 3 * 1.5, True, True)]"
  by (simp add: weightedTerms_eq cleaned_react mixed_categories
      removeDuplicatesByNormalized_def normalizeSkill_reactjs normalizeSkill_react_js
      setAdd_def weighTerm_weight clean_react mixed_tfidf mixed_frequency generic_react)

text \<open>
  C5. Of the factors 3 and 1.5 at most one is meant to be applied to a term. The two sets
  hold normalised names, and two spellings of one name can be classified differently: in
  the example \<open>reactjs\<close> stands near \<open>Required\<close> and \<open>react.js\<close>, more than a
  hundred characters on, near \<open>plus\<close>. Both normalise to \<open>react\<close>, which is then in
  both sets, and the weighted term \<open>react\<close> has the base weight 0.1 multiplied by 3 and
  by 1.5, and is both required and preferred.
\<close>

theorem both_multipliers_applied:
  "categorizeSkillImportance exampleMixedJD [js ''reactjs'', js ''react.js'']
     = ([js ''react''], [js ''react''])
   \<and> map (\<lambda>t. (term t, originalTerm t, weight t, isRequired t, isPreferred t))
       (weightedTerms (analyzeJobDescription exampleMixedJD [js ''reactjs'', js ''react.js''] []))
     = [(js ''react'', js ''reactjs'', 0.1 * 3 * 1.5, True, True)]"
  using mixed_categories mixed_weightedTerms by (rule conjI)

text \<open>
  The partition for this job description and a resume with the one term \<open>xyz\<close>: the two
  extracted spellings give one weighted term, and the three lists of the result have one
  entry together.
\<close>

theorem partition_complete_witness:
  "length (strongMatches (performATSAnalysis (\<lambda>a b. 0) (exampleResume (js ''xyz''))
             exampleMixedJD [js ''reactjs'', js ''react.js''] []))
   + length (partialMatches (performATSAnalysis (\<lambda>a b. 0) (exampleResume (js ''xyz''))
             exampleMixedJD [js ''reactjs'', js ''react.js''] []))
   + length (missingSkills (performATSAnalysis (\<lambda>a b. 0) (exampleResume (js ''xyz''))
             exampleMixedJD [js ''reactjs'', js ''react.js''] []))
   = 1"
proof -
  have "length (map (\<lambda>t. (term t, originalTerm t, weight t, isRequired t, isPreferred t))
       (weightedTerms (analyzeJobDescription exampleMixedJD [js ''reactjs'', js ''react.js''] [])))
     = 1"
    by (simp only: mixed_weightedTerms list.size)
  then have "length (weightedTerms
       (analyzeJobDescription exampleMixedJD [js ''reactjs'', js ''react.js''] [])) = 1"
    by (simp only: length_map)
  with partition_complete [of "\<lambda>a b. 0" "exampleResume (js ''xyz'')" exampleMixedJD
         "[js ''reactjs'', js ''react.js'']" "[]"]
  show ?thesis by (simp only:)
qed

end
